theory Spec2Isabelle
  imports Complex_Main
begin

section \<open>JavaScript strings\<close>

text \<open>
  Strings are lists of characters with codes below 256. \<open>String.prototype.toLowerCase\<close>
  maps the upper-case letters of that range (A-Z and the accented capitals 192-214 and
  216-222) to the letter 32 places further on and leaves every other character alone.
\<close>

definition toLowerCase_char :: "char \<Rightarrow> char" where
  "toLowerCase_char c =
     (let n = (of_char c :: nat)
      in if (65 \<le> n \<and> n \<le> 90) \<or> (192 \<le> n \<and> n \<le> 214) \<or> (216 \<le> n \<and> n \<le> 222)
         then char_of (n + 32) else c)"

definition toLowerCase :: "string \<Rightarrow> string" where
  "toLowerCase s = map toLowerCase_char s"

fun startsWith :: "string \<Rightarrow> string \<Rightarrow> bool" where
  "startsWith s [] = True"
| "startsWith [] (p # ps) = False"
| "startsWith (c # cs) (p # ps) = (c = p \<and> startsWith cs ps)"

text \<open>\<open>s.includes(pat)\<close>: does \<open>pat\<close> occur in \<open>s\<close> as a substring.\<close>

fun js_includes :: "string \<Rightarrow> string \<Rightarrow> bool" where
  "js_includes [] pat = (pat = [])"
| "js_includes (c # cs) pat = (startsWith (c # cs) pat \<or> js_includes cs pat)"

text \<open>
  \<open>s.replace(pat, repl)\<close> with a string pattern replaces the first occurrence only, and
  expands the dollar patterns of the replacement text: two dollars give one, dollar-ampersand
  the matched text, dollar-backquote the text before the match and dollar-quote the text after
  it. Any other dollar is literal (there are no capture groups for a string pattern).
\<close>

fun splitAtFirst :: "string \<Rightarrow> string \<Rightarrow> (string \<times> string) option" where
  "splitAtFirst [] pat = (if pat = [] then Some ([], []) else None)"
| "splitAtFirst (c # cs) pat =
     (if startsWith (c # cs) pat then Some ([], drop (length pat) (c # cs))
      else (case splitAtFirst cs pat of
              None \<Rightarrow> None
            | Some (front, back) \<Rightarrow> Some (c # front, back)))"

fun GetSubstitution :: "string \<Rightarrow> string \<Rightarrow> string \<Rightarrow> string \<Rightarrow> string" where
  "GetSubstitution matched front back [] = []"
| "GetSubstitution matched front back [c] = [c]"
| "GetSubstitution matched front back (c # d # rest) =
     (if c = CHR 0x24 then
        (if d = CHR 0x24 then CHR 0x24 # GetSubstitution matched front back rest
         else if d = CHR 0x26 then matched @ GetSubstitution matched front back rest
         else if d = CHR 0x60 then front @ GetSubstitution matched front back rest
         else if d = CHR 0x27 then back @ GetSubstitution matched front back rest
         else c # GetSubstitution matched front back (d # rest))
      else c # GetSubstitution matched front back (d # rest))"

definition js_replace :: "string \<Rightarrow> string \<Rightarrow> string \<Rightarrow> string" where
  "js_replace s pat repl =
     (case splitAtFirst s pat of
        None \<Rightarrow> s
      | Some (front, back) \<Rightarrow> front @ GetSubstitution pat front back repl @ back)"

section \<open>Shader fragments of the built-in strategies\<close>

text \<open>
  The template literals returned by \<open>getShaderCode()\<close> of each built-in class and the two
  base templates of the shader manager, character for character. The perspective and the
  stereographic projection interpolate their constructor argument printed with
  \<open>toFixed(2)\<close>; that printed text is the parameter here.
\<close>

definition hypercube_glsl :: string where
  "hypercube_glsl = ''
            // Uniforms used: u_dimension, u_time, u_morphFactor, u_gridDensity, u_lineThickness
            // u_universeModifier, u_audioBass, u_audioMid, u_audioHigh, u_rotationSpeed
            float calculateLattice(vec3 p) {
                float dynamicGridDensity = max(0.1, u_gridDensity * (1.0 + u_audioBass * 0.7));
                float dynamicLineThickness = max(0.002, u_lineThickness * (1.0 - u_audioMid * 0.6));

                vec3 p_grid3D = fract(p * dynamicGridDensity * 0.5 + u_time * 0.01);
                vec3 dist3D = abs(p_grid3D - 0.5);
                float box3D = max(dist3D.x, max(dist3D.y, dist3D.z));
                float lattice3D = smoothstep(0.5, 0.5 - dynamicLineThickness, box3D);

                float finalLattice = lattice3D;
                float dim_factor = smoothstep(3.0, 4.5, u_dimension);

                if (dim_factor > 0.01) {
                    float w_coord = sin(p.x*1.4 - p.y*0.7 + p.z*1.5 + u_time * 0.25)
                                  * cos(length(p) * 1.1 - u_time * 0.35 + u_audioMid * 2.5)
                                  * dim_factor * (0.4 + u_morphFactor * 0.6 + u_audioHigh * 0.6);

                    vec4 p4d = vec4(p, w_coord);
                    float baseSpeed = u_rotationSpeed * 1.0;
                    float time_rot1 = u_time * 0.33 * baseSpeed + u_audioHigh * 0.25 + u_morphFactor * 0.45;
                    float time_rot2 = u_time * 0.28 * baseSpeed - u_audioMid * 0.28;
                    float time_rot3 = u_time * 0.25 * baseSpeed + u_audioBass * 0.35;
                    p4d = rotXW(time_rot1) * rotYZ(time_rot2 * 1.1) * rotZW(time_rot3 * 0.9) * p4d;
                    p4d = rotYW(u_time * -0.22 * baseSpeed + u_morphFactor * 0.3) * p4d;

                    vec3 projectedP = project4Dto3D(p4d);
                    vec3 p_grid4D_proj = fract(projectedP * dynamicGridDensity * 0.5 + u_time * 0.015);
                    vec3 dist4D_proj = abs(p_grid4D_proj - 0.5);
                    float box4D_proj = max(dist4D_proj.x, max(dist4D_proj.y, dist4D_proj.z));
                    float lattice4D_proj = smoothstep(0.5, 0.5 - dynamicLineThickness, box4D_proj);
                    finalLattice = mix(lattice3D, lattice4D_proj, smoothstep(0.0, 1.0, u_morphFactor));
                }
                return pow(finalLattice, 1.0 / max(0.1, u_universeModifier));
            }
        ''"

definition hypersphere_glsl :: string where
  "hypersphere_glsl = ''
            // Uniforms used: u_dimension, u_time, u_morphFactor, u_gridDensity, u_shellWidth
            // u_universeModifier, u_audioBass, u_audioMid, u_audioHigh, u_rotationSpeed
            float calculateLattice(vec3 p) {
                float radius3D = length(p);
                float densityFactor = max(0.1, u_gridDensity * 0.7 * (1.0 + u_audioBass * 0.5));
                float dynamicShellWidth = max(0.005, u_shellWidth * (1.0 + u_audioMid * 1.5));
                float phase = radius3D * densityFactor * 6.28318 - u_time * u_rotationSpeed * 0.8 + u_audioHigh * 3.0;
                float shells3D = 0.5 + 0.5 * sin(phase);
                shells3D = smoothstep(1.0 - dynamicShellWidth, 1.0, shells3D);

                float finalLattice = shells3D;
                float dim_factor = smoothstep(3.0, 4.5, u_dimension);

                if (dim_factor > 0.01) {
                    float w_coord = cos(radius3D * 2.5 - u_time * 0.55)
                                  * sin(p.x*1.0 + p.y*1.3 - p.z*0.7 + u_time*0.2)
                                  * dim_factor * (0.5 + u_morphFactor * 0.5 + u_audioMid * 0.5);

                    vec4 p4d = vec4(p, w_coord);
                    float baseSpeed = u_rotationSpeed * 0.85;
                    float time_rot1 = u_time * 0.38 * baseSpeed + u_audioHigh * 0.2;
                    float time_rot2 = u_time * 0.31 * baseSpeed + u_morphFactor * 0.6;
                    float time_rot3 = u_time * -0.24 * baseSpeed + u_audioBass * 0.25;
                    p4d = rotXW(time_rot1 * 1.05) * rotYZ(time_rot2) * rotYW(time_rot3 * 0.95) * p4d;

                    vec3 projectedP = project4Dto3D(p4d);
                    float radius4D_proj = length(projectedP);
                    float phase4D = radius4D_proj * densityFactor * 6.28318 - u_time * u_rotationSpeed * 0.8 + u_audioHigh * 3.0;
                    float shells4D_proj = 0.5 + 0.5 * sin(phase4D);
                    shells4D_proj = smoothstep(1.0 - dynamicShellWidth, 1.0, shells4D_proj);
                    finalLattice = mix(shells3D, shells4D_proj, smoothstep(0.0, 1.0, u_morphFactor));
                }
                return pow(max(0.0, finalLattice), max(0.1, u_universeModifier));
            }
        ''"

definition hypertetrahedron_glsl :: string where
  "hypertetrahedron_glsl = ''
            // Uniforms used: u_dimension, u_time, u_morphFactor, u_gridDensity, u_tetraThickness
            // u_universeModifier, u_audioBass, u_audioMid, u_audioHigh, u_rotationSpeed
            float calculateLattice(vec3 p) {
                float density = max(0.1, u_gridDensity * 0.65 * (1.0 + u_audioBass * 0.4));
                float dynamicThickness = max(0.003, u_tetraThickness * (1.0 - u_audioMid * 0.7));

                vec3 c1=normalize(vec3(1,1,1)), c2=normalize(vec3(-1,-1,1)), c3=normalize(vec3(-1,1,-1)), c4=normalize(vec3(1,-1,-1));
                vec3 p_mod3D = fract(p * density * 0.5 + 0.5 + u_time * 0.005) - 0.5;
                float d1=dot(p_mod3D, c1), d2=dot(p_mod3D, c2), d3=dot(p_mod3D, c3), d4=dot(p_mod3D, c4);
                float minDistToPlane3D = min(min(abs(d1), abs(d2)), min(abs(d3), abs(d4)));
                float lattice3D = 1.0 - smoothstep(0.0, dynamicThickness, minDistToPlane3D);

                float finalLattice = lattice3D;
                float dim_factor = smoothstep(3.0, 4.5, u_dimension);

                if (dim_factor > 0.01) {
                    float w_coord = cos(p.x*1.8 - p.y*1.5 + p.z*1.2 + u_time*0.24) * sin(length(p)*1.4 + u_time*0.18 - u_audioMid*2.0) * dim_factor * (0.45 + u_morphFactor*0.55 + u_audioHigh*0.4);
                    vec4 p4d = vec4(p, w_coord);
                    float baseSpeed = u_rotationSpeed * 1.15;
                    float time_rot1 = u_time*0.28*baseSpeed + u_audioHigh*0.25; 
                    float time_rot2 = u_time*0.36*baseSpeed - u_audioBass*0.2 + u_morphFactor*0.4; 
                    float time_rot3 = u_time*0.32*baseSpeed + u_audioMid*0.15;
                    p4d = rotXW(time_rot1*0.95) * rotYW(time_rot2*1.05) * rotZW(time_rot3) * p4d;
                    vec3 projectedP = project4Dto3D(p4d);

                    vec3 p_mod4D_proj = fract(projectedP * density * 0.5 + 0.5 + u_time * 0.008) - 0.5;
                    float dp1=dot(p_mod4D_proj,c1), dp2=dot(p_mod4D_proj,c2), dp3=dot(p_mod4D_proj,c3), dp4=dot(p_mod4D_proj,c4);
                    float minDistToPlane4D = min(min(abs(dp1), abs(dp2)), min(abs(dp3), abs(dp4)));
                    float lattice4D_proj = 1.0 - smoothstep(0.0, dynamicThickness, minDistToPlane4D);
                    finalLattice = mix(lattice3D, lattice4D_proj, smoothstep(0.0, 1.0, u_morphFactor));
                }
                return pow(max(0.0, finalLattice), max(0.1, u_universeModifier));
            }
        ''"

definition torus_glsl :: string where
  "torus_glsl = ''
            float calculateLattice(vec3 p) {
                float density = max(0.1, u_gridDensity * 0.8 * (1.0 + u_audioBass * 0.6));
                vec3 p_mod = fract(p * density) - 0.5;
                float r1 = sqrt(p_mod.x*p_mod.x + p_mod.y*p_mod.y);
                float r2 = sqrt((r1 - 0.3)*(r1 - 0.3) + p_mod.z*p_mod.z);
                float torus = 1.0 - smoothstep(0.0, 0.1, r2);
                return pow(max(0.0, torus), max(0.1, u_universeModifier));
            }
        ''"

definition klein_glsl :: string where
  "klein_glsl = ''
            float calculateLattice(vec3 p) {
                float density = max(0.1, u_gridDensity * 0.9 * (1.0 + u_audioBass * 0.5));
                vec3 q = fract(p * density);
                float u = q.x * 2.0 * 3.14159;
                float v = q.y * 2.0 * 3.14159;
                float x = cos(u) * (3.0 + cos(u/2.0) * sin(v) - sin(u/2.0) * sin(2.0*v));
                float klein = length(vec2(x, q.z)) - 0.1;
                return 1.0 - smoothstep(0.0, 0.05, abs(klein));
            }
        ''"

definition fractal_glsl :: string where
  "fractal_glsl = ''
            float calculateLattice(vec3 p) {
                vec3 q = p * u_gridDensity;
                float scale = 1.0;
                float fractal = 0.0;
                for(int i = 0; i < 4; i++) {
                    q = fract(q) - 0.5;
                    fractal += abs(length(q)) / scale;
                    scale *= 2.0;
                    q *= 2.0;
                }
                return 1.0 - smoothstep(0.0, 1.0, fractal);
            }
        ''"

definition wave_glsl :: string where
  "wave_glsl = ''
            float calculateLattice(vec3 p) {
                vec3 q = p * u_gridDensity;
                float wave = sin(q.x * 2.0) * sin(q.y * 2.0) * sin(q.z * 2.0 + u_time);
                return smoothstep(-0.5, 0.5, wave);
            }
        ''"

definition crystal_glsl :: string where
  "crystal_glsl = ''
            float calculateLattice(vec3 p) {
                vec3 q = fract(p * u_gridDensity) - 0.5;
                float d = max(max(abs(q.x), abs(q.y)), abs(q.z));
                return 1.0 - smoothstep(0.3, 0.5, d);
            }
        ''"

definition perspective_glsl :: "string \<Rightarrow> string" where
  "perspective_glsl viewDistance = ''vec3 project4Dto3D(vec4 p) { 
            float baseDistance = '' @ viewDistance @ ''; 
            float dynamicDistance = max(0.2, baseDistance * (1.0 + u_morphFactor * 0.4 - u_audioMid * 0.35)); 
            float denominator = dynamicDistance + p.w; 
            float w_factor = dynamicDistance / max(0.1, denominator); 
            return p.xyz * w_factor; 
        }''"

definition orthographic_glsl :: string where
  "orthographic_glsl = ''vec3 project4Dto3D(vec4 p) { 
            vec3 orthoP = p.xyz; 
            float basePerspectiveDistance = 2.5; 
            float dynamicPerspectiveDistance = max(0.2, basePerspectiveDistance * (1.0 - u_audioMid * 0.4)); 
            float perspDenominator = dynamicPerspectiveDistance + p.w; 
            float persp_w_factor = dynamicPerspectiveDistance / max(0.1, perspDenominator); 
            vec3 perspP = p.xyz * persp_w_factor; 
            float morphT = smoothstep(0.0, 1.0, u_morphFactor); 
            return mix(orthoP, perspP, morphT); 
        }''"

definition stereographic_glsl :: "string \<Rightarrow> string" where
  "stereographic_glsl poleW = ''vec3 project4Dto3D(vec4 p) { 
            float basePoleW = '' @ poleW @ ''; 
            float dynamicPoleW = sign(basePoleW) * max(0.1, abs(basePoleW + u_audioHigh * 0.4 * sign(basePoleW))); 
            float denominator = p.w - dynamicPoleW; 
            vec3 projectedP; 
            float epsilon = 0.001; 
            if (abs(denominator) < epsilon) { 
                projectedP = normalize(p.xyz + vec3(epsilon)) * 1000.0; 
            } else { 
                float scale = (-dynamicPoleW) / denominator; 
                projectedP = p.xyz * scale; 
            } 
            float morphT = smoothstep(0.0, 1.0, u_morphFactor * 0.8); 
            vec3 orthoP = p.xyz; 
            return mix(projectedP, orthoP, morphT); 
        }''"

definition baseVertexShaderSource :: string where
  "baseVertexShaderSource = ''attribute vec2 a_position; varying vec2 v_uv; void main() { v_uv = a_position * 0.5 + 0.5; gl_Position = vec4(a_position, 0.0, 1.0); }''"

definition baseFragmentShaderSource :: string where
  "baseFragmentShaderSource = ''
            precision highp float;
            uniform vec2 u_resolution; uniform float u_time;
            uniform float u_dimension; uniform float u_morphFactor; uniform float u_rotationSpeed;
            uniform float u_universeModifier; uniform float u_patternIntensity; uniform float u_gridDensity;
            uniform float u_lineThickness; uniform float u_shellWidth; uniform float u_tetraThickness;
            uniform float u_audioBass; uniform float u_audioMid; uniform float u_audioHigh;
            uniform float u_glitchIntensity; uniform float u_colorShift;
            uniform vec3 u_primaryColor; uniform vec3 u_secondaryColor; uniform vec3 u_backgroundColor;
            varying vec2 v_uv;
            mat4 rotXW(float a){float c=cos(a),s=sin(a);return mat4(c,0,0,-s, 0,1,0,0, 0,0,1,0, s,0,0,c);} 
            mat4 rotYW(float a){float c=cos(a),s=sin(a);return mat4(1,0,0,0, 0,c,0,-s, 0,0,1,0, 0,s,0,c);} 
            mat4 rotZW(float a){float c=cos(a),s=sin(a);return mat4(1,0,0,0, 0,1,0,0, 0,0,c,-s, 0,0,s,c);} 
            mat4 rotXY(float a){float c=cos(a),s=sin(a);return mat4(c,-s,0,0, s,c,0,0, 0,0,1,0, 0,0,0,1);} 
            mat4 rotYZ(float a){float c=cos(a),s=sin(a);return mat4(1,0,0,0, 0,c,-s,0, 0,s,c,0, 0,0,0,1);} 
            mat4 rotXZ(float a){float c=cos(a),s=sin(a);return mat4(c,0,-s,0, 0,1,0,0, s,0,c,0, 0,0,0,1);}
            vec3 rgb2hsv(vec3 c){vec4 K=vec4(0.,-1./3.,2./3.,-1.);vec4 p=mix(vec4(c.bg,K.wz),vec4(c.gb,K.xy),step(c.b,c.g));vec4 q=mix(vec4(p.xyw,c.r),vec4(c.r,p.yzx),step(p.x,c.r));float d=q.x-min(q.w,q.y);float e=1e-10;return vec3(abs(q.z+(q.w-q.y)/(6.*d+e)),d/(q.x+e),q.x);} 
            vec3 hsv2rgb(vec3 c){vec4 K=vec4(1.,2./3.,1./3.,3.);vec3 p=abs(fract(c.xxx+K.xyz)*6.-K.www);return c.z*mix(K.xxx,clamp(p-K.xxx,0.,1.),c.y);}
            //__PROJECTION_CODE_INJECTION_POINT__
            //__GEOMETRY_CODE_INJECTION_POINT__
            void main() {
                vec2 aspect = vec2(u_resolution.x / u_resolution.y, 1.0); 
                vec2 uv = (v_uv * 2.0 - 1.0) * aspect;
                vec3 rayOrigin = vec3(0.0, 0.0, -2.5); 
                vec3 rayDirection = normalize(vec3(uv, 1.0));
                float camRotY = u_time * 0.05 * u_rotationSpeed + u_audioMid * 0.1; 
                float camRotX = sin(u_time * 0.03 * u_rotationSpeed) * 0.15 + u_audioHigh * 0.1;
                mat4 camMat = rotXY(camRotX) * rotYZ(camRotY); 
                rayDirection = (camMat * vec4(rayDirection, 0.0)).xyz;
                vec3 p = rayDirection * 1.5; 
                float latticeValue = calculateLattice(p);
                vec3 color = mix(u_backgroundColor, u_primaryColor, latticeValue);
                color = mix(color, u_secondaryColor, smoothstep(0.2, 0.7, u_audioMid) * latticeValue * 0.6);
                if (abs(u_colorShift) > 0.01) { 
                    vec3 hsv = rgb2hsv(color); 
                    hsv.x = fract(hsv.x + u_colorShift * 0.5 + u_audioHigh * 0.1); 
                    color = hsv2rgb(hsv); 
                }
                color *= (0.8 + u_patternIntensity * 0.7);
                color = pow(clamp(color, 0.0, 1.5), vec3(0.9));
                gl_FragColor = vec4(color, 1.0);
            }
        ''"

text \<open>The texts are long; they are compared and searched as wholes, never taken apart by evaluation.\<close>

declare hypercube_glsl_def [code del] hypersphere_glsl_def [code del]
  hypertetrahedron_glsl_def [code del] torus_glsl_def [code del] klein_glsl_def [code del]
  fractal_glsl_def [code del] wave_glsl_def [code del] crystal_glsl_def [code del]
  perspective_glsl_def [code del] orthographic_glsl_def [code del]
  stereographic_glsl_def [code del] baseVertexShaderSource_def [code del]
  baseFragmentShaderSource_def [code del]

section \<open>JavaScript values, exceptions and objects used as dictionaries\<close>

datatype js_error = Error string | TypeError string

text \<open>
  The values a parameter map or the state object can hold: JSON values. Numbers are the
  finite ones (no NaN, no infinities, no negative zero), so that two values have the same
  \<open>JSON.stringify\<close> text exactly when they are equal here; the properties of an object are
  kept in insertion order.
\<close>

datatype jsval =
    JNull
  | JBool bool
  | JNum real
  | JStr string
  | JArr "jsval list"
  | JObj "(string \<times> jsval) list"

fun truthy :: "jsval \<Rightarrow> bool" where
  "truthy JNull = False"
| "truthy (JBool b) = b"
| "truthy (JNum r) = (r \<noteq> 0)"
| "truthy (JStr s) = (s \<noteq> [])"
| "truthy (JArr xs) = True"
| "truthy (JObj ps) = True"

text \<open>
  How a call completes: normally with a value, or by throwing. \<open>Unmodelled\<close> marks the
  few places where the state holds a value on which the source would apply a coercion
  that is not embedded here (a string or an object read as a number, a parameter map
  overwriting the dirty set or the callbacks).
\<close>

datatype 'a completion = Normal 'a | Throw js_error | Unmodelled

fun andThen :: "'a completion \<Rightarrow> ('a \<Rightarrow> 'b completion) \<Rightarrow> 'b completion" where
  "andThen (Normal x) f = f x"
| "andThen (Throw e) f = Throw e"
| "andThen Unmodelled f = Unmodelled"

text \<open>
  The registries are plain objects (\<open>{}\<close>) indexed by name. Reading \<open>obj[key]\<close> finds an
  own property, or else what the prototype chain gives, or else \<open>undefined\<close>. The chain
  ends in \<open>Object.prototype\<close>, whose properties are functions or objects: truthy, and not
  strategies. The key \<open>__proto__\<close> is an accessor of \<open>Object.prototype\<close>: the assignment
  \<open>obj['__proto__'] = instance\<close> stores no property, it makes the instance the prototype of
  the object. From then on \<open>obj['__proto__']\<close> reads that instance, and the properties the
  instance has are inherited, too. No assignment creates an own property of that name.
\<close>

datatype 'a property = Own 'a | Prototype 'a | Inherited | Undefined

definition objectPrototypeKeys :: "string list" where
  "objectPrototypeKeys =
     [''constructor'', ''__proto__'', ''hasOwnProperty'', ''isPrototypeOf'',
      ''propertyIsEnumerable'', ''toString'', ''toLocaleString'', ''valueOf'',
      ''__defineGetter__'', ''__defineSetter__'', ''__lookupGetter__'', ''__lookupSetter__'']"

text \<open>
  \<open>obj[key]\<close> for an object with the own properties \<open>obj\<close> whose prototype is
  \<open>Object.prototype\<close> (\<open>None\<close>) or an instance; \<open>propertiesOf\<close> gives the names of the truthy
  properties an instance has besides those of \<open>Object.prototype\<close>.
\<close>

definition getProperty ::
  "(string \<rightharpoonup> 'a) \<Rightarrow> 'a option \<Rightarrow> ('a \<Rightarrow> string list) \<Rightarrow> string \<Rightarrow> 'a property" where
  "getProperty obj proto propertiesOf key =
     (if key = ''__proto__''
      then (case proto of None \<Rightarrow> Inherited | Some instance \<Rightarrow> Prototype instance)
      else
        (case obj key of
           Some v \<Rightarrow> Own v
         | None \<Rightarrow>
             if key \<in> set objectPrototypeKeys then Inherited
             else (case proto of
                     None \<Rightarrow> Undefined
                   | Some instance \<Rightarrow>
                       if key \<in> set (propertiesOf instance) then Inherited else Undefined)))"

text \<open>Strategy instances are objects, so what was read is falsy only when it is undefined.\<close>

fun isDefined :: "'a property \<Rightarrow> bool" where
  "isDefined (Own v) = True"
| "isDefined (Prototype v) = True"
| "isDefined Inherited = True"
| "isDefined Undefined = False"

section \<open>Geometry and projection classes\<close>


text \<open>
  \<open>BaseGeometry\<close> and its subclasses. \<open>SubclassGeometry\<close> is any further subclass that
  overrides \<open>getShaderCode()\<close> and adds nothing else, given by what the method does: return
  a value (a string, when it is well behaved) or throw.
\<close>

datatype geometry =
    BaseGeometry
  | HypercubeGeometry
  | HypersphereGeometry
  | HypertetrahedronGeometry
  | TorusGeometry
  | KleinGeometry
  | FractalGeometry
  | WaveGeometry
  | CrystalGeometry
  | SubclassGeometry "jsval completion"

fun geometry_getShaderCode :: "geometry \<Rightarrow> jsval completion" where
  "geometry_getShaderCode BaseGeometry = Throw (Error ''getShaderCode() must be implemented.'')"
| "geometry_getShaderCode HypercubeGeometry = Normal (JStr hypercube_glsl)"
| "geometry_getShaderCode HypersphereGeometry = Normal (JStr hypersphere_glsl)"
| "geometry_getShaderCode HypertetrahedronGeometry = Normal (JStr hypertetrahedron_glsl)"
| "geometry_getShaderCode TorusGeometry = Normal (JStr torus_glsl)"
| "geometry_getShaderCode KleinGeometry = Normal (JStr klein_glsl)"
| "geometry_getShaderCode FractalGeometry = Normal (JStr fractal_glsl)"
| "geometry_getShaderCode WaveGeometry = Normal (JStr wave_glsl)"
| "geometry_getShaderCode CrystalGeometry = Normal (JStr crystal_glsl)"
| "geometry_getShaderCode (SubclassGeometry r) = r"

text \<open>
  What an instance has besides the properties of \<open>Object.prototype\<close>: the method of its
  class; the constructors of the geometries store nothing.
\<close>

definition geometry_properties :: "geometry \<Rightarrow> string list" where
  "geometry_properties g = [''getShaderCode'']"

text \<open>
  \<open>BaseProjection\<close> and its subclasses; the perspective and stereographic projections carry
  the \<open>toFixed(2)\<close> text of the number their constructor stored (\<open>NaN\<close> for a NaN), and
  \<open>SubclassProjection\<close> is any further subclass that overrides \<open>getShaderCode()\<close> only.
\<close>

datatype projection =
    BaseProjection
  | PerspectiveProjection string
  | OrthographicProjection
  | StereographicProjection string
  | SubclassProjection "jsval completion"

fun projection_getShaderCode :: "projection \<Rightarrow> jsval completion" where
  "projection_getShaderCode BaseProjection = Throw (Error ''getShaderCode() must be implemented.'')"
| "projection_getShaderCode (PerspectiveProjection d) = Normal (JStr (perspective_glsl d))"
| "projection_getShaderCode OrthographicProjection = Normal (JStr orthographic_glsl)"
| "projection_getShaderCode (StereographicProjection w) = Normal (JStr (stereographic_glsl w))"
| "projection_getShaderCode (SubclassProjection r) = r"

text \<open>
  The truthy properties of an instance besides those of \<open>Object.prototype\<close>: the method, and
  the number the constructor stored, which is never zero and is falsy only as NaN.
\<close>

fun projection_properties :: "projection \<Rightarrow> string list" where
  "projection_properties (PerspectiveProjection d) =
     (if d = ''NaN'' then [''getShaderCode''] else [''getShaderCode'', ''viewDistance''])"
| "projection_properties (StereographicProjection w) =
     (if w = ''NaN'' then [''getShaderCode''] else [''getShaderCode'', ''baseProjectionPoleW''])"
| "projection_properties p = [''getShaderCode'']"

text \<open>The second argument of a registration: an instance of one of the two hierarchies, or anything else.\<close>

datatype js_instance = GeometryInstance geometry | ProjectionInstance projection | OtherValue jsval

section \<open>GeometryManager and ProjectionManager\<close>

text \<open>
  \<open>this.geometries\<close> is the map of its own properties together with the instance that has
  become its prototype, if an assignment to \<open>__proto__\<close> has replaced \<open>Object.prototype\<close>.
\<close>

record GeometryManager =
  defaultGeometry :: string
  geometries :: "string \<rightharpoonup> geometry"
  geometriesPrototype :: "geometry option"

text \<open>
  \<open>registerGeometry(name, instance)\<close>. \<open>name.toLowerCase()\<close> comes first and throws for a
  name that is not a string. The only check is \<open>instance instanceof BaseGeometry\<close>; a failed
  check logs and returns, nothing is thrown. Then \<open>this.geometries[lowerCaseName] = instance\<close>.
\<close>

fun registerGeometry :: "GeometryManager \<Rightarrow> jsval \<Rightarrow> js_instance \<Rightarrow> GeometryManager completion" where
  "registerGeometry gm (JStr name) (GeometryInstance g) =
     (let lowerCaseName = toLowerCase name
      in Normal (if lowerCaseName = ''__proto__'' then gm\<lparr>geometriesPrototype := Some g\<rparr>
                 else gm\<lparr>geometries := (geometries gm)(lowerCaseName \<mapsto> g)\<rparr>))"
| "registerGeometry gm (JStr name) other = Normal gm"
| "registerGeometry gm JNull instance = Throw (TypeError ''Cannot read properties of null'')"
| "registerGeometry gm name instance = Throw (TypeError ''name.toLowerCase is not a function'')"

definition initGeometries :: "GeometryManager \<Rightarrow> GeometryManager completion" where
  "initGeometries gm0 =
     andThen (registerGeometry gm0 (JStr ''hypercube'') (GeometryInstance HypercubeGeometry)) (\<lambda>gm1.
     andThen (registerGeometry gm1 (JStr ''hypersphere'') (GeometryInstance HypersphereGeometry)) (\<lambda>gm2.
     andThen (registerGeometry gm2 (JStr ''hypertetrahedron'') (GeometryInstance HypertetrahedronGeometry)) (\<lambda>gm3.
     andThen (registerGeometry gm3 (JStr ''torus'') (GeometryInstance TorusGeometry)) (\<lambda>gm4.
     andThen (registerGeometry gm4 (JStr ''klein'') (GeometryInstance KleinGeometry)) (\<lambda>gm5.
     andThen (registerGeometry gm5 (JStr ''fractal'') (GeometryInstance FractalGeometry)) (\<lambda>gm6.
     andThen (registerGeometry gm6 (JStr ''wave'') (GeometryInstance WaveGeometry)) (\<lambda>gm7.
     registerGeometry gm7 (JStr ''crystal'') (GeometryInstance CrystalGeometry))))))))"

text \<open>\<open>new GeometryManager(options)\<close>; the argument is \<open>options.defaultGeometry\<close> when given.\<close>

definition new_GeometryManager :: "string option \<Rightarrow> GeometryManager completion" where
  "new_GeometryManager opt =
     initGeometries \<lparr>defaultGeometry = (case opt of None \<Rightarrow> ''hypercube'' | Some d \<Rightarrow> d),
                     geometries = Map.empty, geometriesPrototype = None\<rparr>"

text \<open>
  \<open>getGeometry(name)\<close>: a falsy name selects the default name as it is, a string is
  lower-cased, any other truthy value has no \<open>toLowerCase\<close>. A name under which nothing
  truthy is read falls back to what is read under the lower-cased default name.
\<close>

definition geometryProperty :: "GeometryManager \<Rightarrow> string \<Rightarrow> geometry property" where
  "geometryProperty gm key =
     getProperty (geometries gm) (geometriesPrototype gm) geometry_properties key"

definition geometryLookup :: "GeometryManager \<Rightarrow> string \<Rightarrow> geometry property" where
  "geometryLookup gm lowerCaseName =
     (let geometry = geometryProperty gm lowerCaseName
      in if \<not> isDefined geometry
         then geometryProperty gm (toLowerCase (defaultGeometry gm))
         else geometry)"

fun getGeometry :: "GeometryManager \<Rightarrow> jsval \<Rightarrow> geometry property completion" where
  "getGeometry gm (JStr s) =
     (if s \<noteq> [] then Normal (geometryLookup gm (toLowerCase s))
      else Normal (geometryLookup gm (defaultGeometry gm)))"
| "getGeometry gm name =
     (if truthy name then Throw (TypeError ''name.toLowerCase is not a function'')
      else Normal (geometryLookup gm (defaultGeometry gm)))"

definition getGeometryTypes :: "GeometryManager \<Rightarrow> string set" where
  "getGeometryTypes gm = dom (geometries gm)"

record ProjectionManager =
  defaultProjection :: string
  projections :: "string \<rightharpoonup> projection"
  projectionsPrototype :: "projection option"

fun registerProjection :: "ProjectionManager \<Rightarrow> jsval \<Rightarrow> js_instance \<Rightarrow> ProjectionManager completion" where
  "registerProjection pm (JStr name) (ProjectionInstance p) =
     (let lowerCaseName = toLowerCase name
      in Normal (if lowerCaseName = ''__proto__'' then pm\<lparr>projectionsPrototype := Some p\<rparr>
                 else pm\<lparr>projections := (projections pm)(lowerCaseName \<mapsto> p)\<rparr>))"
| "registerProjection pm (JStr name) other = Normal pm"
| "registerProjection pm JNull instance = Throw (TypeError ''Cannot read properties of null'')"
| "registerProjection pm name instance = Throw (TypeError ''name.toLowerCase is not a function'')"

definition initProjections :: "ProjectionManager \<Rightarrow> ProjectionManager completion" where
  "initProjections pm0 =
     andThen (registerProjection pm0 (JStr ''perspective'')
                (ProjectionInstance (PerspectiveProjection ''2.50''))) (\<lambda>pm1.
     andThen (registerProjection pm1 (JStr ''orthographic'')
                (ProjectionInstance OrthographicProjection)) (\<lambda>pm2.
     registerProjection pm2 (JStr ''stereographic'')
       (ProjectionInstance (StereographicProjection ''-1.50''))))"

definition new_ProjectionManager :: "string option \<Rightarrow> ProjectionManager completion" where
  "new_ProjectionManager opt =
     initProjections \<lparr>defaultProjection = (case opt of None \<Rightarrow> ''perspective'' | Some d \<Rightarrow> d),
                      projections = Map.empty, projectionsPrototype = None\<rparr>"

definition projectionProperty :: "ProjectionManager \<Rightarrow> string \<Rightarrow> projection property" where
  "projectionProperty pm key =
     getProperty (projections pm) (projectionsPrototype pm) projection_properties key"

definition projectionLookup :: "ProjectionManager \<Rightarrow> string \<Rightarrow> projection property" where
  "projectionLookup pm lowerCaseName =
     (let projection = projectionProperty pm lowerCaseName
      in if \<not> isDefined projection
         then projectionProperty pm (toLowerCase (defaultProjection pm))
         else projection)"

fun getProjection :: "ProjectionManager \<Rightarrow> jsval \<Rightarrow> projection property completion" where
  "getProjection pm (JStr s) =
     (if s \<noteq> [] then Normal (projectionLookup pm (toLowerCase s))
      else Normal (projectionLookup pm (defaultProjection pm)))"
| "getProjection pm name =
     (if truthy name then Throw (TypeError ''name.toLowerCase is not a function'')
      else Normal (projectionLookup pm (defaultProjection pm)))"

definition getProjectionTypes :: "ProjectionManager \<Rightarrow> string set" where
  "getProjectionTypes pm = dom (projections pm)"

section \<open>The WebGL context\<close>

text \<open>
  The part of a \<open>WebGLRenderingContext\<close> the shader manager and the core depend on. Shader,
  program and uniform-location objects are numbered handles. What the driver decides is
  given by four functions of the record: whether a source text compiles, whether a vertex
  and a fragment text link, and where a program has a uniform or an attribute (no location
  when the name is not active in the linked program). Creating an object returns
  \<open>null\<close> exactly when the context is lost. The record keeps what was deleted, which
  program is in use, every uniform upload and the number of draw calls; viewport, blending
  and clear colour are not recorded.
\<close>

record WebGL =
  contextLost :: bool
  nextHandle :: nat
  compileStatus :: "string \<Rightarrow> bool"
  linkStatus :: "string \<Rightarrow> string \<Rightarrow> bool"
  uniformLocationOf :: "nat \<Rightarrow> string \<Rightarrow> nat option"
  attribLocationOf :: "nat \<Rightarrow> string \<Rightarrow> nat option"
  shaderText :: "nat \<rightharpoonup> string"
  deletedShaders :: "nat set"
  deletedPrograms :: "nat set"
  currentProgram :: "nat option"
  uniformCalls :: "(nat \<times> jsval option) list"
  drawCalls :: nat

definition gl_createObject :: "WebGL \<Rightarrow> nat option \<times> WebGL" where
  "gl_createObject gl =
     (if contextLost gl then (None, gl)
      else (Some (nextHandle gl), gl\<lparr>nextHandle := Suc (nextHandle gl)\<rparr>))"

definition gl_shaderSource :: "WebGL \<Rightarrow> nat \<Rightarrow> string \<Rightarrow> WebGL" where
  "gl_shaderSource gl shader source = gl\<lparr>shaderText := (shaderText gl)(shader \<mapsto> source)\<rparr>"

definition gl_COMPILE_STATUS :: "WebGL \<Rightarrow> nat \<Rightarrow> bool" where
  "gl_COMPILE_STATUS gl shader =
     (case shaderText gl shader of
        None \<Rightarrow> False
      | Some source \<Rightarrow> \<not> contextLost gl \<and> compileStatus gl source)"

definition gl_LINK_STATUS :: "WebGL \<Rightarrow> nat \<Rightarrow> nat \<Rightarrow> bool" where
  "gl_LINK_STATUS gl vertexShader fragmentShader =
     (case (shaderText gl vertexShader, shaderText gl fragmentShader) of
        (Some vs, Some fs) \<Rightarrow> \<not> contextLost gl \<and> linkStatus gl vs fs
      | _ \<Rightarrow> False)"

definition gl_deleteShader :: "WebGL \<Rightarrow> nat \<Rightarrow> WebGL" where
  "gl_deleteShader gl shader = gl\<lparr>deletedShaders := insert shader (deletedShaders gl)\<rparr>"

definition gl_deleteProgram :: "WebGL \<Rightarrow> nat \<Rightarrow> WebGL" where
  "gl_deleteProgram gl program = gl\<lparr>deletedPrograms := insert program (deletedPrograms gl)\<rparr>"

definition gl_useProgram :: "WebGL \<Rightarrow> nat option \<Rightarrow> WebGL" where
  "gl_useProgram gl program = gl\<lparr>currentProgram := program\<rparr>"

definition gl_getUniformLocation :: "WebGL \<Rightarrow> nat \<Rightarrow> string \<Rightarrow> nat option" where
  "gl_getUniformLocation gl program name =
     (if contextLost gl then None else uniformLocationOf gl program name)"

definition gl_getAttribLocation :: "WebGL \<Rightarrow> nat \<Rightarrow> string \<Rightarrow> nat option" where
  "gl_getAttribLocation gl program name =
     (if contextLost gl then None else attribLocationOf gl program name)"

definition gl_uniform :: "WebGL \<Rightarrow> nat \<Rightarrow> jsval option \<Rightarrow> WebGL" where
  "gl_uniform gl loc v = gl\<lparr>uniformCalls := uniformCalls gl @ [(loc, v)]\<rparr>"

section \<open>ShaderManager\<close>

datatype shaderType = VERTEX_SHADER | FRAGMENT_SHADER

text \<open>
  The tables of the shader manager are objects indexed by shader identifier and program
  name; \<open>null\<close> entries (left by a failed compile or link) are entries holding \<open>None\<close>.
  The identifiers and program names used as keys are taken not to be names of
  \<open>Object.prototype\<close> properties. The geometry and projection manager are the objects the
  core holds as well.
\<close>

record ShaderManager =
  geometryManager :: GeometryManager
  projectionManager :: ProjectionManager
  baseVertexShaderName :: string
  baseFragmentShaderName :: string
  shaderSources :: "string \<rightharpoonup> string \<times> shaderType"
  compiledShaders :: "string \<rightharpoonup> nat option"
  programs :: "string \<rightharpoonup> nat option"
  uniformLocations :: "string \<rightharpoonup> (string \<rightharpoonup> nat option)"
  attributeLocations :: "string \<rightharpoonup> (string \<rightharpoonup> nat option)"
  currentProgramName :: "string option"

text \<open>
  Every \<open>return null\<close> of the shader manager follows a \<open>console.error\<close> line of its own.
  The embedding returns, in place of \<open>null\<close>, which of these lines was printed.
\<close>

datatype failure =
    BaseVSMissing             \<comment> \<open>Base VS source missing.\<close>
  | VertexCompileFailed       \<comment> \<open>Vertex shader compilation failed\<close>
  | ProviderMissing           \<comment> \<open>Geom/Proj provider missing.\<close>
  | InvalidGLSL               \<comment> \<open>Invalid GLSL returned.\<close>
  | MissingCalculateLattice   \<comment> \<open>Geometry shader missing calculateLattice function\<close>
  | MissingProject4Dto3D      \<comment> \<open>Projection shader missing project4Dto3D function\<close>
  | BaseFSMissing             \<comment> \<open>Base FS source missing.\<close>
  | InjectionFailed           \<comment> \<open>Shader code injection failed - injection points still present\<close>
  | FragmentCompileFailed     \<comment> \<open>Fragment shader compilation failed\<close>
  | CreateShaderFailed        \<comment> \<open>Failed create shader\<close>
  | CompileError              \<comment> \<open>Compile error shader\<close>
  | CreateProgramFailed       \<comment> \<open>Failed create program\<close>
  | LinkError                 \<comment> \<open>Link error program\<close>

datatype 'a nullable = Null failure | Object 'a

definition registerShaderSource ::
  "ShaderManager \<Rightarrow> string \<Rightarrow> string \<Rightarrow> shaderType \<Rightarrow> ShaderManager" where
  "registerShaderSource sm name source type =
     sm\<lparr>shaderSources := (shaderSources sm)(name \<mapsto> (source, type))\<rparr>"

text \<open>
  \<open>new ShaderManager(gl, geometryManager, projectionManager)\<close> with default options. Each
  argument may be missing; the constructor throws on the first missing one.
\<close>

definition new_ShaderManager ::
  "WebGL option \<Rightarrow> GeometryManager option \<Rightarrow> ProjectionManager option
     \<Rightarrow> ShaderManager completion" where
  "new_ShaderManager gl gm pm =
     (case gl of
        None \<Rightarrow> Throw (Error ''WebGL context needed.'')
      | Some g \<Rightarrow>
     (case gm of
        None \<Rightarrow> Throw (Error ''GeometryManager needed.'')
      | Some geometryManager' \<Rightarrow>
     (case pm of
        None \<Rightarrow> Throw (Error ''ProjectionManager needed.'')
      | Some projectionManager' \<Rightarrow>
          Normal
            (registerShaderSource
              (registerShaderSource
                 \<lparr>geometryManager = geometryManager',
                  projectionManager = projectionManager',
                  baseVertexShaderName = ''base-vertex'',
                  baseFragmentShaderName = ''base-fragment'',
                  shaderSources = Map.empty,
                  compiledShaders = Map.empty,
                  programs = Map.empty,
                  uniformLocations = Map.empty,
                  attributeLocations = Map.empty,
                  currentProgramName = None\<rparr>
                 ''base-vertex'' baseVertexShaderSource VERTEX_SHADER)
              ''base-fragment'' baseFragmentShaderSource FRAGMENT_SHADER))))"

text \<open>
  \<open>_compileShader\<close>: a truthy cache entry is returned whatever the source text is now; a
  failure stores \<open>null\<close> under the identifier, so the next call compiles again.
\<close>

definition compileShader ::
  "ShaderManager \<Rightarrow> WebGL \<Rightarrow> string \<Rightarrow> string \<Rightarrow> shaderType
     \<Rightarrow> nat nullable \<times> ShaderManager \<times> WebGL" where
  "compileShader sm gl shaderIdentifier source type =
     (case compiledShaders sm shaderIdentifier of
        Some (Some cached) \<Rightarrow> (Object cached, sm, gl)
      | _ \<Rightarrow>
        (case gl_createObject gl of
           (None, gl1) \<Rightarrow>
             (Null CreateShaderFailed,
              sm\<lparr>compiledShaders := (compiledShaders sm)(shaderIdentifier \<mapsto> None)\<rparr>, gl1)
         | (Some shader, gl1) \<Rightarrow>
             (let gl2 = gl_shaderSource gl1 shader source
              in if \<not> gl_COMPILE_STATUS gl2 shader
                 then (Null CompileError,
                       sm\<lparr>compiledShaders := (compiledShaders sm)(shaderIdentifier \<mapsto> None)\<rparr>,
                       gl_deleteShader gl2 shader)
                 else (Object shader,
                       sm\<lparr>compiledShaders := (compiledShaders sm)(shaderIdentifier \<mapsto> Some shader)\<rparr>,
                       gl2))))"

text \<open>
  \<open>_createProgram\<close>: a program already stored under the name is deleted, with its location
  caches, before the new one is created and linked.
\<close>

definition dropOldProgram :: "ShaderManager \<Rightarrow> WebGL \<Rightarrow> string \<Rightarrow> ShaderManager \<times> WebGL" where
  "dropOldProgram sm gl programName =
     (case programs sm programName of
        Some (Some old) \<Rightarrow>
          (sm\<lparr>programs := (programs sm)(programName := None),
              uniformLocations := (uniformLocations sm)(programName := None),
              attributeLocations := (attributeLocations sm)(programName := None)\<rparr>,
           gl_deleteProgram gl old)
      | _ \<Rightarrow> (sm, gl))"

definition createProgram ::
  "ShaderManager \<Rightarrow> WebGL \<Rightarrow> string \<Rightarrow> nat \<Rightarrow> nat \<Rightarrow> nat nullable \<times> ShaderManager \<times> WebGL" where
  "createProgram sm gl programName vertexShader fragmentShader =
     (case dropOldProgram sm gl programName of (sm1, gl1) \<Rightarrow>
     (case gl_createObject gl1 of
        (None, gl2) \<Rightarrow> (Null CreateProgramFailed, sm1, gl2)
      | (Some program, gl2) \<Rightarrow>
          if \<not> gl_LINK_STATUS gl2 vertexShader fragmentShader
          then (Null LinkError,
                sm1\<lparr>programs := (programs sm1)(programName \<mapsto> None)\<rparr>,
                gl_deleteProgram gl2 program)
          else (Object program,
                sm1\<lparr>programs := (programs sm1)(programName \<mapsto> Some program),
                    uniformLocations := (uniformLocations sm1)(programName \<mapsto> Map.empty),
                    attributeLocations := (attributeLocations sm1)(programName \<mapsto> Map.empty)\<rparr>,
                gl2)))"

text \<open>
  The text a template literal gives for a strategy name. Composition reads it only after
  both lookups have returned, when a name is a string or a falsy value.
\<close>

fun templateText :: "jsval \<Rightarrow> string option" where
  "templateText (JStr s) = Some s"
| "templateText JNull = Some ''null''"
| "templateText (JBool b) = Some (if b then ''true'' else ''false'')"
| "templateText (JNum r) = (if r = 0 then Some ''0'' else None)"
| "templateText (JArr xs) = None"
| "templateText (JObj ps) = None"

text \<open>\<open>provider.getShaderCode()\<close> on what a lookup returned.\<close>

fun getShaderCodeOf :: "('a \<Rightarrow> jsval completion) \<Rightarrow> 'a property \<Rightarrow> jsval completion" where
  "getShaderCodeOf code (Own provider) = code provider"
| "getShaderCodeOf code (Prototype provider) = code provider"
| "getShaderCodeOf code Inherited = Throw (TypeError ''getShaderCode is not a function'')"
| "getShaderCodeOf code Undefined = Throw (TypeError ''Cannot read properties of undefined'')"

definition GEOMETRY_CODE_INJECTION_POINT :: string where
  "GEOMETRY_CODE_INJECTION_POINT = ''//__GEOMETRY_CODE_INJECTION_POINT__''"

definition PROJECTION_CODE_INJECTION_POINT :: string where
  "PROJECTION_CODE_INJECTION_POINT = ''//__PROJECTION_CODE_INJECTION_POINT__''"

text \<open>The two replacements of \<open>createDynamicProgram\<close>, geometry first.\<close>

definition injectShaderCode :: "string \<Rightarrow> string \<Rightarrow> string \<Rightarrow> string" where
  "injectShaderCode template geomGLSL projGLSL =
     js_replace (js_replace template GEOMETRY_CODE_INJECTION_POINT geomGLSL)
                PROJECTION_CODE_INJECTION_POINT projGLSL"

text \<open>The check that follows them: does either marker text still occur.\<close>

definition injectionPointsPresent :: "string \<Rightarrow> bool" where
  "injectionPointsPresent fsSource =
     (js_includes fsSource GEOMETRY_CODE_INJECTION_POINT
      \<or> js_includes fsSource PROJECTION_CODE_INJECTION_POINT)"

text \<open>
  The middle of \<open>createDynamicProgram\<close>, from the two lookups to the fragment identifier:
  it changes no state. The result is the identifier, the assembled source and the shader
  type of the fragment stage. When a provider returns a truthy value that is not a string,
  the preview printed with the error calls \<open>substring\<close> on it and throws.
\<close>

definition validGLSL :: "jsval \<Rightarrow> jsval \<Rightarrow> (string \<times> string) nullable completion" where
  "validGLSL geomGLSL projGLSL =
     (case (geomGLSL, projGLSL) of
        (JStr g, JStr p) \<Rightarrow> Normal (Object (g, p))
      | _ \<Rightarrow>
        if truthy geomGLSL \<and> (case geomGLSL of JStr g \<Rightarrow> False | _ \<Rightarrow> True)
        then Throw (TypeError ''geomGLSL.substring is not a function'')
        else if truthy projGLSL \<and> (case projGLSL of JStr p \<Rightarrow> False | _ \<Rightarrow> True)
        then Throw (TypeError ''projGLSL.substring is not a function'')
        else Normal (Null InvalidGLSL))"

definition assembleFragment ::
  "ShaderManager \<Rightarrow> jsval \<Rightarrow> jsval \<Rightarrow> (string \<times> string \<times> shaderType) nullable completion" where
  "assembleFragment sm geometryTypeName projectionMethodName =
     andThen (getGeometry (geometryManager sm) geometryTypeName) (\<lambda>geom.
     andThen (getProjection (projectionManager sm) projectionMethodName) (\<lambda>proj.
       if \<not> isDefined geom \<or> \<not> isDefined proj then Normal (Null ProviderMissing)
       else
     andThen (getShaderCodeOf geometry_getShaderCode geom) (\<lambda>geomGLSL.
     andThen (getShaderCodeOf projection_getShaderCode proj) (\<lambda>projGLSL.
     andThen (validGLSL geomGLSL projGLSL) (\<lambda>checked.
       case checked of
         Null f \<Rightarrow> Normal (Null f)
       | Object (g, p) \<Rightarrow>
           if \<not> js_includes g ''calculateLattice'' then Normal (Null MissingCalculateLattice)
           else if \<not> js_includes p ''project4Dto3D'' then Normal (Null MissingProject4Dto3D)
           else
             (case shaderSources sm (baseFragmentShaderName sm) of
                None \<Rightarrow> Normal (Null BaseFSMissing)
              | Some (template, fsType) \<Rightarrow>
                  (let fsSource = injectShaderCode template g p
                   in if injectionPointsPresent fsSource then Normal (Null InjectionFailed)
                      else
                        (case (templateText geometryTypeName, templateText projectionMethodName) of
                           (Some gn, Some pn) \<Rightarrow>
                             Normal (Object (''fragment-'' @ gn @ ''-'' @ pn, fsSource, fsType))
                         | _ \<Rightarrow> Unmodelled))))))))"

text \<open>
  \<open>createDynamicProgram\<close>. The state reached is returned on every path, also when a
  lookup or a provider throws: what was compiled and cached before stays.
\<close>

definition createDynamicProgram ::
  "ShaderManager \<Rightarrow> WebGL \<Rightarrow> string \<Rightarrow> jsval \<Rightarrow> jsval
     \<Rightarrow> nat nullable completion \<times> ShaderManager \<times> WebGL" where
  "createDynamicProgram sm gl programName geometryTypeName projectionMethodName =
     (case shaderSources sm (baseVertexShaderName sm) of
        None \<Rightarrow> (Normal (Null BaseVSMissing), sm, gl)
      | Some (vsSource, vsType) \<Rightarrow>
     (case compileShader sm gl (baseVertexShaderName sm) vsSource vsType of
        (Null f, sm1, gl1) \<Rightarrow> (Normal (Null VertexCompileFailed), sm1, gl1)
      | (Object vs, sm1, gl1) \<Rightarrow>
     (case assembleFragment sm1 geometryTypeName projectionMethodName of
        Throw e \<Rightarrow> (Throw e, sm1, gl1)
      | Unmodelled \<Rightarrow> (Unmodelled, sm1, gl1)
      | Normal (Null f) \<Rightarrow> (Normal (Null f), sm1, gl1)
      | Normal (Object (fsId, fsSource, fsType)) \<Rightarrow>
     (case compileShader sm1 gl1 fsId fsSource fsType of
        (Null f, sm2, gl2) \<Rightarrow> (Normal (Null FragmentCompileFailed), sm2, gl2)
      | (Object fs, sm2, gl2) \<Rightarrow>
     (case createProgram sm2 gl2 programName vs fs of
        (newProg, sm3, gl3) \<Rightarrow>
          if currentProgramName sm3 = Some programName
          then (case newProg of
                  Object p \<Rightarrow> (Normal newProg, sm3, gl_useProgram gl3 (Some p))
                | Null f \<Rightarrow>
                    (Normal newProg, sm3\<lparr>currentProgramName := None\<rparr>, gl_useProgram gl3 None))
          else (Normal newProg, sm3, gl3))))))"

text \<open>\<open>useProgram(programName)\<close>; the argument \<open>None\<close> is \<open>null\<close>.\<close>

definition useProgram ::
  "ShaderManager \<Rightarrow> WebGL \<Rightarrow> string option \<Rightarrow> bool \<times> ShaderManager \<times> WebGL" where
  "useProgram sm gl programName =
     (case programName of
        None \<Rightarrow>
          (if currentProgramName sm \<noteq> None
           then (True, sm\<lparr>currentProgramName := None\<rparr>, gl_useProgram gl None)
           else (True, sm, gl))
      | Some name \<Rightarrow>
          (case programs sm name of
             Some (Some program) \<Rightarrow>
               (True, sm\<lparr>currentProgramName := Some name\<rparr>,
                if currentProgram gl \<noteq> Some program then gl_useProgram gl (Some program) else gl)
           | _ \<Rightarrow>
               (if currentProgramName sm = Some name
                then (False, sm\<lparr>currentProgramName := None\<rparr>, gl_useProgram gl None)
                else (False, sm, gl))))"

text \<open>The program object the manager counts as current: the name is truthy and has a program.\<close>

definition currentProgramObject :: "ShaderManager \<Rightarrow> (string \<times> nat) option" where
  "currentProgramObject sm =
     (case currentProgramName sm of
        None \<Rightarrow> None
      | Some name \<Rightarrow>
          if name = [] then None
          else (case programs sm name of Some (Some program) \<Rightarrow> Some (name, program) | _ \<Rightarrow> None))"

text \<open>
  \<open>getUniformLocation(name)\<close>: the location is asked of the context once and cached, also
  when it is \<open>null\<close>. A program without its cache object cannot arise from \<open>_createProgram\<close>;
  reading the cache would throw.
\<close>

definition getUniformLocation ::
  "ShaderManager \<Rightarrow> WebGL \<Rightarrow> string \<Rightarrow> nat option completion \<times> ShaderManager" where
  "getUniformLocation sm gl name =
     (case currentProgramObject sm of
        None \<Rightarrow> (Normal None, sm)
      | Some (programName, program) \<Rightarrow>
          (case uniformLocations sm programName of
             None \<Rightarrow> (Throw (TypeError ''Cannot read properties of undefined''), sm)
           | Some cache \<Rightarrow>
               (case cache name of
                  Some loc \<Rightarrow> (Normal loc, sm)
                | None \<Rightarrow>
                    (let loc = gl_getUniformLocation gl program name
                     in (Normal loc,
                         sm\<lparr>uniformLocations :=
                              (uniformLocations sm)(programName \<mapsto> cache(name \<mapsto> loc))\<rparr>)))))"

definition getAttributeLocation ::
  "ShaderManager \<Rightarrow> WebGL \<Rightarrow> string \<Rightarrow> nat option completion \<times> ShaderManager" where
  "getAttributeLocation sm gl name =
     (case currentProgramObject sm of
        None \<Rightarrow> (Normal None, sm)
      | Some (programName, program) \<Rightarrow>
          (case attributeLocations sm programName of
             None \<Rightarrow> (Throw (TypeError ''Cannot read properties of undefined''), sm)
           | Some cache \<Rightarrow>
               (case cache name of
                  Some loc \<Rightarrow> (Normal loc, sm)
                | None \<Rightarrow>
                    (let loc = gl_getAttribLocation gl program name
                     in (Normal loc,
                         sm\<lparr>attributeLocations :=
                              (attributeLocations sm)(programName \<mapsto> cache(name \<mapsto> loc))\<rparr>)))))"

section \<open>HypercubeCore: state\<close>

text \<open>
  \<open>this.state\<close> is an object whose own properties are read and written by name. The
  properties that hold JSON values are the map \<open>props\<close>; the two that do not are kept
  apart: \<open>_dirtyUniforms\<close> (a \<open>Set\<close>, here the list of its elements in insertion order)
  and \<open>callbacks\<close> (here: whether a handler is registered, and what each handler was
  called with). \<open>gl\<close> is the context object of the canvas, which the shader manager holds
  too; \<open>contextHeld\<close> says that \<open>this.gl\<close> is not \<open>null\<close>. The last four fields are the
  browser's side: the sizes of the canvas, the animation-frame requests and the timeouts
  that are waiting.
\<close>

datatype timeout = RecoveryAttempt | RecoveryRetry

record HypercubeCore =
  contextHeld :: bool
  gl :: WebGL
  shaderManager :: ShaderManager
  quadBuffer :: "nat option"
  aPositionLoc :: "int option"
  props :: "string \<rightharpoonup> jsval"
  dirtyUniforms :: "string list"
  onError :: bool
  onRender :: bool
  errorsDelivered :: "js_error list"
  rendersDelivered :: nat
  canvasSize :: "nat \<times> nat"
  clientSize :: "nat \<times> nat"
  pendingFrames :: "nat list"
  nextFrameId :: nat
  pendingTimeouts :: "timeout list"

text \<open>A call that changes the core and completes normally, by throwing, or outside the embedding.\<close>

fun thenDo ::
  "'a completion \<times> 's \<Rightarrow> ('a \<Rightarrow> 's \<Rightarrow> 'b completion \<times> 's) \<Rightarrow> 'b completion \<times> 's" where
  "thenDo (Normal x, s) f = f x s"
| "thenDo (Throw e, s) f = (Throw e, s)"
| "thenDo (Unmodelled, s) f = (Unmodelled, s)"

definition isTruthy :: "jsval option \<Rightarrow> bool" where
  "isTruthy v = (case v of None \<Rightarrow> False | Some x \<Rightarrow> truthy x)"

definition isRendering :: "HypercubeCore \<Rightarrow> bool" where
  "isRendering c = isTruthy (props c ''isRendering'')"

definition needsShaderUpdate :: "HypercubeCore \<Rightarrow> bool" where
  "needsShaderUpdate c = isTruthy (props c ''needsShaderUpdate'')"

definition setProp :: "string \<Rightarrow> jsval \<Rightarrow> HypercubeCore \<Rightarrow> HypercubeCore" where
  "setProp key v c = c\<lparr>props := (props c)(key \<mapsto> v)\<rparr>"

definition callOnError :: "js_error \<Rightarrow> HypercubeCore \<Rightarrow> HypercubeCore" where
  "callOnError e c = (if onError c then c\<lparr>errorsDelivered := errorsDelivered c @ [e]\<rparr> else c)"

definition callOnRender :: "HypercubeCore \<Rightarrow> HypercubeCore" where
  "callOnRender c = (if onRender c then c\<lparr>rendersDelivered := Suc (rendersDelivered c)\<rparr> else c)"

definition DEFAULT_STATE_keys :: "string list" where
  "DEFAULT_STATE_keys =
     [''startTime'', ''lastUpdateTime'', ''deltaTime'', ''time'', ''resolution'',
      ''geometryType'', ''projectionMethod'', ''dimensions'', ''morphFactor'',
      ''rotationSpeed'', ''universeModifier'', ''patternIntensity'', ''gridDensity'',
      ''lineThickness'', ''shellWidth'', ''tetraThickness'', ''glitchIntensity'',
      ''colorShift'', ''audioLevels'', ''colorScheme'', ''needsShaderUpdate'',
      ''_dirtyUniforms'', ''isRendering'', ''animationFrameId'', ''shaderProgramName'',
      ''callbacks'']"

text \<open>The JSON-valued properties of \<open>DEFAULT_STATE\<close>, in its order.\<close>

definition DEFAULT_STATE :: "(string \<times> jsval) list" where
  "DEFAULT_STATE =
     [(''startTime'', JNum 0), (''lastUpdateTime'', JNum 0), (''deltaTime'', JNum 0),
      (''time'', JNum 0), (''resolution'', JArr [JNum 0, JNum 0]),
      (''geometryType'', JStr ''hypercube''), (''projectionMethod'', JStr ''perspective''),
      (''dimensions'', JNum 4), (''morphFactor'', JNum (1/2)), (''rotationSpeed'', JNum (2/10)),
      (''universeModifier'', JNum 1), (''patternIntensity'', JNum 1), (''gridDensity'', JNum 8),
      (''lineThickness'', JNum (3/100)), (''shellWidth'', JNum (25/1000)),
      (''tetraThickness'', JNum (35/1000)), (''glitchIntensity'', JNum 0),
      (''colorShift'', JNum 0),
      (''audioLevels'', JObj [(''bass'', JNum 0), (''mid'', JNum 0), (''high'', JNum 0)]),
      (''colorScheme'',
         JObj [(''primary'', JArr [JNum 1, JNum (2/10), JNum (8/10)]),
               (''secondary'', JArr [JNum (2/10), JNum 1, JNum 1]),
               (''background'', JArr [JNum (5/100), JNum 0, JNum (2/10)])]),
      (''needsShaderUpdate'', JBool False), (''isRendering'', JBool False),
      (''animationFrameId'', JNull), (''shaderProgramName'', JStr ''maleficarumViz'')]"

section \<open>HypercubeCore: the dirty set\<close>

definition setAdd :: "string \<Rightarrow> string list \<Rightarrow> string list" where
  "setAdd name names = (if name \<in> set names then names else names @ [name])"

text \<open>The \<open>switch\<close> of \<open>_markUniformDirty\<close>: the uniforms a state key stands for.\<close>

definition uniformNames :: "string \<Rightarrow> string list" where
  "uniformNames stateKey =
     (if stateKey = ''time'' then [''u_time'']
      else if stateKey = ''resolution'' then [''u_resolution'']
      else if stateKey = ''dimensions'' then [''u_dimension'']
      else if stateKey = ''morphFactor'' then [''u_morphFactor'']
      else if stateKey = ''rotationSpeed'' then [''u_rotationSpeed'']
      else if stateKey = ''universeModifier'' then [''u_universeModifier'']
      else if stateKey = ''patternIntensity'' then [''u_patternIntensity'']
      else if stateKey = ''gridDensity'' then [''u_gridDensity'']
      else if stateKey = ''lineThickness'' then [''u_lineThickness'']
      else if stateKey = ''shellWidth'' then [''u_shellWidth'']
      else if stateKey = ''tetraThickness'' then [''u_tetraThickness'']
      else if stateKey = ''glitchIntensity'' then [''u_glitchIntensity'']
      else if stateKey = ''colorShift'' then [''u_colorShift'']
      else if stateKey = ''audioLevels'' then [''u_audioBass'', ''u_audioMid'', ''u_audioHigh'']
      else if stateKey = ''colorScheme''
        then [''u_primaryColor'', ''u_secondaryColor'', ''u_backgroundColor'']
      else [])"

definition markUniformDirty :: "string \<Rightarrow> HypercubeCore \<Rightarrow> HypercubeCore" where
  "markUniformDirty stateKey c =
     c\<lparr>dirtyUniforms := fold setAdd (uniformNames stateKey) (dirtyUniforms c)\<rparr>"

definition notUniformKeys :: "string list" where
  "notUniformKeys =
     [''_dirtyUniforms'', ''isRendering'', ''animationFrameId'', ''callbacks'', ''startTime'',
      ''lastUpdateTime'', ''deltaTime'', ''needsShaderUpdate'', ''geometryType'',
      ''projectionMethod'', ''shaderProgramName'']"

text \<open>\<open>_markAllUniformsDirty\<close>: a fresh set, then every key of \<open>DEFAULT_STATE\<close> not on the skip list.\<close>

definition markAllUniformsDirty :: "HypercubeCore \<Rightarrow> HypercubeCore" where
  "markAllUniformsDirty c =
     fold markUniformDirty (filter (\<lambda>key. key \<notin> set notUniformKeys) DEFAULT_STATE_keys)
       (c\<lparr>dirtyUniforms := []\<rparr>)"

section \<open>HypercubeCore: updateParameters\<close>

text \<open>
  \<open>{ ...oldValue, ...newValue }\<close>: the own enumerable properties of the new value are
  written over those of the old object. A primitive has none; a non-empty string or array
  would contribute its indices, which is left outside the embedding.
\<close>

fun ownProperties :: "jsval \<Rightarrow> (string \<times> jsval) list option" where
  "ownProperties (JObj ps) = Some ps"
| "ownProperties JNull = Some []"
| "ownProperties (JBool b) = Some []"
| "ownProperties (JNum r) = Some []"
| "ownProperties (JStr s) = (if s = [] then Some [] else None)"
| "ownProperties (JArr xs) = (if xs = [] then Some [] else None)"

fun assign :: "string \<Rightarrow> jsval \<Rightarrow> (string \<times> jsval) list \<Rightarrow> (string \<times> jsval) list" where
  "assign key v [] = [(key, v)]"
| "assign key v ((k, w) # ps) = (if k = key then (k, v) # ps else (k, w) # assign key v ps)"

definition spread :: "(string \<times> jsval) list \<Rightarrow> (string \<times> jsval) list \<Rightarrow> (string \<times> jsval) list" where
  "spread old new = fold (\<lambda>(k, v). assign k v) new old"

text \<open>
  \<open>newValue.hasOwnProperty(name)\<close> for one of the six names the source asks about:
  \<open>null\<close> has no properties to read, and an own property called \<open>hasOwnProperty\<close> hides the
  method with a value that cannot be called.
\<close>

fun callHasOwnProperty :: "jsval \<Rightarrow> string \<Rightarrow> bool completion" where
  "callHasOwnProperty JNull name = Throw (TypeError ''Cannot read properties of null'')"
| "callHasOwnProperty (JObj ps) name =
     (if ''hasOwnProperty'' \<in> fst ` set ps
      then Throw (TypeError ''newValue.hasOwnProperty is not a function'')
      else Normal (name \<in> fst ` set ps))"
| "callHasOwnProperty v name = Normal False"

definition markIfOwn :: "jsval \<Rightarrow> string \<Rightarrow> string \<Rightarrow> HypercubeCore \<Rightarrow> unit completion \<times> HypercubeCore" where
  "markIfOwn newValue name stateKey c =
     (case callHasOwnProperty newValue name of
        Normal has \<Rightarrow> (Normal (), if has then markUniformDirty stateKey c else c)
      | Throw e \<Rightarrow> (Throw e, c)
      | Unmodelled \<Rightarrow> (Unmodelled, c))"

text \<open>
  One round of the loop of \<open>updateParameters\<close>; the result says whether the shader needs an
  update because of this key. \<open>JSON.stringify(oldValue) !== JSON.stringify(newValue)\<close> is
  inequality of the two values.
\<close>

definition updateObject :: "string \<Rightarrow> (string \<times> jsval) list \<Rightarrow> jsval \<Rightarrow> HypercubeCore
     \<Rightarrow> bool completion \<times> HypercubeCore" where
  "updateObject key oldProps newValue c =
     (if JObj oldProps \<noteq> newValue then
        (case ownProperties newValue of
           None \<Rightarrow> (Unmodelled, c)
         | Some newProps \<Rightarrow>
             (let c1 = setProp key (JObj (spread oldProps newProps)) c
              in if key = ''colorScheme'' then
                   thenDo (markIfOwn newValue ''primary'' ''colorScheme.primary'' c1) (\<lambda>_ c2.
                   thenDo (markIfOwn newValue ''secondary'' ''colorScheme.secondary'' c2) (\<lambda>_ c3.
                   thenDo (markIfOwn newValue ''background'' ''colorScheme.background'' c3) (\<lambda>_ c4.
                     (Normal False, c4))))
                 else if key = ''audioLevels'' then
                   thenDo (markIfOwn newValue ''bass'' ''audioLevels.bass'' c1) (\<lambda>_ c2.
                   thenDo (markIfOwn newValue ''mid'' ''audioLevels.mid'' c2) (\<lambda>_ c3.
                   thenDo (markIfOwn newValue ''high'' ''audioLevels.high'' c3) (\<lambda>_ c4.
                     (Normal False, c4))))
                 else (Normal False, c1)))
      else (Normal False, c))"

definition updateParameter :: "string \<Rightarrow> jsval \<Rightarrow> HypercubeCore \<Rightarrow> bool completion \<times> HypercubeCore" where
  "updateParameter key newValue c =
     (if key = ''_dirtyUniforms'' \<or> key = ''callbacks'' then (Unmodelled, c)
      else
        (case props c key of
           None \<Rightarrow> (Normal False, c)
         | Some (JObj oldProps) \<Rightarrow> updateObject key oldProps newValue c
         | Some oldValue \<Rightarrow>
             if oldValue \<noteq> newValue
             then (Normal (key = ''geometryType'' \<or> key = ''projectionMethod''),
                   markUniformDirty key (setProp key newValue c))
             else (Normal False, c)))"

fun updateLoop :: "(string \<times> jsval) list \<Rightarrow> bool \<Rightarrow> HypercubeCore \<Rightarrow> bool completion \<times> HypercubeCore" where
  "updateLoop [] shaderNeedsUpdate c = (Normal shaderNeedsUpdate, c)"
| "updateLoop ((key, newValue) # rest) shaderNeedsUpdate c =
     thenDo (updateParameter key newValue c) (\<lambda>changed c1.
       updateLoop rest (shaderNeedsUpdate \<or> changed) c1)"

text \<open>\<open>updateParameters(newParams)\<close>; the parameter map is the list of its entries in \<open>for-in\<close> order.\<close>

definition updateParameters :: "(string \<times> jsval) list \<Rightarrow> HypercubeCore \<Rightarrow> unit completion \<times> HypercubeCore" where
  "updateParameters newParams c =
     thenDo (updateLoop newParams False c) (\<lambda>shaderNeedsUpdate c1.
       (Normal (), if shaderNeedsUpdate then setProp ''needsShaderUpdate'' (JBool True) c1 else c1))"

section \<open>HypercubeCore: scheduling and stop\<close>

text \<open>
  \<open>requestAnimationFrame\<close> hands out positive request ids; \<open>cancelAnimationFrame\<close> removes
  the request with the given id. An id that is truthy and not a number would be converted
  by the browser first, which is not embedded.
\<close>

definition requestAnimationFrame :: "HypercubeCore \<Rightarrow> HypercubeCore" where
  "requestAnimationFrame c =
     (let frameId = Suc (nextFrameId c)
      in setProp ''animationFrameId'' (JNum (real frameId))
           (c\<lparr>pendingFrames := pendingFrames c @ [frameId], nextFrameId := frameId\<rparr>))"

definition cancelAnimationFrame :: "jsval \<Rightarrow> HypercubeCore \<Rightarrow> unit completion \<times> HypercubeCore" where
  "cancelAnimationFrame frameId c =
     (case frameId of
        JNum r \<Rightarrow> (Normal (), c\<lparr>pendingFrames := filter (\<lambda>i. real i \<noteq> r) (pendingFrames c)\<rparr>)
      | _ \<Rightarrow> (Unmodelled, c))"

definition cancelIfScheduled :: "HypercubeCore \<Rightarrow> unit completion \<times> HypercubeCore" where
  "cancelIfScheduled c =
     (case props c ''animationFrameId'' of
        None \<Rightarrow> (Normal (), c)
      | Some frameId \<Rightarrow> if truthy frameId then cancelAnimationFrame frameId c else (Normal (), c))"

definition stop :: "HypercubeCore \<Rightarrow> unit completion \<times> HypercubeCore" where
  "stop c =
     (if \<not> isRendering c then (Normal (), c)
      else thenDo (cancelIfScheduled c) (\<lambda>_ c1.
             (Normal (), setProp ''animationFrameId'' JNull (setProp ''isRendering'' (JBool False) c1))))"

section \<open>HypercubeCore: recompilation\<close>

definition withShaderManager :: "ShaderManager \<Rightarrow> WebGL \<Rightarrow> HypercubeCore \<Rightarrow> HypercubeCore" where
  "withShaderManager sm g c = c\<lparr>shaderManager := sm, gl := g\<rparr>"

text \<open>
  The tail of \<open>_updateShaderIfNeeded\<close> after a program was returned. Enabling the vertex
  attribute goes through \<open>this.gl\<close>; were that \<open>null\<close>, the error is caught and the location
  set to -1.
\<close>

definition adoptProgram :: "string \<Rightarrow> HypercubeCore \<Rightarrow> bool completion \<times> HypercubeCore" where
  "adoptProgram progName c =
     (let c1 = setProp ''needsShaderUpdate'' (JBool False) c
      in case useProgram (shaderManager c1) (gl c1) (Some progName) of
           (used, sm1, g1) \<Rightarrow>
             (case getAttributeLocation sm1 g1 ''a_position'' of
                (Throw e, sm2) \<Rightarrow> (Throw e, withShaderManager sm2 g1 c1)
              | (Unmodelled, sm2) \<Rightarrow> (Unmodelled, withShaderManager sm2 g1 c1)
              | (Normal loc, sm2) \<Rightarrow>
                  (Normal True,
                   markAllUniformsDirty
                     ((withShaderManager sm2 g1 c1)
                        \<lparr>aPositionLoc :=
                           (case loc of
                              None \<Rightarrow> None
                            | Some l \<Rightarrow> if contextHeld c1 then Some (int l) else Some (- 1))\<rparr>))))"

text \<open>
  \<open>_updateShaderIfNeeded\<close>. The program name is used as a property key and compared with
  \<open>===\<close>; a name that is not a string is outside the embedding, as is a state that lost
  one of the three properties read.
\<close>

definition updateShaderIfNeeded :: "HypercubeCore \<Rightarrow> bool completion \<times> HypercubeCore" where
  "updateShaderIfNeeded c =
     (if \<not> needsShaderUpdate c then (Normal True, c)
      else
        (case (props c ''shaderProgramName'', props c ''geometryType'', props c ''projectionMethod'') of
           (Some (JStr progName), Some geomName, Some projName) \<Rightarrow>
             (case createDynamicProgram (shaderManager c) (gl c) progName geomName projName of
                (Throw e, sm, g) \<Rightarrow> (Throw e, withShaderManager sm g c)
              | (Unmodelled, sm, g) \<Rightarrow> (Unmodelled, withShaderManager sm g c)
              | (Normal (Null f), sm, g) \<Rightarrow>
                  thenDo (stop (callOnError (Error ''Shader update failed'') (withShaderManager sm g c)))
                    (\<lambda>_ c1. (Normal False, c1))
              | (Normal (Object program), sm, g) \<Rightarrow> adoptProgram progName (withShaderManager sm g c))
         | _ \<Rightarrow> (Unmodelled, c)))"

section \<open>HypercubeCore: uploading the dirty uniforms\<close>

text \<open>The \<open>switch\<close> of \<open>_setUniforms\<close>: the state property, and the property within it, a uniform is read from.\<close>

definition uniformSource :: "string \<Rightarrow> (string \<times> string option) option" where
  "uniformSource name =
     (if name = ''u_resolution'' then Some (''resolution'', None)
      else if name = ''u_dimension'' then Some (''dimensions'', None)
      else if name = ''u_morphFactor'' then Some (''morphFactor'', None)
      else if name = ''u_rotationSpeed'' then Some (''rotationSpeed'', None)
      else if name = ''u_universeModifier'' then Some (''universeModifier'', None)
      else if name = ''u_patternIntensity'' then Some (''patternIntensity'', None)
      else if name = ''u_gridDensity'' then Some (''gridDensity'', None)
      else if name = ''u_lineThickness'' then Some (''lineThickness'', None)
      else if name = ''u_shellWidth'' then Some (''shellWidth'', None)
      else if name = ''u_tetraThickness'' then Some (''tetraThickness'', None)
      else if name = ''u_glitchIntensity'' then Some (''glitchIntensity'', None)
      else if name = ''u_colorShift'' then Some (''colorShift'', None)
      else if name = ''u_audioBass'' then Some (''audioLevels'', Some ''bass'')
      else if name = ''u_audioMid'' then Some (''audioLevels'', Some ''mid'')
      else if name = ''u_audioHigh'' then Some (''audioLevels'', Some ''high'')
      else if name = ''u_primaryColor'' then Some (''colorScheme'', Some ''primary'')
      else if name = ''u_secondaryColor'' then Some (''colorScheme'', Some ''secondary'')
      else if name = ''u_backgroundColor'' then Some (''colorScheme'', Some ''background'')
      else None)"

text \<open>
  The value passed to the upload, if an upload is made: none for a name the \<open>switch\<close> does not
  know, none when reading the inner property throws (the \<open>catch\<close> around the \<open>switch\<close> only
  logs). \<open>Some None\<close> is an upload of \<open>undefined\<close>.
\<close>

definition uniformValue :: "(string \<rightharpoonup> jsval) \<Rightarrow> string \<Rightarrow> jsval option option" where
  "uniformValue state name =
     (case uniformSource name of
        None \<Rightarrow> None
      | Some (key, None) \<Rightarrow> Some (state key)
      | Some (key, Some inner) \<Rightarrow>
          (case state key of
             None \<Rightarrow> None
           | Some JNull \<Rightarrow> None
           | Some (JObj ps) \<Rightarrow> Some (map_of ps inner)
           | Some other \<Rightarrow> Some None))"

definition uploadUniform :: "string \<Rightarrow> nat \<Rightarrow> HypercubeCore \<Rightarrow> HypercubeCore" where
  "uploadUniform name loc c =
     (if \<not> contextHeld c then c
      else (case uniformValue (props c) name of
              None \<Rightarrow> c
            | Some v \<Rightarrow> c\<lparr>gl := gl_uniform (gl c) loc v\<rparr>))"

text \<open>
  The \<open>forEach\<close> over the dirty set: \<open>u_time\<close> is passed over, a name with a location is
  uploaded, a name without one is put into \<open>uniformsToRetry\<close>.
\<close>

fun flushDirty ::
  "string list \<Rightarrow> string list \<Rightarrow> HypercubeCore \<Rightarrow> string list completion \<times> HypercubeCore" where
  "flushDirty [] uniformsToRetry c = (Normal uniformsToRetry, c)"
| "flushDirty (name # names) uniformsToRetry c =
     (if name = ''u_time'' then flushDirty names uniformsToRetry c
      else
        (case getUniformLocation (shaderManager c) (gl c) name of
           (Throw e, sm) \<Rightarrow> (Throw e, c\<lparr>shaderManager := sm\<rparr>)
         | (Unmodelled, sm) \<Rightarrow> (Unmodelled, c\<lparr>shaderManager := sm\<rparr>)
         | (Normal (Some loc), sm) \<Rightarrow>
             flushDirty names uniformsToRetry (uploadUniform name loc (c\<lparr>shaderManager := sm\<rparr>))
         | (Normal None, sm) \<Rightarrow>
             flushDirty names (setAdd name uniformsToRetry) (c\<lparr>shaderManager := sm\<rparr>)))"

definition uploadTime :: "nat option \<Rightarrow> HypercubeCore \<Rightarrow> unit completion \<times> HypercubeCore" where
  "uploadTime timeLoc c =
     (case timeLoc of
        Some loc \<Rightarrow>
          if contextHeld c then (Normal (), c\<lparr>gl := gl_uniform (gl c) loc (props c ''time'')\<rparr>)
          else (Throw (TypeError ''Cannot read properties of null''), c)
      | None \<Rightarrow> (Normal (), c\<lparr>dirtyUniforms := setAdd ''u_time'' (dirtyUniforms c)\<rparr>))"

definition flushWith :: "string option \<Rightarrow> HypercubeCore \<Rightarrow> unit completion \<times> HypercubeCore" where
  "flushWith programName c =
     (case useProgram (shaderManager c) (gl c) programName of
        (used, sm1, g1) \<Rightarrow>
          (let c1 = withShaderManager sm1 g1 c
           in if \<not> used \<or> currentProgramName sm1 \<noteq> programName then (Normal (), c1)
              else
                (case getUniformLocation sm1 g1 ''u_time'' of
                   (Throw e, sm2) \<Rightarrow> (Throw e, c1\<lparr>shaderManager := sm2\<rparr>)
                 | (Unmodelled, sm2) \<Rightarrow> (Unmodelled, c1\<lparr>shaderManager := sm2\<rparr>)
                 | (Normal timeLoc, sm2) \<Rightarrow>
                     thenDo (uploadTime timeLoc (c1\<lparr>shaderManager := sm2\<rparr>)) (\<lambda>_ c2.
                     thenDo (flushDirty (dirtyUniforms c2) [] c2) (\<lambda>uniformsToRetry c3.
                       (Normal (), c3\<lparr>dirtyUniforms := uniformsToRetry\<rparr>))))))"

text \<open>\<open>_setUniforms\<close>; the program name of the state is a string or \<open>null\<close>.\<close>

definition setUniforms :: "HypercubeCore \<Rightarrow> unit completion \<times> HypercubeCore" where
  "setUniforms c =
     (case props c ''shaderProgramName'' of
        Some (JStr programName) \<Rightarrow> flushWith (Some programName) c
      | Some JNull \<Rightarrow> flushWith None c
      | _ \<Rightarrow> (Unmodelled, c))"

text \<open>
  The location \<open>getUniformLocation\<close> returns for a name (none when the call throws): the
  cached one when there is one, else what the context answers.
\<close>

definition resolveUniform :: "ShaderManager \<Rightarrow> WebGL \<Rightarrow> string \<Rightarrow> nat option" where
  "resolveUniform sm ctx name =
     (case fst (getUniformLocation sm ctx name) of Normal loc \<Rightarrow> loc | _ \<Rightarrow> None)"

section \<open>HypercubeCore: context recovery\<close>

text \<open>
  The attempt counter is read with \<open>>=\<close>, \<open><\<close> and \<open>+\<close>. \<open>ToNumber\<close> is embedded for
  \<open>undefined\<close> (a missing property), \<open>null\<close>, booleans, numbers, the empty string and the empty
  array; \<open>None\<close> stands for the operands left out.
\<close>

datatype number = Finite real | NaN

fun ToNumber :: "jsval option \<Rightarrow> number option" where
  "ToNumber None = Some NaN"
| "ToNumber (Some JNull) = Some (Finite 0)"
| "ToNumber (Some (JBool b)) = Some (Finite (if b then 1 else 0))"
| "ToNumber (Some (JNum r)) = Some (Finite r)"
| "ToNumber (Some (JStr s)) = (if s = [] then Some (Finite 0) else None)"
| "ToNumber (Some (JArr xs)) = (if xs = [] then Some (Finite 0) else None)"
| "ToNumber (Some (JObj ps)) = None"

definition atLeast3 :: "jsval option \<Rightarrow> bool option" where
  "atLeast3 v =
     (case ToNumber v of
        None \<Rightarrow> None
      | Some NaN \<Rightarrow> Some False
      | Some (Finite r) \<Rightarrow> Some (r \<ge> 3))"

definition below3 :: "jsval option \<Rightarrow> bool option" where
  "below3 v =
     (case ToNumber v of
        None \<Rightarrow> None
      | Some NaN \<Rightarrow> Some False
      | Some (Finite r) \<Rightarrow> Some (r < 3))"

text \<open>\<open>(attempts || 0) + 1\<close>; a truthy string, array or object would be concatenated with "1".\<close>

definition orZeroPlusOne :: "jsval option \<Rightarrow> jsval option" where
  "orZeroPlusOne v =
     (if \<not> isTruthy v then Some (JNum 1)
      else (case v of
              Some (JNum r) \<Rightarrow> Some (JNum (r + 1))
            | Some (JBool b) \<Rightarrow> Some (JNum 2)
            | _ \<Rightarrow> None))"

text \<open>
  \<open>_attemptContextRecovery\<close> up to the \<open>setTimeout\<close>: at three attempts or more it stops the
  loop and reports; otherwise it counts the attempt, cancels the frame request and leaves
  the attempt itself waiting as a timeout.
\<close>

definition attemptContextRecovery :: "HypercubeCore \<Rightarrow> unit completion \<times> HypercubeCore" where
  "attemptContextRecovery c =
     (case atLeast3 (props c ''contextRecoveryAttempts'') of
        None \<Rightarrow> (Unmodelled, c)
      | Some True \<Rightarrow>
          thenDo (stop c) (\<lambda>_ c1.
            (Normal (), callOnError (Error ''WebGL context permanently lost'') c1))
      | Some False \<Rightarrow>
          (case orZeroPlusOne (props c ''contextRecoveryAttempts'') of
             None \<Rightarrow> (Unmodelled, c)
           | Some attempts \<Rightarrow>
               (let c1 = setProp ''contextRecoveryAttempts'' attempts c
                in thenDo
                     (if isTruthy (props c1 ''animationFrameId'')
                      then thenDo (cancelIfScheduled c1) (\<lambda>_ c2.
                             (Normal (), setProp ''animationFrameId'' JNull c2))
                      else (Normal (), c1))
                     (\<lambda>_ c3. (Normal (), c3\<lparr>pendingTimeouts := pendingTimeouts c3 @ [RecoveryAttempt]\<rparr>)))))"

text \<open>
  What \<open>canvas.getContext\<close> gives when the timeout fires: no context, the context still
  lost, or the context restored. The result is assigned to \<open>this.gl\<close> before anything else.
\<close>

datatype reacquisition = NoContext | ContextStillLost | ContextRestored

fun reacquire :: "reacquisition \<Rightarrow> HypercubeCore \<Rightarrow> HypercubeCore" where
  "reacquire NoContext c = c\<lparr>contextHeld := False\<rparr>"
| "reacquire ContextStillLost c = c\<lparr>contextHeld := True, gl := (gl c)\<lparr>contextLost := True\<rparr>\<rparr>"
| "reacquire ContextRestored c = c\<lparr>contextHeld := True, gl := (gl c)\<lparr>contextLost := False\<rparr>\<rparr>"

text \<open>\<open>ShaderManager\<close> has no method \<open>setupShaderPrograms\<close>: calling it throws.\<close>

definition setupShaderPrograms :: "ShaderManager \<Rightarrow> unit completion" where
  "setupShaderPrograms sm =
     Throw (TypeError ''this.shaderManager.setupShaderPrograms is not a function'')"

definition recoveryDirtyUniforms :: "string list" where
  "recoveryDirtyUniforms =
     [''u_resolution'', ''u_time'', ''u_dimension'', ''u_morphFactor'',
      ''u_rotationSpeed'', ''u_universeModifier'', ''u_patternIntensity'',
      ''u_gridDensity'', ''u_lineThickness'', ''u_shellWidth'',
      ''u_tetraThickness'', ''u_glitchIntensity'', ''u_colorShift'',
      ''u_audioBass'', ''u_audioMid'', ''u_audioHigh'', ''u_primaryColor'']"

text \<open>
  The branch of the timeout taken when a context was obtained and is not lost:
  \<open>new ShaderManager(this.gl)\<close> with one argument, the call of \<open>setupShaderPrograms\<close>, then
  the dirty set, the counter and the frame request.
\<close>

definition contextRecovered :: "HypercubeCore \<Rightarrow> unit completion \<times> HypercubeCore" where
  "contextRecovered c =
     thenDo (case new_ShaderManager (Some (gl c)) None None of
               Normal sm \<Rightarrow> (Normal (), c\<lparr>shaderManager := sm\<rparr>)
             | Throw e \<Rightarrow> (Throw e, c)
             | Unmodelled \<Rightarrow> (Unmodelled, c)) (\<lambda>_ c1.
     thenDo (setupShaderPrograms (shaderManager c1), c1) (\<lambda>_ c2.
       (let c3 = setProp ''contextRecoveryAttempts'' (JNum 0)
                   (c2\<lparr>dirtyUniforms := recoveryDirtyUniforms\<rparr>)
        in (Normal (), if isRendering c3 then requestAnimationFrame c3 else c3))))"

text \<open>The function given to \<open>setTimeout\<close>: the \<open>try\<close> block and its \<open>catch\<close>.\<close>

definition recoveryTimeout :: "reacquisition \<Rightarrow> HypercubeCore \<Rightarrow> unit completion \<times> HypercubeCore" where
  "recoveryTimeout outcome c =
     (let c1 = reacquire outcome c
      in case (if contextHeld c1 \<and> \<not> contextLost (gl c1) then contextRecovered c1
               else (Throw (Error ''Failed to recreate WebGL context''), c1)) of
           (Normal u, c2) \<Rightarrow> (Normal (), c2)
         | (Unmodelled, c2) \<Rightarrow> (Unmodelled, c2)
         | (Throw error, c2) \<Rightarrow>
             (case below3 (props c2 ''contextRecoveryAttempts'') of
                None \<Rightarrow> (Unmodelled, c2)
              | Some True \<Rightarrow>
                  (Normal (), c2\<lparr>pendingTimeouts := pendingTimeouts c2 @ [RecoveryRetry]\<rparr>)
              | Some False \<Rightarrow>
                  thenDo (stop c2) (\<lambda>_ c3.
                    (Normal (),
                     callOnError (Error ''WebGL context recovery failed permanently'') c3))))"

text \<open>The oldest waiting timeout fires.\<close>

definition fireTimeout :: "reacquisition \<Rightarrow> HypercubeCore \<Rightarrow> unit completion \<times> HypercubeCore" where
  "fireTimeout outcome c =
     (case pendingTimeouts c of
        [] \<Rightarrow> (Normal (), c)
      | RecoveryAttempt # waiting \<Rightarrow> recoveryTimeout outcome (c\<lparr>pendingTimeouts := waiting\<rparr>)
      | RecoveryRetry # waiting \<Rightarrow> attemptContextRecovery (c\<lparr>pendingTimeouts := waiting\<rparr>))"

text \<open>
  What can happen while the core recovers: the frame finds the context lost and calls
  \<open>_attemptContextRecovery\<close>, or a waiting timeout fires.
\<close>

datatype recoveryEvent = LossDetected | TimeoutFires reacquisition

fun recoveryStep :: "recoveryEvent \<Rightarrow> HypercubeCore \<Rightarrow> unit completion \<times> HypercubeCore" where
  "recoveryStep LossDetected c = attemptContextRecovery c"
| "recoveryStep (TimeoutFires outcome) c = fireTimeout outcome c"

fun runRecovery :: "recoveryEvent list \<Rightarrow> HypercubeCore \<Rightarrow> unit completion \<times> HypercubeCore" where
  "runRecovery [] c = (Normal (), c)"
| "runRecovery (event # events) c =
     thenDo (recoveryStep event c) (\<lambda>_ c1. runRecovery events c1)"

text \<open>
  The attempt counter as the core itself leaves it: missing, or one of 0, 1, 2, 3. The frame
  request id as the core itself leaves it: missing, \<open>null\<close> or a number.
\<close>

definition attemptsWithinCeiling :: "HypercubeCore \<Rightarrow> bool" where
  "attemptsWithinCeiling c =
     (case props c ''contextRecoveryAttempts'' of
        None \<Rightarrow> True
      | Some (JNum r) \<Rightarrow> r = 0 \<or> r = 1 \<or> r = 2 \<or> r = 3
      | Some other \<Rightarrow> False)"

definition frameIdIsNumber :: "HypercubeCore \<Rightarrow> bool" where
  "frameIdIsNumber c =
     (case props c ''animationFrameId'' of
        None \<Rightarrow> True
      | Some JNull \<Rightarrow> True
      | Some (JNum r) \<Rightarrow> True
      | Some other \<Rightarrow> False)"

text \<open>
  The state the specification calls Failed: the loop is stopped, three attempts are
  counted and no timeout is waiting.
\<close>

definition failedState :: "HypercubeCore \<Rightarrow> bool" where
  "failedState c =
     (\<not> isRendering c \<and> props c ''contextRecoveryAttempts'' = Some (JNum 3)
      \<and> pendingTimeouts c = [])"

section \<open>HypercubeCore: the frame\<close>

text \<open>\<open>_checkResize\<close>: the canvas follows its displayed size, and the resolution becomes dirty.\<close>

definition checkResize :: "HypercubeCore \<Rightarrow> HypercubeCore" where
  "checkResize c =
     (if canvasSize c \<noteq> clientSize c
      then markUniformDirty ''resolution''
             (setProp ''resolution''
                (JArr [JNum (real (fst (clientSize c))), JNum (real (snd (clientSize c)))])
                (c\<lparr>canvasSize := clientSize c\<rparr>))
      else c)"

text \<open>
  The clock of \<open>_render\<close>, in exact arithmetic: a falsy start time is set to the timestamp
  first. A start time or a time that is not a number is outside the embedding.
\<close>

definition advanceTime :: "real \<Rightarrow> HypercubeCore \<Rightarrow> unit completion \<times> HypercubeCore" where
  "advanceTime timestamp c =
     (let c1 = (if \<not> isTruthy (props c ''startTime'') then setProp ''startTime'' (JNum timestamp) c
                else c)
      in case (props c1 ''startTime'', props c1 ''time'') of
           (Some (JNum startTime), Some (JNum time)) \<Rightarrow>
             (let currentTime = (timestamp - startTime) * (1 / 1000)
              in (Normal (),
                  markUniformDirty ''time''
                    (setProp ''lastUpdateTime'' (JNum timestamp)
                      (setProp ''time'' (JNum currentTime)
                        (setProp ''deltaTime'' (JNum (currentTime - time)) c1)))))
         | _ \<Rightarrow> (Unmodelled, c1))"

text \<open>
  \<open>bg[0]\<close>, \<open>bg[1]\<close>, \<open>bg[2]\<close> of \<open>this.state.colorScheme.background\<close>: reading an index
  of \<open>undefined\<close> or \<open>null\<close> throws.
\<close>

definition readBackground :: "HypercubeCore \<Rightarrow> unit completion" where
  "readBackground c =
     (case props c ''colorScheme'' of
        Some (JObj ps) \<Rightarrow>
          (case map_of ps ''background'' of
             None \<Rightarrow> Throw (TypeError ''Cannot read properties of undefined'')
           | Some JNull \<Rightarrow> Throw (TypeError ''Cannot read properties of null'')
           | Some bg \<Rightarrow> Normal ())
      | _ \<Rightarrow> Throw (TypeError ''Cannot read properties of undefined''))"

definition drawQuad :: "HypercubeCore \<Rightarrow> HypercubeCore" where
  "drawQuad c =
     (if quadBuffer c \<noteq> None \<and> (case aPositionLoc c of None \<Rightarrow> False | Some l \<Rightarrow> l \<ge> 0)
      then c\<lparr>gl := (gl c)\<lparr>drawCalls := Suc (drawCalls (gl c))\<rparr>\<rparr>
      else c)"

definition finishFrame :: "HypercubeCore \<Rightarrow> unit completion \<times> HypercubeCore" where
  "finishFrame c =
     thenDo (setUniforms c) (\<lambda>_ c1.
       (case readBackground c1 of
          Throw e \<Rightarrow> (Throw e, c1)
        | Unmodelled \<Rightarrow> (Unmodelled, c1)
        | Normal u \<Rightarrow> (Normal (), requestAnimationFrame (callOnRender (drawQuad c1)))))"

text \<open>\<open>_render(timestamp)\<close>, one frame.\<close>

definition render :: "real \<Rightarrow> HypercubeCore \<Rightarrow> unit completion \<times> HypercubeCore" where
  "render timestamp c =
     (if \<not> isRendering c then (Normal (), c)
      else if \<not> contextHeld c \<or> contextLost (gl c) then attemptContextRecovery c
      else
        thenDo (advanceTime timestamp c) (\<lambda>_ c1.
          (let c2 = checkResize c1
           in if needsShaderUpdate c2
              then thenDo (updateShaderIfNeeded c2) (\<lambda>updated c3.
                     if \<not> updated then (Normal (), c3) else finishFrame c3)
              else finishFrame c2)))"

text \<open>The oldest waiting frame request is served.\<close>

definition fireFrame :: "real \<Rightarrow> HypercubeCore \<Rightarrow> unit completion \<times> HypercubeCore" where
  "fireFrame timestamp c =
     (case pendingFrames c of
        [] \<Rightarrow> (Normal (), c)
      | frameId # waiting \<Rightarrow> render timestamp (c\<lparr>pendingFrames := waiting\<rparr>))"

text \<open>\<open>start()\<close>; the argument is what \<open>performance.now()\<close> returns.\<close>

definition start :: "real \<Rightarrow> HypercubeCore \<Rightarrow> unit completion \<times> HypercubeCore" where
  "start now c =
     (if isRendering c then (Normal (), c)
      else
        (let c1 = setProp ''lastUpdateTime'' (JNum now)
                    (setProp ''time'' (JNum 0)
                      (setProp ''startTime'' (JNum now)
                        (setProp ''isRendering'' (JBool True) c)))
         in if needsShaderUpdate c1
            then thenDo (updateShaderIfNeeded c1) (\<lambda>updated c2.
                   if \<not> updated then (Normal (), setProp ''isRendering'' (JBool False) c2)
                   else (Normal (), requestAnimationFrame (markAllUniformsDirty c2)))
            else (Normal (), requestAnimationFrame (markAllUniformsDirty c1))))"

text \<open>\<open>getStatus().isAnimating\<close> is the property \<open>isRendering\<close> as it is stored.\<close>

definition getStatus_isAnimating :: "HypercubeCore \<Rightarrow> jsval option" where
  "getStatus_isAnimating c = props c ''isRendering''"

section \<open>A sample scenario\<close>

text \<open>
  A browser whose driver compiles and links every shader. Two uniforms that the sample
  strategies never read have no location in any program. Handle 0 is the quad buffer, 1 the
  vertex stage, 2 the fragment stage and 3 the program a core creates when it is
  constructed with default options.
\<close>

definition workingGL :: WebGL where
  "workingGL =
     \<lparr>contextLost = False,
      nextHandle = 4,
      compileStatus = (\<lambda>source. True),
      linkStatus = (\<lambda>vs fs. True),
      uniformLocationOf =
        (\<lambda>program name.
           if name = ''u_shellWidth'' \<or> name = ''u_tetraThickness'' then None
           else Some (length name)),
      attribLocationOf = (\<lambda>program name. if name = ''a_position'' then Some 0 else None),
      shaderText =
        [1 \<mapsto> baseVertexShaderSource,
         2 \<mapsto> injectShaderCode baseFragmentShaderSource hypercube_glsl (perspective_glsl ''2.50'')],
      deletedShaders = {},
      deletedPrograms = {},
      currentProgram = Some 3,
      uniformCalls = [],
      drawCalls = 0\<rparr>"

text \<open>Strategies of the application: three geometries and a projection, each a subclass with a short fragment.\<close>

definition latticeGeometry :: geometry where
  "latticeGeometry =
     SubclassGeometry (Normal (JStr ''float calculateLattice(vec3 p) { return u_gridDensity; }''))"

definition gridGeometry :: geometry where
  "gridGeometry =
     SubclassGeometry (Normal (JStr ''float calculateLattice(vec3 p) { return fract(p.x); }''))"

definition blobGeometry :: geometry where
  "blobGeometry = SubclassGeometry (Normal (JStr ''float blob(vec3 p) { return 1.0; }''))"

definition linearProjection :: projection where
  "linearProjection =
     SubclassProjection (Normal (JStr ''vec3 project4Dto3D(vec4 p) { return p.xyz; }''))"

definition sampleTemplate :: string where
  "sampleTemplate = ''precision highp float;
//__PROJECTION_CODE_INJECTION_POINT__
//__GEOMETRY_CODE_INJECTION_POINT__
void main() { gl_FragColor = vec4(calculateLattice(vec3(0.0))); }''"

text \<open>
  The managers of a core after the application has registered its strategies: the lattice
  under the built-in name \<open>hypercube\<close>, the grid under \<open>grid\<close>, the linear projection under
  the built-in name \<open>perspective\<close> and under \<open>linear\<close>.
\<close>

definition sampleGeometryManager :: GeometryManager where
  "sampleGeometryManager =
     \<lparr>defaultGeometry = ''hypercube'',
      geometries =
        [''hypercube'' \<mapsto> latticeGeometry, ''hypersphere'' \<mapsto> HypersphereGeometry,
         ''hypertetrahedron'' \<mapsto> HypertetrahedronGeometry, ''torus'' \<mapsto> TorusGeometry,
         ''klein'' \<mapsto> KleinGeometry, ''fractal'' \<mapsto> FractalGeometry,
         ''wave'' \<mapsto> WaveGeometry, ''crystal'' \<mapsto> CrystalGeometry,
         ''grid'' \<mapsto> gridGeometry],
      geometriesPrototype = None\<rparr>"

definition sampleProjectionManager :: ProjectionManager where
  "sampleProjectionManager =
     \<lparr>defaultProjection = ''perspective'',
      projections =
        [''perspective'' \<mapsto> linearProjection, ''orthographic'' \<mapsto> OrthographicProjection,
         ''stereographic'' \<mapsto> StereographicProjection ''-1.50'',
         ''linear'' \<mapsto> linearProjection],
      projectionsPrototype = None\<rparr>"

text \<open>The geometry manager after the blob has been registered as well.\<close>

definition blobGeometryManager :: GeometryManager where
  "blobGeometryManager =
     sampleGeometryManager\<lparr>geometries := (geometries sampleGeometryManager)(''blob'' \<mapsto> blobGeometry)\<rparr>"

text \<open>
  The shader manager of that core: the program of the constructor is linked and current,
  and the application has registered the sample template as the base fragment source.
\<close>

definition sampleShaderManager :: ShaderManager where
  "sampleShaderManager =
     \<lparr>geometryManager = sampleGeometryManager,
      projectionManager = sampleProjectionManager,
      baseVertexShaderName = ''base-vertex'',
      baseFragmentShaderName = ''base-fragment'',
      shaderSources =
        [''base-vertex'' \<mapsto> (baseVertexShaderSource, VERTEX_SHADER),
         ''base-fragment'' \<mapsto> (sampleTemplate, FRAGMENT_SHADER)],
      compiledShaders = [''base-vertex'' \<mapsto> Some 1, ''fragment-hypercube-perspective'' \<mapsto> Some 2],
      programs = [''maleficarumViz'' \<mapsto> Some 3],
      uniformLocations = [''maleficarumViz'' \<mapsto> Map.empty],
      attributeLocations = [''maleficarumViz'' \<mapsto> [''a_position'' \<mapsto> Some 0]],
      currentProgramName = Some ''maleficarumViz''\<rparr>"

definition allUniforms :: "string list" where
  "allUniforms =
     [''u_time'', ''u_resolution'', ''u_dimension'', ''u_morphFactor'', ''u_rotationSpeed'',
      ''u_universeModifier'', ''u_patternIntensity'', ''u_gridDensity'', ''u_lineThickness'',
      ''u_shellWidth'', ''u_tetraThickness'', ''u_glitchIntensity'', ''u_colorShift'',
      ''u_audioBass'', ''u_audioMid'', ''u_audioHigh'',
      ''u_primaryColor'', ''u_secondaryColor'', ''u_backgroundColor'']"

text \<open>The core itself, constructed with an \<open>onError\<close> callback and not yet started.\<close>

definition sampleCore :: HypercubeCore where
  "sampleCore =
     \<lparr>contextHeld = True,
      gl = workingGL,
      shaderManager = sampleShaderManager,
      quadBuffer = Some 0,
      aPositionLoc = Some 0,
      props = map_of DEFAULT_STATE,
      dirtyUniforms = allUniforms,
      onError = True,
      onRender = False,
      errorsDelivered = [],
      rendersDelivered = 0,
      canvasSize = (300, 150),
      clientSize = (300, 150),
      pendingFrames = [],
      nextFrameId = 0,
      pendingTimeouts = []\<rparr>"

section \<open>Declared parameter ranges\<close>

text \<open>
  The core declares no range for any parameter. The ranges declared in the repository for
  the uniforms the core uploads are those of \<open>MassiveParameterSystem.setupAllParameters\<close>
  (in the reactive-core file), a class the core does not use; they are listed by uniform
  name, lower and upper bound.
\<close>

definition declaredRange :: "string \<Rightarrow> (real \<times> real) option" where
  "declaredRange uniform =
     (if uniform = ''u_dimension'' then Some (3, 8)
      else if uniform = ''u_morphFactor'' then Some (0, 2)
      else if uniform = ''u_rotationSpeed'' then Some (0, 5)
      else if uniform = ''u_gridDensity'' then Some (1, 50)
      else if uniform = ''u_lineThickness'' then Some (1 / 1000, 2 / 10)
      else if uniform = ''u_patternIntensity'' then Some (0, 3)
      else if uniform = ''u_universeModifier'' then Some (3 / 10, 25 / 10)
      else if uniform = ''u_colorShift'' then Some (- (628318 / 100000), 628318 / 100000)
      else None)"

definition withinDeclaredRange :: "string \<Rightarrow> jsval \<Rightarrow> bool" where
  "withinDeclaredRange uniform v =
     (case declaredRange uniform of
        None \<Rightarrow> True
      | Some (lo, hi) \<Rightarrow> (case v of JNum r \<Rightarrow> lo \<le> r \<and> r \<le> hi | _ \<Rightarrow> False))"

fun isObject :: "jsval \<Rightarrow> bool" where
  "isObject (JObj ps) = True"
| "isObject v = False"

section \<open>Parameter maps\<close>

text \<open>
  The parameter maps of the public interface are key-numeric dictionaries: a value is a
  number, or a short vector of numbers for a parameter that does not hold an object. The
  two properties of the state that are not parameters are not among the keys.
\<close>

fun isNumber :: "jsval \<Rightarrow> bool" where
  "isNumber (JNum r) = True"
| "isNumber v = False"

fun isNumericVector :: "jsval \<Rightarrow> bool" where
  "isNumericVector (JArr xs) = list_all isNumber xs"
| "isNumericVector v = False"

definition holdsObject :: "HypercubeCore \<Rightarrow> string \<Rightarrow> bool" where
  "holdsObject c key = (case props c key of Some v \<Rightarrow> isObject v | None \<Rightarrow> False)"

definition keyNumericDictionary :: "HypercubeCore \<Rightarrow> (string \<times> jsval) list \<Rightarrow> bool" where
  "keyNumericDictionary c newParams =
     list_all (\<lambda>(key, v). key \<noteq> ''_dirtyUniforms'' \<and> key \<noteq> ''callbacks''
                 \<and> (isNumber v \<or> (isNumericVector v \<and> \<not> holdsObject c key))) newParams"

section \<open>Lower-casing\<close>

lemma toLowerCase_char_idem: "toLowerCase_char (toLowerCase_char c) = toLowerCase_char c"
proof -
  have "of_char (char_of (of_char c + 32 :: nat)) = (of_char c + 32 :: nat)"
    if "(of_char c :: nat) \<le> 222"
    using that by simp
  then show ?thesis
    by (auto simp: toLowerCase_char_def Let_def)
qed

lemma toLowerCase_idem: "toLowerCase (toLowerCase s) = toLowerCase s"
  by (simp add: toLowerCase_def toLowerCase_char_idem)

lemma toLowerCase_Nil_iff: "toLowerCase s = [] \<longleftrightarrow> s = []"
  by (simp add: toLowerCase_def)

section \<open>Registration and lookup\<close>

lemma lower_names:
  "toLowerCase ''hypercube'' = ''hypercube''"
  "toLowerCase ''hypersphere'' = ''hypersphere''"
  "toLowerCase ''hypertetrahedron'' = ''hypertetrahedron''"
  "toLowerCase ''torus'' = ''torus''"
  "toLowerCase ''klein'' = ''klein''"
  "toLowerCase ''fractal'' = ''fractal''"
  "toLowerCase ''wave'' = ''wave''"
  "toLowerCase ''crystal'' = ''crystal''"
  "toLowerCase ''perspective'' = ''perspective''"
  "toLowerCase ''orthographic'' = ''orthographic''"
  "toLowerCase ''stereographic'' = ''stereographic''"
  "toLowerCase ''grid'' = ''grid''"
  "toLowerCase ''linear'' = ''linear''"
  "toLowerCase ''blob'' = ''blob''"
  "toLowerCase ''Blob'' = ''blob''"
  "toLowerCase ''BLOB'' = ''blob''"
  "toLowerCase ''Linear'' = ''linear''"
  "toLowerCase ''LINEAR'' = ''linear''"
  "toLowerCase ''__PROTO__'' = ''__proto__''"
  "toLowerCase ''__proto__'' = ''__proto__''"
  "toLowerCase ''unregistered_name'' = ''unregistered_name''"
  by code_simp+

lemmas registry_simps =
  geometryLookup_def geometryProperty_def geometry_properties_def
  projectionLookup_def projectionProperty_def
  getProperty_def objectPrototypeKeys_def lower_names

lemmas sampleManagers_simps =
  sampleShaderManager_def sampleGeometryManager_def sampleProjectionManager_def
  blobGeometryManager_def
  latticeGeometry_def gridGeometry_def blobGeometry_def linearProjection_def

text \<open>
  The sample managers are what the constructors and the registrations of the application
  leave.
\<close>

lemma sampleGeometryManager_registered:
  "andThen (new_GeometryManager None) (\<lambda>gm0.
   andThen (registerGeometry gm0 (JStr ''hypercube'') (GeometryInstance latticeGeometry)) (\<lambda>gm1.
     registerGeometry gm1 (JStr ''grid'') (GeometryInstance gridGeometry)))
   = Normal sampleGeometryManager"
proof -
  have "geometries sampleGeometryManager =
          (((\<lambda>k. None)(''hypercube'' \<mapsto> HypercubeGeometry, ''hypersphere'' \<mapsto> HypersphereGeometry,
            ''hypertetrahedron'' \<mapsto> HypertetrahedronGeometry, ''torus'' \<mapsto> TorusGeometry,
            ''klein'' \<mapsto> KleinGeometry, ''fractal'' \<mapsto> FractalGeometry,
            ''wave'' \<mapsto> WaveGeometry, ''crystal'' \<mapsto> CrystalGeometry))
              (''hypercube'' \<mapsto> latticeGeometry))(''grid'' \<mapsto> gridGeometry)"
    by (rule ext) (simp add: sampleGeometryManager_def)
  then show ?thesis
    by (simp add: new_GeometryManager_def initGeometries_def lower_names Let_def
        sampleGeometryManager_def)
qed

lemma sampleProjectionManager_registered:
  "andThen (new_ProjectionManager None) (\<lambda>pm0.
   andThen (registerProjection pm0 (JStr ''perspective'') (ProjectionInstance linearProjection)) (\<lambda>pm1.
     registerProjection pm1 (JStr ''linear'') (ProjectionInstance linearProjection)))
   = Normal sampleProjectionManager"
proof -
  have "projections sampleProjectionManager =
          (((\<lambda>k. None)(''perspective'' \<mapsto> PerspectiveProjection ''2.50'',
            ''orthographic'' \<mapsto> OrthographicProjection,
            ''stereographic'' \<mapsto> StereographicProjection ''-1.50''))
              (''perspective'' \<mapsto> linearProjection))(''linear'' \<mapsto> linearProjection)"
    by (rule ext) (simp add: sampleProjectionManager_def)
  then show ?thesis
    by (simp add: new_ProjectionManager_def initProjections_def lower_names Let_def
        sampleProjectionManager_def)
qed

lemma getGeometry_registered:
  assumes "n \<noteq> []" and "toLowerCase m = toLowerCase n"
  shows "\<exists>gm'. registerGeometry gm (JStr n) (GeometryInstance g) = Normal gm'
           \<and> getGeometry gm' (JStr m)
               = Normal (if toLowerCase n = ''__proto__'' then Prototype g else Own g)"
proof -
  from assms have "m \<noteq> []"
    by (metis toLowerCase_Nil_iff)
  with assms show ?thesis
    by (simp add: Let_def geometryLookup_def geometryProperty_def getProperty_def)
qed

lemma getProjection_registered:
  assumes "n \<noteq> []" and "toLowerCase m = toLowerCase n"
  shows "\<exists>pm'. registerProjection pm (JStr n) (ProjectionInstance p) = Normal pm'
           \<and> getProjection pm' (JStr m)
               = Normal (if toLowerCase n = ''__proto__'' then Prototype p else Own p)"
proof -
  from assms have "m \<noteq> []"
    by (metis toLowerCase_Nil_iff)
  with assms show ?thesis
    by (simp add: Let_def projectionLookup_def projectionProperty_def getProperty_def)
qed

text \<open>
  C10. Both registries store an instance under the lower-cased name and lower-case the name
  they are asked for. After an instance has been registered under a non-empty name, looking
  up any name with the same lower-cased form returns that instance: as the own property of
  the lower-cased name or, for the name \<open>__proto__\<close>, as the prototype the assignment has
  installed. And in any registry, looking up a name gives the same result as looking up its
  lower-cased form.
\<close>

theorem lookup_case_insensitive:
  "(n \<noteq> [] \<and> toLowerCase m = toLowerCase n \<longrightarrow>
      (\<exists>gm'. registerGeometry gm (JStr n) (GeometryInstance g) = Normal gm'
         \<and> getGeometry gm' (JStr m)
             = Normal (if toLowerCase n = ''__proto__'' then Prototype g else Own g))
    \<and> (\<exists>pm'. registerProjection pm (JStr n) (ProjectionInstance p) = Normal pm'
         \<and> getProjection pm' (JStr m)
             = Normal (if toLowerCase n = ''__proto__'' then Prototype p else Own p)))
   \<and> getGeometry gm (JStr n) = getGeometry gm (JStr (toLowerCase n))
   \<and> getProjection pm (JStr n) = getProjection pm (JStr (toLowerCase n))"
  using getGeometry_registered[of n m gm g] getProjection_registered[of n m pm p]
  by (simp add: toLowerCase_idem toLowerCase_Nil_iff)

text \<open>
  C10 at the sample managers: the blob registered as \<open>Blob\<close> is found as \<open>BLOB\<close>, the linear
  projection registered as \<open>Linear\<close> is found as \<open>LINEAR\<close>.
\<close>

theorem lookup_case_insensitive_witness:
  "''Blob'' \<noteq> [] \<and> toLowerCase ''BLOB'' = toLowerCase ''Blob''
   \<and> registerGeometry sampleGeometryManager (JStr ''Blob'') (GeometryInstance blobGeometry)
       = Normal blobGeometryManager
   \<and> getGeometry blobGeometryManager (JStr ''BLOB'') = Normal (Own blobGeometry)
   \<and> registerProjection sampleProjectionManager (JStr ''Blob'') (ProjectionInstance linearProjection)
       = Normal (sampleProjectionManager\<lparr>projections :=
                   (projections sampleProjectionManager)(''blob'' \<mapsto> linearProjection)\<rparr>)
   \<and> getProjection
        (sampleProjectionManager\<lparr>projections :=
           (projections sampleProjectionManager)(''blob'' \<mapsto> linearProjection)\<rparr>)
        (JStr ''BLOB'') = Normal (Own linearProjection)"
proof -
  let ?pm' = "sampleProjectionManager\<lparr>projections :=
                (projections sampleProjectionManager)(''blob'' \<mapsto> linearProjection)\<rparr>"
  have h1: "''Blob'' \<noteq> []" by simp
  have h2: "toLowerCase ''BLOB'' = toLowerCase ''Blob''" by (simp add: lower_names)
  have p: "toLowerCase ''Blob'' \<noteq> ''__proto__''" by (simp add: lower_names)
  have r1: "registerGeometry sampleGeometryManager (JStr ''Blob'') (GeometryInstance blobGeometry)
              = Normal blobGeometryManager"
    by (simp add: lower_names blobGeometryManager_def)
  have r2: "registerProjection sampleProjectionManager (JStr ''Blob'')
              (ProjectionInstance linearProjection) = Normal ?pm'"
    by (simp add: lower_names)
  note at = lookup_case_insensitive
      [where n = "''Blob''" and m = "''BLOB''" and gm = sampleGeometryManager
         and g = blobGeometry and pm = sampleProjectionManager and p = linearProjection]
  from at h1 h2 obtain gm' where
    g: "registerGeometry sampleGeometryManager (JStr ''Blob'') (GeometryInstance blobGeometry)
          = Normal gm'"
       "getGeometry gm' (JStr ''BLOB'')
          = Normal (if toLowerCase ''Blob'' = ''__proto__'' then Prototype blobGeometry
                    else Own blobGeometry)"
    by blast
  from g(1) r1 have "gm' = blobGeometryManager" by simp
  with g(2) p
  have c1: "getGeometry blobGeometryManager (JStr ''BLOB'') = Normal (Own blobGeometry)"
    by simp
  from at h1 h2 obtain pm' where
    q: "registerProjection sampleProjectionManager (JStr ''Blob'')
          (ProjectionInstance linearProjection) = Normal pm'"
       "getProjection pm' (JStr ''BLOB'')
          = Normal (if toLowerCase ''Blob'' = ''__proto__'' then Prototype linearProjection
                    else Own linearProjection)"
    by blast
  from q(1) r2 have "pm' = ?pm'" by simp
  with q(2) p
  have c2: "getProjection ?pm' (JStr ''BLOB'') = Normal (Own linearProjection)"
    by simp
  from h1 h2 r1 c1 r2 c2 show ?thesis by (intro conjI)
qed

section \<open>Parameter writes\<close>

lemma uniformNames_mem:
  "u \<in> set (uniformNames k) \<longleftrightarrow>
     (k = ''time'' \<and> u = ''u_time'') \<or> (k = ''resolution'' \<and> u = ''u_resolution'')
   \<or> (k = ''dimensions'' \<and> u = ''u_dimension'') \<or> (k = ''morphFactor'' \<and> u = ''u_morphFactor'')
   \<or> (k = ''rotationSpeed'' \<and> u = ''u_rotationSpeed'')
   \<or> (k = ''universeModifier'' \<and> u = ''u_universeModifier'')
   \<or> (k = ''patternIntensity'' \<and> u = ''u_patternIntensity'')
   \<or> (k = ''gridDensity'' \<and> u = ''u_gridDensity'')
   \<or> (k = ''lineThickness'' \<and> u = ''u_lineThickness'')
   \<or> (k = ''shellWidth'' \<and> u = ''u_shellWidth'')
   \<or> (k = ''tetraThickness'' \<and> u = ''u_tetraThickness'')
   \<or> (k = ''glitchIntensity'' \<and> u = ''u_glitchIntensity'')
   \<or> (k = ''colorShift'' \<and> u = ''u_colorShift'')
   \<or> (k = ''audioLevels'' \<and> (u = ''u_audioBass'' \<or> u = ''u_audioMid'' \<or> u = ''u_audioHigh''))
   \<or> (k = ''colorScheme''
        \<and> (u = ''u_primaryColor'' \<or> u = ''u_secondaryColor'' \<or> u = ''u_backgroundColor''))"
  by (simp add: uniformNames_def)

lemma uniformNames_inj:
  assumes "u \<in> set (uniformNames k)" and "u \<in> set (uniformNames k')"
  shows "k = k'"
proof -
  define keyOf :: "string \<Rightarrow> string" where
    "keyOf x =
       (if x = ''u_time'' then ''time'' else if x = ''u_resolution'' then ''resolution''
        else if x = ''u_dimension'' then ''dimensions''
        else if x = ''u_morphFactor'' then ''morphFactor''
        else if x = ''u_rotationSpeed'' then ''rotationSpeed''
        else if x = ''u_universeModifier'' then ''universeModifier''
        else if x = ''u_patternIntensity'' then ''patternIntensity''
        else if x = ''u_gridDensity'' then ''gridDensity''
        else if x = ''u_lineThickness'' then ''lineThickness''
        else if x = ''u_shellWidth'' then ''shellWidth''
        else if x = ''u_tetraThickness'' then ''tetraThickness''
        else if x = ''u_glitchIntensity'' then ''glitchIntensity''
        else if x = ''u_colorShift'' then ''colorShift''
        else if x = ''u_audioBass'' \<or> x = ''u_audioMid'' \<or> x = ''u_audioHigh'' then ''audioLevels''
        else ''colorScheme'')" for x
  have key: "x \<in> set (uniformNames j) \<Longrightarrow> j = keyOf x" for x j
    unfolding uniformNames_mem by (elim disjE conjE) (simp_all add: keyOf_def)
  from key[OF assms(1)] key[OF assms(2)] show ?thesis by simp
qed

lemma uniformNames_dotted [simp]:
  "uniformNames ''colorScheme.primary'' = []" "uniformNames ''colorScheme.secondary'' = []"
  "uniformNames ''colorScheme.background'' = []" "uniformNames ''audioLevels.bass'' = []"
  "uniformNames ''audioLevels.mid'' = []" "uniformNames ''audioLevels.high'' = []"
  by (simp_all add: uniformNames_def)

lemma set_fold_setAdd: "set (fold setAdd names acc) = set acc \<union> set names"
  by (induction names arbitrary: acc) (auto simp: setAdd_def)

lemma props_markUniformDirty [simp]: "props (markUniformDirty k c) = props c"
  by (simp add: markUniformDirty_def)

lemma dirty_markUniformDirty:
  "set (dirtyUniforms (markUniformDirty k c)) = set (dirtyUniforms c) \<union> set (uniformNames k)"
  by (simp add: markUniformDirty_def set_fold_setAdd)

lemma markUniformDirty_nothing: "uniformNames k = [] \<Longrightarrow> markUniformDirty k c = c"
  by (simp add: markUniformDirty_def)

lemma markIfOwn_cases:
  "markIfOwn v n ''colorScheme.primary'' c = (r, c') \<Longrightarrow> c' = c"
  "markIfOwn v n ''colorScheme.secondary'' c = (r, c') \<Longrightarrow> c' = c"
  "markIfOwn v n ''colorScheme.background'' c = (r, c') \<Longrightarrow> c' = c"
  "markIfOwn v n ''audioLevels.bass'' c = (r, c') \<Longrightarrow> c' = c"
  "markIfOwn v n ''audioLevels.mid'' c = (r, c') \<Longrightarrow> c' = c"
  "markIfOwn v n ''audioLevels.high'' c = (r, c') \<Longrightarrow> c' = c"
  by (auto simp: markIfOwn_def markUniformDirty_nothing split: completion.splits if_splits)

lemma snd_markIfOwn [simp]:
  "snd (markIfOwn v n ''colorScheme.primary'' c) = c"
  "snd (markIfOwn v n ''colorScheme.secondary'' c) = c"
  "snd (markIfOwn v n ''colorScheme.background'' c) = c"
  "snd (markIfOwn v n ''audioLevels.bass'' c) = c"
  "snd (markIfOwn v n ''audioLevels.mid'' c) = c"
  "snd (markIfOwn v n ''audioLevels.high'' c) = c"
  by (simp_all add: markIfOwn_def markUniformDirty_nothing split: completion.splits)

lemma snd_thenDo:
  "snd (thenDo x f) = (case fst x of Normal a \<Rightarrow> snd (f a (snd x)) | _ \<Rightarrow> snd x)"
  by (cases x; cases "fst x") auto

lemma fst_thenDo:
  "fst (thenDo x f) = (case fst x of Normal a \<Rightarrow> fst (f a (snd x)) | Throw e \<Rightarrow> Throw e | Unmodelled \<Rightarrow> Unmodelled)"
  by (cases x; cases "fst x") auto

lemma snd_thenDo_keep:
  assumes "\<And>a s. snd (f a s) = s"
  shows "snd (thenDo x f) = snd x"
  by (cases x; cases "fst x") (auto simp: assms)

text \<open>What the object branch leaves behind: the merged object under the key, nothing else.\<close>

lemma snd_updateObject:
  "snd (updateObject key old v c) =
     (if JObj old \<noteq> v
      then (case ownProperties v of
              None \<Rightarrow> c
            | Some new \<Rightarrow> setProp key (JObj (spread old new)) c)
      else c)"
  by (simp add: updateObject_def Let_def snd_thenDo_keep split: option.splits)

lemma snd_updateParameter:
  "snd (updateParameter key v c) = c
   \<or> (\<exists>w. snd (updateParameter key v c) = setProp key w c \<and> props c key \<noteq> None \<and> (\<exists>ps. props c key = Some (JObj ps)))
   \<or> (snd (updateParameter key v c) = markUniformDirty key (setProp key v c) \<and> props c key \<noteq> None \<and> props c key \<noteq> Some v)"
  by (cases "props c key")
     (auto simp: updateParameter_def snd_updateObject split: jsval.splits option.splits)

lemma updateParameter_props_other:
  "k \<noteq> key \<Longrightarrow> props (snd (updateParameter key v c)) k = props c k"
  using snd_updateParameter[of key v c] by (auto simp: setProp_def)

lemma updateParameter_dirty:
  "set (dirtyUniforms (snd (updateParameter key v c)))
     \<subseteq> set (dirtyUniforms c) \<union> set (uniformNames key)"
  using snd_updateParameter[of key v c] by (auto simp: setProp_def dirty_markUniformDirty)

lemma updateParameter_same:
  "props c key = Some v \<Longrightarrow> snd (updateParameter key v c) = c"
  by (auto simp: updateParameter_def updateObject_def split: option.splits jsval.splits)

lemma updateLoop_noop_key:
  assumes "\<forall>v. (k, v) \<in> set ps \<longrightarrow> props c k = Some v"
  shows "props (snd (updateLoop ps flag c)) k = props c k
         \<and> (\<forall>u \<in> set (uniformNames k).
               u \<in> set (dirtyUniforms (snd (updateLoop ps flag c))) \<longrightarrow> u \<in> set (dirtyUniforms c))"
  using assms
proof (induction ps arbitrary: c flag)
  case Nil
  then show ?case by simp
next
  case (Cons entry ps)
  obtain key v where entry: "entry = (key, v)" by (cases entry)
  let ?c1 = "snd (updateParameter key v c)"
  have keep: "props ?c1 k = props c k"
  proof (cases "key = k")
    case True
    with Cons.prems entry have "props c key = Some v" by simp
    then show ?thesis by (simp add: updateParameter_same)
  next
    case False
    then show ?thesis by (simp add: updateParameter_props_other)
  qed
  have clean: "u \<in> set (dirtyUniforms ?c1) \<Longrightarrow> u \<in> set (uniformNames k) \<Longrightarrow> u \<in> set (dirtyUniforms c)" for u
  proof (cases "key = k")
    case True
    with Cons.prems entry have "props c key = Some v" by simp
    then show "u \<in> set (dirtyUniforms ?c1) \<Longrightarrow> u \<in> set (dirtyUniforms c)"
      by (simp add: updateParameter_same)
  next
    case False
    assume "u \<in> set (dirtyUniforms ?c1)" "u \<in> set (uniformNames k)"
    with updateParameter_dirty[of key v c] False show "u \<in> set (dirtyUniforms c)"
      using uniformNames_inj by blast
  qed
  have rest: "\<forall>w. (k, w) \<in> set ps \<longrightarrow> props ?c1 k = Some w"
    using Cons.prems keep by simp
  show ?case
  proof (cases "fst (updateParameter key v c)")
    case (Normal changed)
    then have "snd (updateLoop (entry # ps) flag c) = snd (updateLoop ps (flag \<or> changed) ?c1)"
      by (simp add: entry snd_thenDo)
    with Cons.IH[OF rest, of "flag \<or> changed"] keep clean show ?thesis by auto
  next
    case (Throw e)
    then have "snd (updateLoop (entry # ps) flag c) = ?c1"
      by (simp add: entry snd_thenDo)
    with keep clean show ?thesis by auto
  next
    case Unmodelled
    then have "snd (updateLoop (entry # ps) flag c) = ?c1"
      by (simp add: entry snd_thenDo)
    with keep clean show ?thesis by auto
  qed
qed

text \<open>
  C4. A write that gives a key the value it already has changes nothing for that key,
  whatever else the same parameter map writes: the stored value stays, and none of the
  uniforms of the key is added to the dirty set. (\<open>needsShaderUpdate\<close> is left aside: it is
  the one property \<open>updateParameters\<close> sets on its own account.)
\<close>

theorem noop_write_not_dirty:
  assumes "\<forall>v. (k, v) \<in> set newParams \<longrightarrow> props c k = Some v"
      and "k \<noteq> ''needsShaderUpdate''"
  shows "props (snd (updateParameters newParams c)) k = props c k
         \<and> (\<forall>u \<in> set (uniformNames k).
               u \<in> set (dirtyUniforms (snd (updateParameters newParams c)))
                 \<longrightarrow> u \<in> set (dirtyUniforms c))"
proof -
  let ?c1 = "snd (updateLoop newParams False c)"
  have "snd (updateParameters newParams c) = ?c1
        \<or> snd (updateParameters newParams c) = setProp ''needsShaderUpdate'' (JBool True) ?c1"
    by (auto simp: updateParameters_def snd_thenDo split: completion.splits)
  then have "props (snd (updateParameters newParams c)) k = props ?c1 k
             \<and> dirtyUniforms (snd (updateParameters newParams c)) = dirtyUniforms ?c1"
    using assms(2) by (auto simp: setProp_def)
  with updateLoop_noop_key[OF assms(1), of False] show ?thesis by simp
qed

lemmas sampleCore_simps =
  sampleCore_def DEFAULT_STATE_def updateParameters_def updateParameter_def
  setProp_def markUniformDirty_def uniformNames_def setAdd_def

text \<open>
  C4, at the sample core after a flush: writing \<open>dimensions\<close> its current value 4, together
  with a new grid density, leaves \<open>u_dimension\<close> out of the dirty set.
\<close>

theorem noop_write_not_dirty_witness:
  "props (sampleCore\<lparr>dirtyUniforms := []\<rparr>) ''dimensions'' = Some (JNum 4)
   \<and> props (snd (updateParameters [(''dimensions'', JNum 4), (''gridDensity'', JNum 9)]
                  (sampleCore\<lparr>dirtyUniforms := []\<rparr>))) ''dimensions'' = Some (JNum 4)
   \<and> ''u_dimension'' \<notin> set (dirtyUniforms
         (snd (updateParameters [(''dimensions'', JNum 4), (''gridDensity'', JNum 9)]
                 (sampleCore\<lparr>dirtyUniforms := []\<rparr>))))"
proof -
  let ?c = "sampleCore\<lparr>dirtyUniforms := []\<rparr>"
  let ?ps = "[(''dimensions'', JNum 4), (''gridDensity'', JNum 9)]"
  have current: "props ?c ''dimensions'' = Some (JNum 4)"
    by (simp add: sampleCore_def DEFAULT_STATE_def)
  have h: "\<forall>v. (''dimensions'', v) \<in> set ?ps \<longrightarrow> props ?c ''dimensions'' = Some v"
    using current by simp
  have "''u_dimension'' \<in> set (uniformNames ''dimensions'')"
    by (simp add: uniformNames_def)
  with noop_write_not_dirty[OF h] current show ?thesis
    by auto
qed

text \<open>
  C3 fails as stated: the core stores 1000 for \<open>dimensions\<close>, outside every range declared
  for that parameter.
\<close>

theorem write_not_clamped:
  "props (snd (updateParameters [(''dimensions'', JNum 1000)] sampleCore)) ''dimensions''
     = Some (JNum 1000)
   \<and> \<not> withinDeclaredRange ''u_dimension'' (JNum 1000)"
  by (simp add: sampleCore_simps withinDeclaredRange_def declaredRange_def)

lemma uniformValue_plain:
  "uniformSource u = Some (key, None) \<Longrightarrow> uniformValue st u = Some (st key)"
  by (simp add: uniformValue_def)

text \<open>
  C3, amended. A write to a known key whose current value is not an object completes
  normally and stores the written value as it is given, and the upload of the uniform
  reads that stored value as it is: nothing is clamped, on write or on read.
\<close>

theorem write_stored_as_given:
  assumes "props c key = Some old" and "\<not> isObject old"
      and "key \<noteq> ''_dirtyUniforms''" and "key \<noteq> ''callbacks''"
  shows "fst (updateParameters [(key, v)] c) = Normal ()
         \<and> props (snd (updateParameters [(key, v)] c)) key = Some v
         \<and> (uniformSource u = Some (key, None)
              \<longrightarrow> uniformValue (props (snd (updateParameters [(key, v)] c))) u = Some (Some v))"
proof -
  have step: "fst (updateParameter key v c) = Normal (old \<noteq> v \<and> (key = ''geometryType'' \<or> key = ''projectionMethod''))
              \<and> props (snd (updateParameter key v c)) key = Some v"
    using assms by (cases old) (auto simp: updateParameter_def setProp_def)
  have "key \<noteq> ''needsShaderUpdate'' \<or> v = JBool True \<or> \<not> (key = ''geometryType'' \<or> key = ''projectionMethod'')"
    by auto
  with step have "fst (updateParameters [(key, v)] c) = Normal ()
      \<and> props (snd (updateParameters [(key, v)] c)) key = Some v"
    by (cases "updateParameter key v c") (auto simp: updateParameters_def setProp_def)
  then show ?thesis
    by (simp add: uniformValue_plain)
qed

text \<open>C3, amended, at the sample core: 1000 is stored for \<open>dimensions\<close> and is what would be uploaded.\<close>

theorem write_stored_as_given_witness:
  "props sampleCore ''dimensions'' = Some (JNum 4) \<and> \<not> isObject (JNum 4)
   \<and> uniformSource ''u_dimension'' = Some (''dimensions'', None)
   \<and> fst (updateParameters [(''dimensions'', JNum 1000)] sampleCore) = Normal ()
   \<and> props (snd (updateParameters [(''dimensions'', JNum 1000)] sampleCore)) ''dimensions''
        = Some (JNum 1000)
   \<and> uniformValue (props (snd (updateParameters [(''dimensions'', JNum 1000)] sampleCore)))
        ''u_dimension'' = Some (Some (JNum 1000))"
proof -
  have h1: "props sampleCore ''dimensions'' = Some (JNum 4)"
    by (simp add: sampleCore_def DEFAULT_STATE_def)
  have h2: "\<not> isObject (JNum 4)" by simp
  have h3: "uniformSource ''u_dimension'' = Some (''dimensions'', None)"
    by (simp add: uniformSource_def)
  from write_stored_as_given[OF h1 h2, of "JNum 1000" "''u_dimension''"] h1 h2 h3
  show ?thesis by simp
qed

section \<open>Registration and composition\<close>

text \<open>
  C7 fails as stated: a geometry whose fragment has neither \<open>densityField\<close> nor
  \<open>calculateLattice\<close> is registered without complaint, is in the registry afterwards and is
  what a lookup of its name returns.
\<close>

theorem register_unvalidated:
  "geometries sampleGeometryManager ''blob'' = None
   \<and> registerGeometry sampleGeometryManager (JStr ''blob'') (GeometryInstance blobGeometry)
       = Normal blobGeometryManager
   \<and> geometries blobGeometryManager ''blob'' = Some blobGeometry
   \<and> getGeometry blobGeometryManager (JStr ''blob'') = Normal (Own blobGeometry)
   \<and> geometry_getShaderCode blobGeometry = Normal (JStr ''float blob(vec3 p) { return 1.0; }'')
   \<and> \<not> js_includes ''float blob(vec3 p) { return 1.0; }'' ''densityField''
   \<and> \<not> js_includes ''float blob(vec3 p) { return 1.0; }'' ''calculateLattice''"
  by (simp add: registry_simps sampleGeometryManager_def blobGeometryManager_def blobGeometry_def)

lemma compileShader_keeps [simp]:
  "programs (fst (snd (compileShader sm g ident source t))) = programs sm"
  "geometryManager (fst (snd (compileShader sm g ident source t))) = geometryManager sm"
  "projectionManager (fst (snd (compileShader sm g ident source t))) = projectionManager sm"
  "shaderSources (fst (snd (compileShader sm g ident source t))) = shaderSources sm"
  "baseFragmentShaderName (fst (snd (compileShader sm g ident source t))) = baseFragmentShaderName sm"
  "baseVertexShaderName (fst (snd (compileShader sm g ident source t))) = baseVertexShaderName sm"
  "currentProgramName (fst (snd (compileShader sm g ident source t))) = currentProgramName sm"
  by (simp_all add: compileShader_def gl_createObject_def Let_def split: option.splits prod.splits)

lemma assembleFragment_geometry_rejected:
  assumes "getGeometry (geometryManager sm) gname = Normal (Own g)"
      and "geometry_getShaderCode g = Normal (JStr code)"
      and "\<not> js_includes code ''calculateLattice''"
      and "getProjection (projectionManager sm) pname = Normal (Own p)"
      and "projection_getShaderCode p = Normal (JStr pcode)"
  shows "assembleFragment sm gname pname = Normal (Null MissingCalculateLattice)"
  using assms by (simp add: assembleFragment_def validGLSL_def)

lemma assembleFragment_projection_rejected:
  assumes "getGeometry (geometryManager sm) gname = Normal (Own g)"
      and "geometry_getShaderCode g = Normal (JStr code)"
      and "js_includes code ''calculateLattice''"
      and "getProjection (projectionManager sm) pname = Normal (Own p)"
      and "projection_getShaderCode p = Normal (JStr pcode)"
      and "\<not> js_includes pcode ''project4Dto3D''"
  shows "assembleFragment sm gname pname = Normal (Null MissingProject4Dto3D)"
  using assms by (simp add: assembleFragment_def validGLSL_def)

lemma assembleFragment_cong:
  assumes "geometryManager sm' = geometryManager sm"
      and "projectionManager sm' = projectionManager sm"
      and "shaderSources sm' = shaderSources sm"
      and "baseFragmentShaderName sm' = baseFragmentShaderName sm"
  shows "assembleFragment sm' gname pname = assembleFragment sm gname pname"
  unfolding assembleFragment_def assms ..

text \<open>When the fragment is refused, \<open>createDynamicProgram\<close> returns \<open>null\<close> and leaves the programs alone.\<close>

lemma createDynamicProgram_refused:
  assumes "assembleFragment sm gname pname = Normal (Null f)"
  shows "(\<exists>f'. fst (createDynamicProgram sm g prog gname pname) = Normal (Null f'))
         \<and> programs (fst (snd (createDynamicProgram sm g prog gname pname))) = programs sm"
proof (cases "shaderSources sm (baseVertexShaderName sm)")
  case None
  then show ?thesis by (simp add: createDynamicProgram_def)
next
  case (Some src)
  obtain vsSource vsType where src: "src = (vsSource, vsType)" by (cases src)
  define stage where "stage = compileShader sm g (baseVertexShaderName sm) vsSource vsType"
  obtain r sm1 g1 where c: "stage = (r, sm1, g1)"
    by (cases stage) auto
  have sm1: "sm1 = fst (snd stage)" using c by simp
  have "assembleFragment sm1 gname pname = assembleFragment sm gname pname"
    by (rule assembleFragment_cong) (simp_all add: sm1 stage_def)
  with assms have a: "assembleFragment sm1 gname pname = Normal (Null f)"
    by simp
  have p: "programs sm1 = programs sm"
    unfolding sm1 stage_def by simp
  have unfolded: "createDynamicProgram sm g prog gname pname =
      (case r of
         Null f' \<Rightarrow> (Normal (Null VertexCompileFailed), sm1, g1)
       | Object vs \<Rightarrow> (Normal (Null f), sm1, g1))"
    unfolding createDynamicProgram_def Some src
    using c[unfolded stage_def] a by (simp split: nullable.splits)
  show ?thesis
    unfolding unfolded using p by (cases r) simp_all
qed

lemma composition_refused:
  assumes "getGeometry (geometryManager sm) gname = Normal (Own g')"
      and "geometry_getShaderCode g' = Normal (JStr gcode)"
      and "getProjection (projectionManager sm) pname = Normal (Own p')"
      and "projection_getShaderCode p' = Normal (JStr pcode)"
      and "\<not> js_includes gcode ''calculateLattice'' \<or> \<not> js_includes pcode ''project4Dto3D''"
  shows "(\<exists>f. fst (createDynamicProgram sm ctx prog gname pname) = Normal (Null f))
         \<and> programs (fst (snd (createDynamicProgram sm ctx prog gname pname))) = programs sm
         \<and> assembleFragment sm gname pname
             = Normal (Null (if \<not> js_includes gcode ''calculateLattice''
                             then MissingCalculateLattice else MissingProject4Dto3D))"
proof -
  have a: "assembleFragment sm gname pname
            = Normal (Null (if \<not> js_includes gcode ''calculateLattice''
                            then MissingCalculateLattice else MissingProject4Dto3D))"
    using assms assembleFragment_geometry_rejected[of sm gname g' gcode pname p' pcode]
      assembleFragment_projection_rejected[of sm gname g' gcode pname p' pcode]
    by auto
  from createDynamicProgram_refused[OF a, of ctx prog] a show ?thesis by simp
qed

lemma registerGeometry_not_string:
  assumes "\<forall>s. name \<noteq> JStr s"
  shows "\<exists>message. registerGeometry gm name inst = Throw (TypeError message)"
  using assms by (cases name) simp_all

lemma registerProjection_not_string:
  assumes "\<forall>s. name \<noteq> JStr s"
  shows "\<exists>message. registerProjection pm name inst = Throw (TypeError message)"
  using assms by (cases name) simp_all

text \<open>
  C7, amended. Registration under a string name checks the class of the instance and
  nothing else. An instance of the right hierarchy is registered whatever its fragment
  says: the call completes normally and a lookup of the name returns the instance
  afterwards (for a non-empty name; as the prototype of the registry when the name is
  \<open>__proto__\<close>). Any other value leaves the registry as it was, and nothing is thrown. A name
  that is not a string makes \<open>name.toLowerCase()\<close> throw a \<open>TypeError\<close> before any check. The
  function names are checked when a program is composed, and they are \<open>calculateLattice\<close>
  and \<open>project4Dto3D\<close>: a fragment lacking its name makes \<open>createDynamicProgram\<close> return
  \<open>null\<close> and store no program.
\<close>

theorem registration_checks_class_only:
  "(n \<noteq> [] \<longrightarrow>
      (\<exists>gm'. registerGeometry gm (JStr n) (GeometryInstance g) = Normal gm'
         \<and> getGeometry gm' (JStr n)
             = Normal (if toLowerCase n = ''__proto__'' then Prototype g else Own g))
    \<and> (\<exists>pm'. registerProjection pm (JStr n) (ProjectionInstance p) = Normal pm'
         \<and> getProjection pm' (JStr n)
             = Normal (if toLowerCase n = ''__proto__'' then Prototype p else Own p)))
   \<and> registerGeometry gm (JStr n) (ProjectionInstance p) = Normal gm
   \<and> registerGeometry gm (JStr n) (OtherValue v) = Normal gm
   \<and> registerProjection pm (JStr n) (GeometryInstance g) = Normal pm
   \<and> registerProjection pm (JStr n) (OtherValue v) = Normal pm
   \<and> ((\<forall>s. name \<noteq> JStr s) \<longrightarrow>
        (\<exists>message. registerGeometry gm name inst = Throw (TypeError message))
        \<and> (\<exists>message. registerProjection pm name inst = Throw (TypeError message)))
   \<and> (getGeometry (geometryManager sm) gname = Normal (Own g')
        \<and> geometry_getShaderCode g' = Normal (JStr gcode)
        \<and> getProjection (projectionManager sm) pname = Normal (Own p')
        \<and> projection_getShaderCode p' = Normal (JStr pcode)
        \<and> (\<not> js_includes gcode ''calculateLattice'' \<or> \<not> js_includes pcode ''project4Dto3D'')
      \<longrightarrow> (\<exists>f. fst (createDynamicProgram sm ctx prog gname pname) = Normal (Null f))
          \<and> programs (fst (snd (createDynamicProgram sm ctx prog gname pname))) = programs sm
          \<and> assembleFragment sm gname pname
              = Normal (Null (if \<not> js_includes gcode ''calculateLattice''
                              then MissingCalculateLattice else MissingProject4Dto3D)))"
proof -
  have reg: "n \<noteq> [] \<longrightarrow>
      (\<exists>gm'. registerGeometry gm (JStr n) (GeometryInstance g) = Normal gm'
         \<and> getGeometry gm' (JStr n)
             = Normal (if toLowerCase n = ''__proto__'' then Prototype g else Own g))
    \<and> (\<exists>pm'. registerProjection pm (JStr n) (ProjectionInstance p) = Normal pm'
         \<and> getProjection pm' (JStr n)
             = Normal (if toLowerCase n = ''__proto__'' then Prototype p else Own p))"
    using getGeometry_registered[of n n gm g] getProjection_registered[of n n pm p] by blast
  have others: "registerGeometry gm (JStr n) (ProjectionInstance p) = Normal gm"
    "registerGeometry gm (JStr n) (OtherValue v) = Normal gm"
    "registerProjection pm (JStr n) (GeometryInstance g) = Normal pm"
    "registerProjection pm (JStr n) (OtherValue v) = Normal pm"
    by simp_all
  have thrown: "(\<forall>s. name \<noteq> JStr s) \<longrightarrow>
        (\<exists>message. registerGeometry gm name inst = Throw (TypeError message))
        \<and> (\<exists>message. registerProjection pm name inst = Throw (TypeError message))"
    using registerGeometry_not_string[of name gm inst] registerProjection_not_string[of name pm inst]
    by blast
  have composed: "getGeometry (geometryManager sm) gname = Normal (Own g')
        \<and> geometry_getShaderCode g' = Normal (JStr gcode)
        \<and> getProjection (projectionManager sm) pname = Normal (Own p')
        \<and> projection_getShaderCode p' = Normal (JStr pcode)
        \<and> (\<not> js_includes gcode ''calculateLattice'' \<or> \<not> js_includes pcode ''project4Dto3D'')
      \<longrightarrow> (\<exists>f. fst (createDynamicProgram sm ctx prog gname pname) = Normal (Null f))
          \<and> programs (fst (snd (createDynamicProgram sm ctx prog gname pname))) = programs sm
          \<and> assembleFragment sm gname pname
              = Normal (Null (if \<not> js_includes gcode ''calculateLattice''
                              then MissingCalculateLattice else MissingProject4Dto3D))"
    using composition_refused[of sm gname g' gcode pname p' pcode ctx prog] by blast
  from reg others thrown composed show ?thesis by (intro conjI)
qed

text \<open>
  C7, amended, at the sample managers: the blob geometry registers under \<open>Blob\<close> and is
  found, a string in the place of the instance does not register, a number in the place of
  the name throws, and composing the blob with the linear projection is refused for the
  missing \<open>calculateLattice\<close> while the program of the core stays.
\<close>

theorem registration_checks_class_only_witness:
  "''Blob'' \<noteq> []
   \<and> registerGeometry sampleGeometryManager (JStr ''Blob'') (GeometryInstance blobGeometry)
       = Normal blobGeometryManager
   \<and> getGeometry blobGeometryManager (JStr ''Blob'') = Normal (Own blobGeometry)
   \<and> registerGeometry sampleGeometryManager (JStr ''Blob'') (OtherValue (JStr ''not a geometry''))
       = Normal sampleGeometryManager
   \<and> registerGeometry sampleGeometryManager (JNum 7) (GeometryInstance blobGeometry)
       = Throw (TypeError ''name.toLowerCase is not a function'')
   \<and> geometry_getShaderCode blobGeometry = Normal (JStr ''float blob(vec3 p) { return 1.0; }'')
   \<and> getProjection (projectionManager sampleShaderManager) (JStr ''linear'')
        = Normal (Own linearProjection)
   \<and> projection_getShaderCode linearProjection
        = Normal (JStr ''vec3 project4Dto3D(vec4 p) { return p.xyz; }'')
   \<and> \<not> js_includes ''float blob(vec3 p) { return 1.0; }'' ''calculateLattice''
   \<and> assembleFragment (sampleShaderManager\<lparr>geometryManager := blobGeometryManager\<rparr>)
        (JStr ''Blob'') (JStr ''linear'') = Normal (Null MissingCalculateLattice)
   \<and> programs (fst (snd (createDynamicProgram
        (sampleShaderManager\<lparr>geometryManager := blobGeometryManager\<rparr>)
        workingGL ''maleficarumViz'' (JStr ''Blob'') (JStr ''linear'')))) ''maleficarumViz''
       = Some (Some 3)"
proof -
  let ?sm = "sampleShaderManager\<lparr>geometryManager := blobGeometryManager\<rparr>"
  have h0: "''Blob'' \<noteq> []" by simp
  have np: "toLowerCase ''Blob'' \<noteq> ''__proto__''" by (simp add: lower_names)
  have ns: "\<forall>s. JNum 7 \<noteq> JStr s" by simp
  have r1: "registerGeometry sampleGeometryManager (JStr ''Blob'') (GeometryInstance blobGeometry)
              = Normal blobGeometryManager"
    by (simp add: lower_names blobGeometryManager_def)
  have h2: "geometry_getShaderCode blobGeometry = Normal (JStr ''float blob(vec3 p) { return 1.0; }'')"
    by (simp add: blobGeometry_def)
  have h3: "getProjection (projectionManager ?sm) (JStr ''linear'') = Normal (Own linearProjection)"
    by (simp add: sampleManagers_simps registry_simps)
  have h4: "projection_getShaderCode linearProjection
        = Normal (JStr ''vec3 project4Dto3D(vec4 p) { return p.xyz; }'')"
    by (simp add: linearProjection_def)
  have h5: "\<not> js_includes ''float blob(vec3 p) { return 1.0; }'' ''calculateLattice''"
    by simp
  have p: "programs ?sm ''maleficarumViz'' = Some (Some 3)"
    by (simp add: sampleShaderManager_def)
  note at = registration_checks_class_only
         [where sm = ?sm and gname = "JStr ''Blob''" and pname = "JStr ''linear''"
            and g' = blobGeometry and p' = linearProjection
            and gcode = "''float blob(vec3 p) { return 1.0; }''"
            and pcode = "''vec3 project4Dto3D(vec4 p) { return p.xyz; }''"
            and ctx = workingGL and prog = "''maleficarumViz''"
            and gm = sampleGeometryManager and n = "''Blob''" and g = blobGeometry
            and v = "JStr ''not a geometry''" and name = "JNum 7"
            and inst = "GeometryInstance blobGeometry"]
  from at h0 obtain gm' where
    g: "registerGeometry sampleGeometryManager (JStr ''Blob'') (GeometryInstance blobGeometry)
          = Normal gm'"
       "getGeometry gm' (JStr ''Blob'')
          = Normal (if toLowerCase ''Blob'' = ''__proto__'' then Prototype blobGeometry
                    else Own blobGeometry)"
    by blast
  from g(1) r1 have "gm' = blobGeometryManager" by simp
  with g(2) np
  have c1: "getGeometry blobGeometryManager (JStr ''Blob'') = Normal (Own blobGeometry)"
    by simp
  then have h1: "getGeometry (geometryManager ?sm) (JStr ''Blob'') = Normal (Own blobGeometry)"
    by simp
  from at
  have c2: "registerGeometry sampleGeometryManager (JStr ''Blob'') (OtherValue (JStr ''not a geometry''))
              = Normal sampleGeometryManager"
    by blast
  from at ns obtain message where
    "registerGeometry sampleGeometryManager (JNum 7) (GeometryInstance blobGeometry)
       = Throw (TypeError message)"
    by blast
  then have c3: "registerGeometry sampleGeometryManager (JNum 7) (GeometryInstance blobGeometry)
              = Throw (TypeError ''name.toLowerCase is not a function'')"
    by simp
  from at h1 h2 h3 h4 h5
  have c4: "assembleFragment ?sm (JStr ''Blob'') (JStr ''linear'')
              = Normal (Null (if \<not> js_includes ''float blob(vec3 p) { return 1.0; }'' ''calculateLattice''
                              then MissingCalculateLattice else MissingProject4Dto3D))"
    and c5: "programs (fst (snd (createDynamicProgram ?sm workingGL ''maleficarumViz''
                (JStr ''Blob'') (JStr ''linear'')))) = programs ?sm"
    by blast+
  from c4 h5 have c4': "assembleFragment ?sm (JStr ''Blob'') (JStr ''linear'')
              = Normal (Null MissingCalculateLattice)"
    by simp
  from c5 p have c5': "programs (fst (snd (createDynamicProgram ?sm workingGL ''maleficarumViz''
                (JStr ''Blob'') (JStr ''linear'')))) ''maleficarumViz'' = Some (Some 3)"
    by simp
  from h3 have h3': "getProjection (projectionManager sampleShaderManager) (JStr ''linear'')
        = Normal (Own linearProjection)"
    by simp
  from h0 r1 c1 c2 c3 h2 h3' h4 h5 c4' c5' show ?thesis by (intro conjI)
qed

section \<open>Stages and programs\<close>

lemma assembleFragment_valid:
  assumes "getGeometry (geometryManager sm) gname = Normal (Own g)"
      and "geometry_getShaderCode g = Normal (JStr gcode)"
      and "js_includes gcode ''calculateLattice''"
      and "getProjection (projectionManager sm) pname = Normal (Own p)"
      and "projection_getShaderCode p = Normal (JStr pcode)"
      and "js_includes pcode ''project4Dto3D''"
      and "shaderSources sm (baseFragmentShaderName sm) = Some (template, t)"
      and "templateText gname = Some gn" and "templateText pname = Some pn"
  shows "assembleFragment sm gname pname =
           (if injectionPointsPresent (injectShaderCode template gcode pcode)
            then Normal (Null InjectionFailed)
            else Normal (Object (''fragment-'' @ gn @ ''-'' @ pn,
                                 injectShaderCode template gcode pcode, t)))"
  using assms by (simp add: assembleFragment_def validGLSL_def Let_def)

text \<open>A stage found in the cache is returned; nothing is compiled and nothing changes.\<close>

lemma compileShader_cached:
  assumes "compiledShaders sm ident = Some (Some stage)"
  shows "compileShader sm ctx ident source t = (Object stage, sm, ctx)"
  using assms by (simp add: compileShader_def)

text \<open>
  A stage that is not in the cache is compiled from the source given: with a live context
  and a driver that accepts the source, the new shader object holds that source and is
  stored in the cache under the identifier.
\<close>

lemma compileShader_fresh:
  assumes "compiledShaders sm ident = None \<or> compiledShaders sm ident = Some None"
      and "\<not> contextLost ctx" and "compileStatus ctx source"
  shows "compileShader sm ctx ident source t =
           (Object (nextHandle ctx),
            sm\<lparr>compiledShaders := (compiledShaders sm)(ident \<mapsto> Some (nextHandle ctx))\<rparr>,
            ctx\<lparr>nextHandle := Suc (nextHandle ctx),
                shaderText := (shaderText ctx)(nextHandle ctx \<mapsto> source)\<rparr>)"
  using assms
  by (auto simp: compileShader_def gl_createObject_def gl_COMPILE_STATUS_def gl_shaderSource_def
      Let_def)

text \<open>Whenever \<open>_compileShader\<close> returns a stage, that stage is in the cache under the identifier.\<close>

lemma compileShader_stored:
  assumes "compileShader sm ctx ident source t = (Object stage, sm', ctx')"
  shows "compiledShaders sm' ident = Some (Some stage)"
  using assms
  by (auto simp: compileShader_def gl_createObject_def Let_def
      split: option.splits if_splits)

lemma dropOldProgram_keeps [simp]:
  "contextLost (snd (dropOldProgram sm ctx name)) = contextLost ctx"
  "nextHandle (snd (dropOldProgram sm ctx name)) = nextHandle ctx"
  "shaderText (snd (dropOldProgram sm ctx name)) = shaderText ctx"
  "linkStatus (snd (dropOldProgram sm ctx name)) = linkStatus ctx"
  "currentProgram (snd (dropOldProgram sm ctx name)) = currentProgram ctx"
  "deletedPrograms (snd (dropOldProgram sm ctx name))
     = (case programs sm name of
          Some (Some old) \<Rightarrow> insert old (deletedPrograms ctx)
        | _ \<Rightarrow> deletedPrograms ctx)"
  "compiledShaders (fst (dropOldProgram sm ctx name)) = compiledShaders sm"
  "currentProgramName (fst (dropOldProgram sm ctx name)) = currentProgramName sm"
  "geometryManager (fst (dropOldProgram sm ctx name)) = geometryManager sm"
  "projectionManager (fst (dropOldProgram sm ctx name)) = projectionManager sm"
  "shaderSources (fst (dropOldProgram sm ctx name)) = shaderSources sm"
  "(programs (fst (dropOldProgram sm ctx name)))(name \<mapsto> v) = (programs sm)(name \<mapsto> v)"
  by (auto simp: dropOldProgram_def gl_deleteProgram_def split: option.splits)

text \<open>
  \<open>_createProgram\<close> with a live context and two stages the driver links: the program is a
  new object, stored under the name with empty location caches; a program stored there
  before has been deleted.
\<close>

lemma createProgram_linked:
  assumes "\<not> contextLost ctx"
      and "shaderText ctx vs = Some vsText" and "shaderText ctx fs = Some fsText"
      and "linkStatus ctx vsText fsText"
  obtains sm' ctx' where
    "createProgram sm ctx name vs fs = (Object (nextHandle ctx), sm', ctx')"
    "programs sm' = (programs sm)(name \<mapsto> Some (nextHandle ctx))"
    "uniformLocations sm' name = Some Map.empty" "attributeLocations sm' name = Some Map.empty"
    "compiledShaders sm' = compiledShaders sm" "currentProgramName sm' = currentProgramName sm"
    "geometryManager sm' = geometryManager sm" "projectionManager sm' = projectionManager sm"
    "shaderSources sm' = shaderSources sm"
    "shaderText ctx' = shaderText ctx" "nextHandle ctx' = Suc (nextHandle ctx)"
    "contextLost ctx' = contextLost ctx" "currentProgram ctx' = currentProgram ctx"
    "deletedPrograms ctx'
       = (case programs sm name of
            Some (Some old) \<Rightarrow> insert old (deletedPrograms ctx)
          | _ \<Rightarrow> deletedPrograms ctx)"
proof -
  define sm1 where "sm1 = fst (dropOldProgram sm ctx name)"
  define ctx1 where "ctx1 = snd (dropOldProgram sm ctx name)"
  have d: "dropOldProgram sm ctx name = (sm1, ctx1)"
    by (simp add: sm1_def ctx1_def)
  let ?sm' = "sm1\<lparr>programs := (programs sm1)(name \<mapsto> Some (nextHandle ctx)),
                  uniformLocations := (uniformLocations sm1)(name \<mapsto> Map.empty),
                  attributeLocations := (attributeLocations sm1)(name \<mapsto> Map.empty)\<rparr>"
  let ?ctx' = "ctx1\<lparr>nextHandle := Suc (nextHandle ctx)\<rparr>"
  have k: "contextLost ctx1 = contextLost ctx" "nextHandle ctx1 = nextHandle ctx"
    "shaderText ctx1 = shaderText ctx" "linkStatus ctx1 = linkStatus ctx"
    unfolding ctx1_def by simp_all
  have run: "createProgram sm ctx name vs fs = (Object (nextHandle ctx), ?sm', ?ctx')"
    using assms k
    by (simp add: createProgram_def d gl_createObject_def gl_LINK_STATUS_def)
  show ?thesis
  proof (rule that[OF run])
    show "programs ?sm' = (programs sm)(name \<mapsto> Some (nextHandle ctx))"
      unfolding sm1_def by simp
    show "deletedPrograms ?ctx'
       = (case programs sm name of
            Some (Some old) \<Rightarrow> insert old (deletedPrograms ctx)
          | _ \<Rightarrow> deletedPrograms ctx)"
      unfolding ctx1_def by simp
  qed (simp_all add: sm1_def ctx1_def)
qed

text \<open>
  \<open>createDynamicProgram\<close> when the vertex stage is cached and the fragment is assembled:
  what it returns is decided by compiling the fragment stage and linking.
\<close>

lemma createDynamicProgram_steps:
  assumes "shaderSources sm (baseVertexShaderName sm) = Some (vsSource, vsType)"
      and "compiledShaders sm (baseVertexShaderName sm) = Some (Some vs)"
      and "assembleFragment sm gname pname = Normal (Object (fsId, fsSource, fsType))"
      and "compileShader sm ctx fsId fsSource fsType = (Object fs, sm2, ctx2)"
      and "createProgram sm2 ctx2 prog vs fs = (Object new, sm3, ctx3)"
  shows "createDynamicProgram sm ctx prog gname pname =
           (Normal (Object new), sm3,
            if currentProgramName sm3 = Some prog then gl_useProgram ctx3 (Some new) else ctx3)"
  using assms
  by (simp add: createDynamicProgram_def compileShader_cached)

text \<open>
  The whole of a composition that succeeds with a fragment stage not yet cached: the stage
  compiled holds the assembled source and is cached under the fragment identifier, and
  the program linked from it is stored under the program name.
\<close>

lemma createDynamicProgram_links:
  assumes vsrc: "shaderSources sm (baseVertexShaderName sm) = Some (vsSource, vsType)"
      and vcached: "compiledShaders sm (baseVertexShaderName sm) = Some (Some vs)"
      and asm: "assembleFragment sm gname pname = Normal (Object (fsId, fsSource, fsType))"
      and fresh: "compiledShaders sm fsId = None \<or> compiledShaders sm fsId = Some None"
      and live: "\<not> contextLost ctx"
      and vtext: "shaderText ctx vs = Some vsText" and old: "vs \<noteq> nextHandle ctx"
      and comp: "compileStatus ctx fsSource" and link: "linkStatus ctx vsText fsSource"
  obtains sm' ctx' where
    "createDynamicProgram sm ctx prog gname pname
       = (Normal (Object (Suc (nextHandle ctx))), sm', ctx')"
    "compiledShaders sm' = (compiledShaders sm)(fsId \<mapsto> Some (nextHandle ctx))"
    "programs sm' = (programs sm)(prog \<mapsto> Some (Suc (nextHandle ctx)))"
    "uniformLocations sm' prog = Some Map.empty" "attributeLocations sm' prog = Some Map.empty"
    "shaderText ctx' = (shaderText ctx)(nextHandle ctx \<mapsto> fsSource)"
    "nextHandle ctx' = Suc (Suc (nextHandle ctx))"
    "deletedPrograms ctx'
       = (case programs sm prog of
            Some (Some old) \<Rightarrow> insert old (deletedPrograms ctx)
          | _ \<Rightarrow> deletedPrograms ctx)"
proof -
  let ?fs = "nextHandle ctx"
  let ?sm2 = "sm\<lparr>compiledShaders := (compiledShaders sm)(fsId \<mapsto> Some ?fs)\<rparr>"
  let ?ctx2 = "ctx\<lparr>nextHandle := Suc ?fs, shaderText := (shaderText ctx)(?fs \<mapsto> fsSource)\<rparr>"
  have c: "compileShader sm ctx fsId fsSource fsType = (Object ?fs, ?sm2, ?ctx2)"
    by (rule compileShader_fresh[OF fresh live comp])
  have l: "\<not> contextLost ?ctx2" "shaderText ?ctx2 vs = Some vsText"
    "shaderText ?ctx2 ?fs = Some fsSource" "linkStatus ?ctx2 vsText fsSource"
    using live vtext old link by simp_all
  from createProgram_linked[OF l, of ?sm2 prog]
  obtain sm3 ctx3 where
    p: "createProgram ?sm2 ?ctx2 prog vs ?fs = (Object (nextHandle ?ctx2), sm3, ctx3)"
    and k: "programs sm3 = (programs ?sm2)(prog \<mapsto> Some (nextHandle ?ctx2))"
      "uniformLocations sm3 prog = Some Map.empty" "attributeLocations sm3 prog = Some Map.empty"
      "compiledShaders sm3 = compiledShaders ?sm2"
      "shaderText ctx3 = shaderText ?ctx2" "nextHandle ctx3 = Suc (nextHandle ?ctx2)"
      "deletedPrograms ctx3
         = (case programs ?sm2 prog of
              Some (Some old) \<Rightarrow> insert old (deletedPrograms ?ctx2)
            | _ \<Rightarrow> deletedPrograms ?ctx2)"
    by blast
  let ?ctx' = "if currentProgramName sm3 = Some prog
               then gl_useProgram ctx3 (Some (nextHandle ?ctx2)) else ctx3"
  have run: "createDynamicProgram sm ctx prog gname pname
               = (Normal (Object (nextHandle ?ctx2)), sm3, ?ctx')"
    by (rule createDynamicProgram_steps[OF vsrc vcached asm c p])
  show ?thesis
  proof (rule that[of sm3 ?ctx'])
    show "createDynamicProgram sm ctx prog gname pname
            = (Normal (Object (Suc (nextHandle ctx))), sm3, ?ctx')"
      using run by simp
  qed (use k in \<open>simp_all add: gl_useProgram_def split: option.splits\<close>)
qed

text \<open>
  A composition whose fragment stage is in the cache compiles nothing: the one object
  created is the program, linked from the cached stages.
\<close>

lemma createDynamicProgram_relinks:
  assumes vsrc: "shaderSources sm (baseVertexShaderName sm) = Some (vsSource, vsType)"
      and vcached: "compiledShaders sm (baseVertexShaderName sm) = Some (Some vs)"
      and asm: "assembleFragment sm gname pname = Normal (Object (fsId, fsSource, fsType))"
      and cached: "compiledShaders sm fsId = Some (Some fs)"
      and live: "\<not> contextLost ctx"
      and vtext: "shaderText ctx vs = Some vsText" and ftext: "shaderText ctx fs = Some fsText"
      and link: "linkStatus ctx vsText fsText"
  obtains sm' ctx' where
    "createDynamicProgram sm ctx prog gname pname = (Normal (Object (nextHandle ctx)), sm', ctx')"
    "compiledShaders sm' = compiledShaders sm"
    "programs sm' = (programs sm)(prog \<mapsto> Some (nextHandle ctx))"
    "shaderText ctx' = shaderText ctx"
    "nextHandle ctx' = Suc (nextHandle ctx)"
    "deletedPrograms ctx'
       = (case programs sm prog of
            Some (Some old) \<Rightarrow> insert old (deletedPrograms ctx)
          | _ \<Rightarrow> deletedPrograms ctx)"
proof -
  have c: "compileShader sm ctx fsId fsSource fsType = (Object fs, sm, ctx)"
    by (rule compileShader_cached[OF cached])
  from createProgram_linked[OF live vtext ftext link, of sm prog]
  obtain sm3 ctx3 where
    p: "createProgram sm ctx prog vs fs = (Object (nextHandle ctx), sm3, ctx3)"
    and k: "programs sm3 = (programs sm)(prog \<mapsto> Some (nextHandle ctx))"
      "compiledShaders sm3 = compiledShaders sm"
      "shaderText ctx3 = shaderText ctx" "nextHandle ctx3 = Suc (nextHandle ctx)"
      "deletedPrograms ctx3
         = (case programs sm prog of
              Some (Some old) \<Rightarrow> insert old (deletedPrograms ctx)
            | _ \<Rightarrow> deletedPrograms ctx)"
    by blast
  let ?ctx' = "if currentProgramName sm3 = Some prog
               then gl_useProgram ctx3 (Some (nextHandle ctx)) else ctx3"
  have run: "createDynamicProgram sm ctx prog gname pname
               = (Normal (Object (nextHandle ctx)), sm3, ?ctx')"
    by (rule createDynamicProgram_steps[OF vsrc vcached asm c p])
  show ?thesis
    by (rule that[of sm3 ?ctx', OF run]) (use k in \<open>simp_all add: gl_useProgram_def\<close>)
qed

section \<open>Names that are not registered\<close>

text \<open>
  C2 fails as stated: in the sample geometry manager the name \<open>unregistered_name\<close> has no
  entry, and looking it up returns the lattice, registered under the default name, instead
  of failing. In the running sample core, selecting that name and serving the next frame
  leaves the core running with nothing delivered to \<open>onError\<close>.
\<close>

theorem unknown_name_falls_back:
  "geometries sampleGeometryManager ''unregistered_name'' = None
   \<and> getGeometry sampleGeometryManager (JStr ''unregistered_name'')
        = Normal (Own latticeGeometry)
   \<and> (case fireFrame 16
               (snd (updateParameters [(''geometryType'', JStr ''unregistered_name'')]
                      (snd (start 0 sampleCore)))) of
          (r, c) \<Rightarrow> (r, getStatus_isAnimating c, errorsDelivered c))
       = (Normal (), Some (JBool True), [])"
  by code_simp

lemma fold_markUniformDirty_keeps [simp]:
  "props (fold markUniformDirty ks c) = props c"
  "errorsDelivered (fold markUniformDirty ks c) = errorsDelivered c"
  "onError (fold markUniformDirty ks c) = onError c"
  "gl (fold markUniformDirty ks c) = gl c"
  "shaderManager (fold markUniformDirty ks c) = shaderManager c"
  "pendingFrames (fold markUniformDirty ks c) = pendingFrames c"
  "pendingTimeouts (fold markUniformDirty ks c) = pendingTimeouts c"
  "contextHeld (fold markUniformDirty ks c) = contextHeld c"
  by (induction ks arbitrary: c; simp add: markUniformDirty_def)+

lemma markAllUniformsDirty_keeps [simp]:
  "props (markAllUniformsDirty c) = props c"
  "errorsDelivered (markAllUniformsDirty c) = errorsDelivered c"
  "onError (markAllUniformsDirty c) = onError c"
  "gl (markAllUniformsDirty c) = gl c"
  "shaderManager (markAllUniformsDirty c) = shaderManager c"
  "pendingFrames (markAllUniformsDirty c) = pendingFrames c"
  "pendingTimeouts (markAllUniformsDirty c) = pendingTimeouts c"
  "contextHeld (markAllUniformsDirty c) = contextHeld c"
  by (simp_all add: markAllUniformsDirty_def)


text \<open>\<open>stop()\<close> completes when the frame id held is a number or \<open>null\<close>.\<close>

lemma cancelIfScheduled_number:
  assumes "frameIdIsNumber c"
  obtains frames where "cancelIfScheduled c = (Normal (), c\<lparr>pendingFrames := frames\<rparr>)"
proof (cases "props c ''animationFrameId''")
  case None
  then have "cancelIfScheduled c = (Normal (), c\<lparr>pendingFrames := pendingFrames c\<rparr>)"
    by (simp add: cancelIfScheduled_def)
  then show ?thesis by (rule that)
next
  case (Some frameId)
  show ?thesis
  proof (cases "truthy frameId")
    case False
    with Some have "cancelIfScheduled c = (Normal (), c\<lparr>pendingFrames := pendingFrames c\<rparr>)"
      by (simp add: cancelIfScheduled_def)
    then show ?thesis by (rule that)
  next
    case True
    with Some assms obtain r where "frameId = JNum r"
      by (cases frameId) (simp_all add: frameIdIsNumber_def)
    with Some True have "cancelIfScheduled c
        = (Normal (), c\<lparr>pendingFrames := filter (\<lambda>i. real i \<noteq> r) (pendingFrames c)\<rparr>)"
      by (simp add: cancelIfScheduled_def cancelAnimationFrame_def)
    then show ?thesis by (rule that)
  qed
qed

lemma stop_completes:
  assumes "frameIdIsNumber c"
  obtains c' where "stop c = (Normal (), c')" "\<not> isRendering c'" "frameIdIsNumber c'"
    "props c' ''contextRecoveryAttempts'' = props c ''contextRecoveryAttempts''"
    "pendingTimeouts c' = pendingTimeouts c" "errorsDelivered c' = errorsDelivered c"
    "onError c' = onError c" "gl c' = gl c" "shaderManager c' = shaderManager c"
    "dirtyUniforms c' = dirtyUniforms c"
proof (cases "isRendering c")
  case False
  then have "stop c = (Normal (), c)" by (simp add: stop_def)
  with False assms that show ?thesis by blast
next
  case True
  from assms obtain frames where c1: "cancelIfScheduled c = (Normal (), c\<lparr>pendingFrames := frames\<rparr>)"
    by (rule cancelIfScheduled_number)
  let ?c' = "setProp ''animationFrameId'' JNull
               (setProp ''isRendering'' (JBool False) (c\<lparr>pendingFrames := frames\<rparr>))"
  have run: "stop c = (Normal (), ?c')"
    using True c1 by (simp add: stop_def)
  show ?thesis
    by (rule that[OF run])
       (simp_all add: isRendering_def isTruthy_def frameIdIsNumber_def setProp_def)
qed

text \<open>
  The tail of \<open>_updateShaderIfNeeded\<close> with a program stored under the name: the program is
  made current, the update flag is cleared, nothing else of the state is touched but the
  dirty set and the attribute location.
\<close>

lemma adoptProgram_linked:
  assumes "programs (shaderManager c) prog = Some (Some program)"
      and "attributeLocations (shaderManager c) prog = Some cache"
  obtains c' where "adoptProgram prog c = (Normal True, c')"
    "props c' = (props c)(''needsShaderUpdate'' \<mapsto> JBool False)"
    "errorsDelivered c' = errorsDelivered c"
    "compiledShaders (shaderManager c') = compiledShaders (shaderManager c)"
    "programs (shaderManager c') = programs (shaderManager c)"
    "shaderText (gl c') = shaderText (gl c)"
    "currentProgram (gl c') = Some program"
proof -
  let ?c1 = "setProp ''needsShaderUpdate'' (JBool False) c"
  let ?sm1 = "(shaderManager c)\<lparr>currentProgramName := Some prog\<rparr>"
  let ?g1 = "if currentProgram (gl c) \<noteq> Some program then gl_useProgram (gl c) (Some program)
             else gl c"
  have u: "useProgram (shaderManager ?c1) (gl ?c1) (Some prog) = (True, ?sm1, ?g1)"
    using assms(1) by (simp add: useProgram_def setProp_def)
  obtain loc sm2 where a: "getAttributeLocation ?sm1 ?g1 ''a_position'' = (Normal loc, sm2)"
    and k: "compiledShaders sm2 = compiledShaders (shaderManager c)"
           "programs sm2 = programs (shaderManager c)"
    using assms
    by (cases "prog = []"; cases "cache ''a_position''")
       (simp_all add: getAttributeLocation_def currentProgramObject_def Let_def)
  let ?c' = "markAllUniformsDirty
               ((withShaderManager sm2 ?g1 ?c1)
                  \<lparr>aPositionLoc :=
                     (case loc of
                        None \<Rightarrow> None
                      | Some l \<Rightarrow> if contextHeld ?c1 then Some (int l) else Some (- 1))\<rparr>)"
  have run: "adoptProgram prog c = (Normal True, ?c')"
    unfolding adoptProgram_def Let_def u using a by simp
  show ?thesis
    by (rule that[OF run])
       (use k in \<open>simp_all add: withShaderManager_def setProp_def gl_useProgram_def\<close>)
qed

text \<open>\<open>_updateShaderIfNeeded\<close> when the composition returns a program.\<close>

lemma updateShaderIfNeeded_adopts:
  assumes "needsShaderUpdate c"
      and "props c ''shaderProgramName'' = Some (JStr prog)"
      and "props c ''geometryType'' = Some gname" and "props c ''projectionMethod'' = Some pname"
      and "createDynamicProgram (shaderManager c) (gl c) prog gname pname
             = (Normal (Object program), sm', ctx')"
      and "programs sm' prog = Some (Some program)"
      and "attributeLocations sm' prog = Some cache"
  obtains c' where "updateShaderIfNeeded c = (Normal True, c')"
    "isRendering c' = isRendering c" "errorsDelivered c' = errorsDelivered c"
    "\<not> needsShaderUpdate c'"
    "compiledShaders (shaderManager c') = compiledShaders sm'"
    "programs (shaderManager c') = programs sm'"
    "shaderText (gl c') = shaderText ctx'"
    "currentProgram (gl c') = Some program"
proof -
  let ?c1 = "withShaderManager sm' ctx' c"
  have "programs (shaderManager ?c1) prog = Some (Some program)"
       "attributeLocations (shaderManager ?c1) prog = Some cache"
    using assms(6,7) by (simp_all add: withShaderManager_def)
  then obtain c' where a: "adoptProgram prog ?c1 = (Normal True, c')"
    and k: "props c' = (props ?c1)(''needsShaderUpdate'' \<mapsto> JBool False)"
      "errorsDelivered c' = errorsDelivered ?c1"
      "compiledShaders (shaderManager c') = compiledShaders (shaderManager ?c1)"
      "programs (shaderManager c') = programs (shaderManager ?c1)"
      "shaderText (gl c') = shaderText (gl ?c1)"
      "currentProgram (gl c') = Some program"
    by (rule adoptProgram_linked)
  have run: "updateShaderIfNeeded c = (Normal True, c')"
    using assms(1-5) a by (simp add: updateShaderIfNeeded_def)
  show ?thesis
    by (rule that[OF run])
       (use k in \<open>simp_all add: withShaderManager_def isRendering_def needsShaderUpdate_def
                     isTruthy_def\<close>)
qed

text \<open>\<open>_updateShaderIfNeeded\<close> when the composition returns \<open>null\<close>.\<close>

lemma updateShaderIfNeeded_stops:
  assumes "needsShaderUpdate c"
      and "props c ''shaderProgramName'' = Some (JStr prog)"
      and "props c ''geometryType'' = Some gname" and "props c ''projectionMethod'' = Some pname"
      and "frameIdIsNumber c"
      and "createDynamicProgram (shaderManager c) (gl c) prog gname pname
             = (Normal (Null f), sm', ctx')"
  obtains c' where "updateShaderIfNeeded c = (Normal False, c')"
    "\<not> isRendering c'"
    "errorsDelivered c'
       = errorsDelivered c @ (if onError c then [Error ''Shader update failed''] else [])"
proof -
  let ?c1 = "callOnError (Error ''Shader update failed'') (withShaderManager sm' ctx' c)"
  have "frameIdIsNumber ?c1"
    using assms(5) by (simp add: frameIdIsNumber_def callOnError_def withShaderManager_def)
  then obtain c' where s: "stop ?c1 = (Normal (), c')" and k: "\<not> isRendering c'"
    "errorsDelivered c' = errorsDelivered ?c1"
    by (rule stop_completes)
  have run: "updateShaderIfNeeded c = (Normal False, c')"
    using assms(1-4,6) s by (simp add: updateShaderIfNeeded_def)
  show ?thesis
    by (rule that[OF run]) (use k in \<open>simp_all add: callOnError_def withShaderManager_def\<close>)
qed

text \<open>A name with nothing under it is answered with what is read under the default name.\<close>

lemma getGeometry_unregistered:
  assumes "n \<noteq> []" and "geometries gm (toLowerCase n) = None"
      and "toLowerCase n \<notin> set objectPrototypeKeys" and "geometriesPrototype gm = None"
  shows "getGeometry gm (JStr n)
           = Normal (geometryProperty gm (toLowerCase (defaultGeometry gm)))"
    and "defaultGeometry gm \<noteq> [] \<longrightarrow>
           getGeometry gm (JStr n) = getGeometry gm (JStr (defaultGeometry gm))"
proof -
  have "''__proto__'' \<in> set objectPrototypeKeys"
    by (simp add: objectPrototypeKeys_def)
  with assms(3) have np: "toLowerCase n \<noteq> ''__proto__''" by metis
  have u: "geometryProperty gm (toLowerCase n) = Undefined"
    using assms np by (simp add: geometryProperty_def getProperty_def)
  then show "getGeometry gm (JStr n)
           = Normal (geometryProperty gm (toLowerCase (defaultGeometry gm)))"
    using assms(1) by (simp add: geometryLookup_def)
  with assms(1) u
  show "defaultGeometry gm \<noteq> [] \<longrightarrow>
           getGeometry gm (JStr n) = getGeometry gm (JStr (defaultGeometry gm))"
    by (simp add: geometryLookup_def Let_def)
qed

lemma getProjection_unregistered:
  assumes "n \<noteq> []" and "projections pm (toLowerCase n) = None"
      and "toLowerCase n \<notin> set objectPrototypeKeys" and "projectionsPrototype pm = None"
  shows "getProjection pm (JStr n)
           = Normal (projectionProperty pm (toLowerCase (defaultProjection pm)))"
    and "defaultProjection pm \<noteq> [] \<longrightarrow>
           getProjection pm (JStr n) = getProjection pm (JStr (defaultProjection pm))"
proof -
  have "''__proto__'' \<in> set objectPrototypeKeys"
    by (simp add: objectPrototypeKeys_def)
  with assms(3) have np: "toLowerCase n \<noteq> ''__proto__''" by metis
  have u: "projectionProperty pm (toLowerCase n) = Undefined"
    using assms np by (simp add: projectionProperty_def getProperty_def)
  then show "getProjection pm (JStr n)
           = Normal (projectionProperty pm (toLowerCase (defaultProjection pm)))"
    using assms(1) by (simp add: projectionLookup_def)
  with assms(1) u
  show "defaultProjection pm \<noteq> [] \<longrightarrow>
           getProjection pm (JStr n) = getProjection pm (JStr (defaultProjection pm))"
    by (simp add: projectionLookup_def Let_def)
qed

text \<open>
  Recompilation with an unregistered geometry name selected, the default geometry and the
  selected projection being valid, the template intact, the vertex stage cached and the
  driver willing: the fragment stage is compiled from the template with the code of the
  default geometry injected, and the core goes on.
\<close>

lemma recompilation_with_default:
  assumes sm: "sm = shaderManager c" and ctx: "ctx = gl c" and gm: "gm = geometryManager sm"
      and needs: "needsShaderUpdate c"
      and prog: "props c ''shaderProgramName'' = Some (JStr prog)"
      and gname: "props c ''geometryType'' = Some (JStr n)"
      and pname: "props c ''projectionMethod'' = Some (JStr pn)"
      and unreg: "n \<noteq> []" "geometries gm (toLowerCase n) = None"
        "toLowerCase n \<notin> set objectPrototypeKeys" "geometriesPrototype gm = None"
      and dflt: "geometryProperty gm (toLowerCase (defaultGeometry gm)) = Own gdef"
        "geometry_getShaderCode gdef = Normal (JStr gcode)" "js_includes gcode ''calculateLattice''"
      and proj: "getProjection (projectionManager sm) (JStr pn) = Normal (Own pdef)"
        "projection_getShaderCode pdef = Normal (JStr pcode)" "js_includes pcode ''project4Dto3D''"
      and tmpl: "shaderSources sm (baseFragmentShaderName sm) = Some (template, t)"
        "\<not> injectionPointsPresent (injectShaderCode template gcode pcode)"
      and vertex: "shaderSources sm (baseVertexShaderName sm) = Some (vsSource, vsType)"
        "compiledShaders sm (baseVertexShaderName sm) = Some (Some vs)"
        "shaderText ctx vs = Some vsText" "vs \<noteq> nextHandle ctx"
      and fresh: "compiledShaders sm (''fragment-'' @ n @ ''-'' @ pn) = None"
      and driver: "\<not> contextLost ctx" "compileStatus ctx (injectShaderCode template gcode pcode)"
        "linkStatus ctx vsText (injectShaderCode template gcode pcode)"
  shows "\<exists>c'. updateShaderIfNeeded c = (Normal True, c')
           \<and> isRendering c' = isRendering c \<and> errorsDelivered c' = errorsDelivered c
           \<and> \<not> needsShaderUpdate c'
           \<and> compiledShaders (shaderManager c') (''fragment-'' @ n @ ''-'' @ pn)
               = Some (Some (nextHandle ctx))
           \<and> shaderText (gl c') (nextHandle ctx) = Some (injectShaderCode template gcode pcode)
           \<and> programs (shaderManager c') prog = Some (Some (Suc (nextHandle ctx)))
           \<and> currentProgram (gl c') = Some (Suc (nextHandle ctx))"
proof -
  let ?src = "injectShaderCode template gcode pcode"
  let ?id = "''fragment-'' @ n @ ''-'' @ pn"
  have g: "getGeometry (geometryManager sm) (JStr n) = Normal (Own gdef)"
    using getGeometry_unregistered(1)[OF unreg] dflt(1) gm by simp
  have a: "assembleFragment sm (JStr n) (JStr pn) = Normal (Object (?id, ?src, t))"
    using assembleFragment_valid[OF g dflt(2,3) proj tmpl(1), of n pn] tmpl(2) by simp
  have f: "compiledShaders sm ?id = None \<or> compiledShaders sm ?id = Some None"
    using fresh by simp
  from createDynamicProgram_links[OF vertex(1,2) a f driver(1) vertex(3,4) driver(2,3), of prog]
  obtain sm' ctx' where
    d: "createDynamicProgram sm ctx prog (JStr n) (JStr pn)
          = (Normal (Object (Suc (nextHandle ctx))), sm', ctx')"
    and k: "compiledShaders sm' = (compiledShaders sm)(?id \<mapsto> Some (nextHandle ctx))"
      "programs sm' = (programs sm)(prog \<mapsto> Some (Suc (nextHandle ctx)))"
      "attributeLocations sm' prog = Some Map.empty"
      "shaderText ctx' = (shaderText ctx)(nextHandle ctx \<mapsto> ?src)"
    by blast
  have d': "createDynamicProgram (shaderManager c) (gl c) prog (JStr n) (JStr pn)
          = (Normal (Object (Suc (nextHandle ctx))), sm', ctx')"
    using d sm ctx by simp
  have p: "programs sm' prog = Some (Some (Suc (nextHandle ctx)))"
    using k(2) by simp
  from updateShaderIfNeeded_adopts[OF needs prog gname pname d' p k(3)]
  obtain c' where r: "updateShaderIfNeeded c = (Normal True, c')"
    "isRendering c' = isRendering c" "errorsDelivered c' = errorsDelivered c"
    "\<not> needsShaderUpdate c'"
    "compiledShaders (shaderManager c') = compiledShaders sm'"
    "programs (shaderManager c') = programs sm'"
    "shaderText (gl c') = shaderText ctx'"
    "currentProgram (gl c') = Some (Suc (nextHandle ctx))"
    by blast
  from r k p show ?thesis by simp
qed

text \<open>
  C2, amended. A non-empty name with no entry in the registry (not the name of a property
  every object inherits, the prototype of the registry being the usual one) does not make
  the lookup fail: the lookup returns what is read under the lower-cased default name, which
  is what looking up the default name returns. Recompilation with such a geometry name
  selected therefore composes the default geometry: when the default geometry and the
  selected projection carry their function names, the template leaves no marker, the
  vertex stage is cached, no fragment stage is cached for the pair and the driver compiles
  and links, the fragment stage compiled is the template with the code of the default
  geometry injected, cached under the identifier that spells the unregistered name; the
  program linked from it is stored and current, the core keeps running as it was, nothing
  is delivered to \<open>onError\<close> and the update flag is cleared. When the composition returns
  \<open>null\<close>, for whatever reason, the core stops and the error delivered is the one generic
  \<open>Error('Shader update failed')\<close>.
\<close>

theorem unknown_name_uses_default:
  "(n \<noteq> [] \<and> geometries gm (toLowerCase n) = None
      \<and> toLowerCase n \<notin> set objectPrototypeKeys \<and> geometriesPrototype gm = None
    \<longrightarrow> getGeometry gm (JStr n)
          = Normal (geometryProperty gm (toLowerCase (defaultGeometry gm)))
        \<and> (defaultGeometry gm \<noteq> [] \<longrightarrow>
             getGeometry gm (JStr n) = getGeometry gm (JStr (defaultGeometry gm))))
   \<and> (m \<noteq> [] \<and> projections pm (toLowerCase m) = None
      \<and> toLowerCase m \<notin> set objectPrototypeKeys \<and> projectionsPrototype pm = None
    \<longrightarrow> getProjection pm (JStr m)
          = Normal (projectionProperty pm (toLowerCase (defaultProjection pm)))
        \<and> (defaultProjection pm \<noteq> [] \<longrightarrow>
             getProjection pm (JStr m) = getProjection pm (JStr (defaultProjection pm))))
   \<and> (sm = shaderManager c \<and> ctx = gl c \<and> gm = geometryManager sm
      \<and> needsShaderUpdate c
      \<and> props c ''shaderProgramName'' = Some (JStr prog)
      \<and> props c ''geometryType'' = Some (JStr n)
      \<and> props c ''projectionMethod'' = Some (JStr pn)
      \<and> n \<noteq> [] \<and> geometries gm (toLowerCase n) = None
      \<and> toLowerCase n \<notin> set objectPrototypeKeys \<and> geometriesPrototype gm = None
      \<and> geometryProperty gm (toLowerCase (defaultGeometry gm)) = Own gdef
      \<and> geometry_getShaderCode gdef = Normal (JStr gcode)
      \<and> js_includes gcode ''calculateLattice''
      \<and> getProjection (projectionManager sm) (JStr pn) = Normal (Own pdef)
      \<and> projection_getShaderCode pdef = Normal (JStr pcode)
      \<and> js_includes pcode ''project4Dto3D''
      \<and> shaderSources sm (baseFragmentShaderName sm) = Some (template, t)
      \<and> \<not> injectionPointsPresent (injectShaderCode template gcode pcode)
      \<and> shaderSources sm (baseVertexShaderName sm) = Some (vsSource, vsType)
      \<and> compiledShaders sm (baseVertexShaderName sm) = Some (Some vs)
      \<and> shaderText ctx vs = Some vsText \<and> vs \<noteq> nextHandle ctx
      \<and> compiledShaders sm (''fragment-'' @ n @ ''-'' @ pn) = None
      \<and> \<not> contextLost ctx
      \<and> compileStatus ctx (injectShaderCode template gcode pcode)
      \<and> linkStatus ctx vsText (injectShaderCode template gcode pcode)
    \<longrightarrow> (\<exists>c'. updateShaderIfNeeded c = (Normal True, c')
           \<and> isRendering c' = isRendering c \<and> errorsDelivered c' = errorsDelivered c
           \<and> \<not> needsShaderUpdate c'
           \<and> compiledShaders (shaderManager c') (''fragment-'' @ n @ ''-'' @ pn)
               = Some (Some (nextHandle ctx))
           \<and> shaderText (gl c') (nextHandle ctx) = Some (injectShaderCode template gcode pcode)
           \<and> programs (shaderManager c') prog = Some (Some (Suc (nextHandle ctx)))
           \<and> currentProgram (gl c') = Some (Suc (nextHandle ctx))))
   \<and> (needsShaderUpdate d
      \<and> props d ''shaderProgramName'' = Some (JStr prog')
      \<and> props d ''geometryType'' = Some gname \<and> props d ''projectionMethod'' = Some pname
      \<and> frameIdIsNumber d
      \<and> createDynamicProgram (shaderManager d) (gl d) prog' gname pname
           = (Normal (Null f), sm', ctx')
    \<longrightarrow> (\<exists>d'. updateShaderIfNeeded d = (Normal False, d')
           \<and> \<not> isRendering d'
           \<and> errorsDelivered d'
               = errorsDelivered d @ (if onError d then [Error ''Shader update failed''] else [])))"
proof -
  have geom: "n \<noteq> [] \<and> geometries gm (toLowerCase n) = None
      \<and> toLowerCase n \<notin> set objectPrototypeKeys \<and> geometriesPrototype gm = None
    \<longrightarrow> getGeometry gm (JStr n)
          = Normal (geometryProperty gm (toLowerCase (defaultGeometry gm)))
        \<and> (defaultGeometry gm \<noteq> [] \<longrightarrow>
             getGeometry gm (JStr n) = getGeometry gm (JStr (defaultGeometry gm)))"
    using getGeometry_unregistered[of n gm] by blast
  have proj: "m \<noteq> [] \<and> projections pm (toLowerCase m) = None
      \<and> toLowerCase m \<notin> set objectPrototypeKeys \<and> projectionsPrototype pm = None
    \<longrightarrow> getProjection pm (JStr m)
          = Normal (projectionProperty pm (toLowerCase (defaultProjection pm)))
        \<and> (defaultProjection pm \<noteq> [] \<longrightarrow>
             getProjection pm (JStr m) = getProjection pm (JStr (defaultProjection pm)))"
    using getProjection_unregistered[of m pm] by blast
  have good: "sm = shaderManager c \<and> ctx = gl c \<and> gm = geometryManager sm
      \<and> needsShaderUpdate c
      \<and> props c ''shaderProgramName'' = Some (JStr prog)
      \<and> props c ''geometryType'' = Some (JStr n)
      \<and> props c ''projectionMethod'' = Some (JStr pn)
      \<and> n \<noteq> [] \<and> geometries gm (toLowerCase n) = None
      \<and> toLowerCase n \<notin> set objectPrototypeKeys \<and> geometriesPrototype gm = None
      \<and> geometryProperty gm (toLowerCase (defaultGeometry gm)) = Own gdef
      \<and> geometry_getShaderCode gdef = Normal (JStr gcode)
      \<and> js_includes gcode ''calculateLattice''
      \<and> getProjection (projectionManager sm) (JStr pn) = Normal (Own pdef)
      \<and> projection_getShaderCode pdef = Normal (JStr pcode)
      \<and> js_includes pcode ''project4Dto3D''
      \<and> shaderSources sm (baseFragmentShaderName sm) = Some (template, t)
      \<and> \<not> injectionPointsPresent (injectShaderCode template gcode pcode)
      \<and> shaderSources sm (baseVertexShaderName sm) = Some (vsSource, vsType)
      \<and> compiledShaders sm (baseVertexShaderName sm) = Some (Some vs)
      \<and> shaderText ctx vs = Some vsText \<and> vs \<noteq> nextHandle ctx
      \<and> compiledShaders sm (''fragment-'' @ n @ ''-'' @ pn) = None
      \<and> \<not> contextLost ctx
      \<and> compileStatus ctx (injectShaderCode template gcode pcode)
      \<and> linkStatus ctx vsText (injectShaderCode template gcode pcode)
    \<longrightarrow> (\<exists>c'. updateShaderIfNeeded c = (Normal True, c')
           \<and> isRendering c' = isRendering c \<and> errorsDelivered c' = errorsDelivered c
           \<and> \<not> needsShaderUpdate c'
           \<and> compiledShaders (shaderManager c') (''fragment-'' @ n @ ''-'' @ pn)
               = Some (Some (nextHandle ctx))
           \<and> shaderText (gl c') (nextHandle ctx) = Some (injectShaderCode template gcode pcode)
           \<and> programs (shaderManager c') prog = Some (Some (Suc (nextHandle ctx)))
           \<and> currentProgram (gl c') = Some (Suc (nextHandle ctx)))"
    using recompilation_with_default
            [of sm c ctx gm prog n pn gdef gcode pdef pcode template t vsSource vsType vs vsText]
    by blast
  have bad: "needsShaderUpdate d
      \<and> props d ''shaderProgramName'' = Some (JStr prog')
      \<and> props d ''geometryType'' = Some gname \<and> props d ''projectionMethod'' = Some pname
      \<and> frameIdIsNumber d
      \<and> createDynamicProgram (shaderManager d) (gl d) prog' gname pname
           = (Normal (Null f), sm', ctx')
    \<longrightarrow> (\<exists>d'. updateShaderIfNeeded d = (Normal False, d')
           \<and> \<not> isRendering d'
           \<and> errorsDelivered d'
               = errorsDelivered d @ (if onError d then [Error ''Shader update failed''] else []))"
    using updateShaderIfNeeded_stops[of d prog' gname pname f sm' ctx'] by blast
  from geom proj good bad show ?thesis by (intro conjI)
qed

text \<open>
  C2, amended, at the sample core. With \<open>unregistered_name\<close> selected the recompilation
  compiles, as shader 4, the sample template with the code of the lattice injected (the
  lattice is what the default name \<open>hypercube\<close> holds), links program 5 from it and leaves
  the errors delivered as they were. With the blob selected (a registered geometry
  without \<open>calculateLattice\<close>) the composition returns \<open>null\<close>, the core is stopped and the
  generic error is delivered.
\<close>

theorem unknown_name_uses_default_witness:
  "geometries sampleGeometryManager (toLowerCase ''unregistered_name'') = None
   \<and> projections sampleProjectionManager (toLowerCase ''unregistered_name'') = None
   \<and> toLowerCase ''unregistered_name'' \<notin> set objectPrototypeKeys
   \<and> getGeometry sampleGeometryManager (JStr ''unregistered_name'') = Normal (Own latticeGeometry)
   \<and> getGeometry sampleGeometryManager (JStr ''unregistered_name'')
        = getGeometry sampleGeometryManager (JStr ''hypercube'')
   \<and> getProjection sampleProjectionManager (JStr ''unregistered_name'')
        = Normal (Own linearProjection)
   \<and> fst (updateShaderIfNeeded
         (snd (updateParameters [(''geometryType'', JStr ''unregistered_name'')] sampleCore)))
        = Normal True
   \<and> errorsDelivered (snd (updateShaderIfNeeded
         (snd (updateParameters [(''geometryType'', JStr ''unregistered_name'')] sampleCore))))
        = []
   \<and> compiledShaders (shaderManager (snd (updateShaderIfNeeded
         (snd (updateParameters [(''geometryType'', JStr ''unregistered_name'')] sampleCore)))))
        ''fragment-unregistered_name-perspective'' = Some (Some 4)
   \<and> shaderText (gl (snd (updateShaderIfNeeded
         (snd (updateParameters [(''geometryType'', JStr ''unregistered_name'')] sampleCore))))) 4
        = Some (injectShaderCode sampleTemplate
                  ''float calculateLattice(vec3 p) { return u_gridDensity; }''
                  ''vec3 project4Dto3D(vec4 p) { return p.xyz; }'')
   \<and> programs (shaderManager (snd (updateShaderIfNeeded
         (snd (updateParameters [(''geometryType'', JStr ''unregistered_name'')] sampleCore)))))
        ''maleficarumViz'' = Some (Some 5)
   \<and> fst (createDynamicProgram (sampleShaderManager\<lparr>geometryManager := blobGeometryManager\<rparr>)
             workingGL ''maleficarumViz'' (JStr ''blob'') (JStr ''perspective''))
        = Normal (Null MissingCalculateLattice)
   \<and> fst (updateShaderIfNeeded
         (snd (updateParameters [(''geometryType'', JStr ''blob'')]
            (sampleCore\<lparr>shaderManager :=
               sampleShaderManager\<lparr>geometryManager := blobGeometryManager\<rparr>\<rparr>))))
        = Normal False
   \<and> errorsDelivered (snd (updateShaderIfNeeded
         (snd (updateParameters [(''geometryType'', JStr ''blob'')]
            (sampleCore\<lparr>shaderManager :=
               sampleShaderManager\<lparr>geometryManager := blobGeometryManager\<rparr>\<rparr>)))))
        = [Error ''Shader update failed'']"
proof -
  let ?gcode = "''float calculateLattice(vec3 p) { return u_gridDensity; }''"
  let ?pcode = "''vec3 project4Dto3D(vec4 p) { return p.xyz; }''"
  let ?cU = "snd (updateParameters [(''geometryType'', JStr ''unregistered_name'')] sampleCore)"
  let ?smB = "sampleShaderManager\<lparr>geometryManager := blobGeometryManager\<rparr>"
  let ?cB = "snd (updateParameters [(''geometryType'', JStr ''blob'')]
            (sampleCore\<lparr>shaderManager := ?smB\<rparr>))"
  have ne: "''unregistered_name'' \<noteq> []" by simp
  have g: "geometries sampleGeometryManager (toLowerCase ''unregistered_name'') = None"
    by (simp add: sampleManagers_simps registry_simps)
  have p: "projections sampleProjectionManager (toLowerCase ''unregistered_name'') = None"
    by (simp add: sampleManagers_simps registry_simps)
  have k: "toLowerCase ''unregistered_name'' \<notin> set objectPrototypeKeys"
    by (simp add: registry_simps)
  have gp: "geometriesPrototype sampleGeometryManager = None"
    by (simp add: sampleGeometryManager_def)
  have pp: "projectionsPrototype sampleProjectionManager = None"
    by (simp add: sampleProjectionManager_def)
  have dn: "defaultGeometry sampleGeometryManager = ''hypercube''"
    by (simp add: sampleGeometryManager_def)
  have dg: "geometryProperty sampleGeometryManager (toLowerCase (defaultGeometry sampleGeometryManager))
            = Own latticeGeometry"
    by (simp add: sampleGeometryManager_def registry_simps)
  have dp: "projectionProperty sampleProjectionManager
              (toLowerCase (defaultProjection sampleProjectionManager)) = Own linearProjection"
    by (simp add: sampleProjectionManager_def registry_simps)
  have sU: "sampleShaderManager = shaderManager ?cU" and cU: "workingGL = gl ?cU"
    and nU: "needsShaderUpdate ?cU"
    and prU: "props ?cU ''shaderProgramName'' = Some (JStr ''maleficarumViz'')"
    and gU: "props ?cU ''geometryType'' = Some (JStr ''unregistered_name'')"
    and pU: "props ?cU ''projectionMethod'' = Some (JStr ''perspective'')"
    and eU: "errorsDelivered ?cU = []"
    by (simp_all add: sampleCore_simps needsShaderUpdate_def isTruthy_def)
  have gmU: "sampleGeometryManager = geometryManager sampleShaderManager"
    by (simp add: sampleShaderManager_def)
  have gc: "geometry_getShaderCode latticeGeometry = Normal (JStr ?gcode)"
    by (simp add: latticeGeometry_def)
  have gi: "js_includes ?gcode ''calculateLattice''" by simp
  have pj: "getProjection (projectionManager sampleShaderManager) (JStr ''perspective'')
              = Normal (Own linearProjection)"
    by (simp add: sampleManagers_simps registry_simps)
  have pc: "projection_getShaderCode linearProjection = Normal (JStr ?pcode)"
    by (simp add: linearProjection_def)
  have pi: "js_includes ?pcode ''project4Dto3D''" by simp
  have tm: "shaderSources sampleShaderManager (baseFragmentShaderName sampleShaderManager)
              = Some (sampleTemplate, FRAGMENT_SHADER)"
    by (simp add: sampleShaderManager_def)
  have clean: "\<not> injectionPointsPresent (injectShaderCode sampleTemplate ?gcode ?pcode)"
    by code_simp
  have vs: "shaderSources sampleShaderManager (baseVertexShaderName sampleShaderManager)
              = Some (baseVertexShaderSource, VERTEX_SHADER)"
    "compiledShaders sampleShaderManager (baseVertexShaderName sampleShaderManager) = Some (Some 1)"
    "compiledShaders sampleShaderManager (''fragment-'' @ ''unregistered_name'' @ ''-'' @ ''perspective'')
       = None"
    by (simp_all add: sampleShaderManager_def)
  have dr: "shaderText workingGL 1 = Some baseVertexShaderSource" "1 \<noteq> nextHandle workingGL"
    "\<not> contextLost workingGL"
    "compileStatus workingGL (injectShaderCode sampleTemplate ?gcode ?pcode)"
    "linkStatus workingGL baseVertexShaderSource (injectShaderCode sampleTemplate ?gcode ?pcode)"
    "nextHandle workingGL = 4"
    by (simp_all add: workingGL_def)
  have nB: "needsShaderUpdate ?cB"
    and prB: "props ?cB ''shaderProgramName'' = Some (JStr ''maleficarumViz'')"
    and gB: "props ?cB ''geometryType'' = Some (JStr ''blob'')"
    and pB: "props ?cB ''projectionMethod'' = Some (JStr ''perspective'')"
    and fB: "frameIdIsNumber ?cB" and eB: "errorsDelivered ?cB = []" and oB: "onError ?cB"
    and sB: "shaderManager ?cB = ?smB" and cB: "gl ?cB = workingGL"
    by (simp_all add: sampleCore_simps needsShaderUpdate_def isTruthy_def frameIdIsNumber_def)
  let ?r = "createDynamicProgram ?smB workingGL ''maleficarumViz'' (JStr ''blob'') (JStr ''perspective'')"
  have nl: "fst ?r = Normal (Null MissingCalculateLattice)"
    by code_simp
  then have rB: "createDynamicProgram (shaderManager ?cB) (gl ?cB) ''maleficarumViz''
                   (JStr ''blob'') (JStr ''perspective'')
                 = (Normal (Null MissingCalculateLattice), fst (snd ?r), snd (snd ?r))"
    unfolding sB cB by (metis prod.collapse)
  note at = unknown_name_uses_default
      [where gm = sampleGeometryManager and pm = sampleProjectionManager
         and n = "''unregistered_name''" and m = "''unregistered_name''"
         and sm = sampleShaderManager and ctx = workingGL and c = ?cU
         and prog = "''maleficarumViz''" and pn = "''perspective''"
         and gdef = latticeGeometry and gcode = ?gcode and pdef = linearProjection and pcode = ?pcode
         and template = sampleTemplate and t = FRAGMENT_SHADER
         and vsSource = baseVertexShaderSource and vsType = VERTEX_SHADER and vs = 1
         and vsText = baseVertexShaderSource
         and d = ?cB and prog' = "''maleficarumViz''" and gname = "JStr ''blob''"
         and pname = "JStr ''perspective''" and f = MissingCalculateLattice
         and sm' = "fst (snd ?r)" and ctx' = "snd (snd ?r)"]
  from at ne g k gp
  have l1: "getGeometry sampleGeometryManager (JStr ''unregistered_name'')
              = Normal (geometryProperty sampleGeometryManager
                          (toLowerCase (defaultGeometry sampleGeometryManager)))"
    and l2: "defaultGeometry sampleGeometryManager \<noteq> [] \<longrightarrow>
             getGeometry sampleGeometryManager (JStr ''unregistered_name'')
               = getGeometry sampleGeometryManager (JStr (defaultGeometry sampleGeometryManager))"
    by blast+
  from l1 dg
  have c1: "getGeometry sampleGeometryManager (JStr ''unregistered_name'') = Normal (Own latticeGeometry)"
    by simp
  from l2 dn
  have c1': "getGeometry sampleGeometryManager (JStr ''unregistered_name'')
               = getGeometry sampleGeometryManager (JStr ''hypercube'')"
    by simp
  from at ne p k pp
  have "getProjection sampleProjectionManager (JStr ''unregistered_name'')
              = Normal (projectionProperty sampleProjectionManager
                          (toLowerCase (defaultProjection sampleProjectionManager)))"
    by blast
  with dp
  have c2: "getProjection sampleProjectionManager (JStr ''unregistered_name'')
              = Normal (Own linearProjection)"
    by simp
  have hyp: "sampleShaderManager = shaderManager ?cU \<and> workingGL = gl ?cU
      \<and> sampleGeometryManager = geometryManager sampleShaderManager
      \<and> needsShaderUpdate ?cU
      \<and> props ?cU ''shaderProgramName'' = Some (JStr ''maleficarumViz'')
      \<and> props ?cU ''geometryType'' = Some (JStr ''unregistered_name'')
      \<and> props ?cU ''projectionMethod'' = Some (JStr ''perspective'')
      \<and> ''unregistered_name'' \<noteq> []
      \<and> geometries sampleGeometryManager (toLowerCase ''unregistered_name'') = None
      \<and> toLowerCase ''unregistered_name'' \<notin> set objectPrototypeKeys
      \<and> geometriesPrototype sampleGeometryManager = None
      \<and> geometryProperty sampleGeometryManager
           (toLowerCase (defaultGeometry sampleGeometryManager)) = Own latticeGeometry
      \<and> geometry_getShaderCode latticeGeometry = Normal (JStr ?gcode)
      \<and> js_includes ?gcode ''calculateLattice''
      \<and> getProjection (projectionManager sampleShaderManager) (JStr ''perspective'')
           = Normal (Own linearProjection)
      \<and> projection_getShaderCode linearProjection = Normal (JStr ?pcode)
      \<and> js_includes ?pcode ''project4Dto3D''
      \<and> shaderSources sampleShaderManager (baseFragmentShaderName sampleShaderManager)
           = Some (sampleTemplate, FRAGMENT_SHADER)
      \<and> \<not> injectionPointsPresent (injectShaderCode sampleTemplate ?gcode ?pcode)
      \<and> shaderSources sampleShaderManager (baseVertexShaderName sampleShaderManager)
           = Some (baseVertexShaderSource, VERTEX_SHADER)
      \<and> compiledShaders sampleShaderManager (baseVertexShaderName sampleShaderManager)
           = Some (Some 1)
      \<and> shaderText workingGL 1 = Some baseVertexShaderSource \<and> 1 \<noteq> nextHandle workingGL
      \<and> compiledShaders sampleShaderManager
           (''fragment-'' @ ''unregistered_name'' @ ''-'' @ ''perspective'') = None
      \<and> \<not> contextLost workingGL
      \<and> compileStatus workingGL (injectShaderCode sampleTemplate ?gcode ?pcode)
      \<and> linkStatus workingGL baseVertexShaderSource (injectShaderCode sampleTemplate ?gcode ?pcode)"
    using sU cU gmU nU prU gU pU ne g k gp dg gc gi pj pc pi tm clean vs dr(1-5)
    by (intro conjI)
  from at hyp obtain c' where
    u: "updateShaderIfNeeded ?cU = (Normal True, c')"
       "errorsDelivered c' = errorsDelivered ?cU"
       "compiledShaders (shaderManager c')
          (''fragment-'' @ ''unregistered_name'' @ ''-'' @ ''perspective'')
          = Some (Some (nextHandle workingGL))"
       "shaderText (gl c') (nextHandle workingGL)
          = Some (injectShaderCode sampleTemplate ?gcode ?pcode)"
       "programs (shaderManager c') ''maleficarumViz'' = Some (Some (Suc (nextHandle workingGL)))"
    by blast
  from u(1) have c3: "fst (updateShaderIfNeeded ?cU) = Normal True"
    and snd: "snd (updateShaderIfNeeded ?cU) = c'"
    by simp_all
  from u(2) eU have c4: "errorsDelivered (snd (updateShaderIfNeeded ?cU)) = []"
    unfolding snd by simp
  from u(3) dr(6)
  have c5: "compiledShaders (shaderManager (snd (updateShaderIfNeeded ?cU)))
              ''fragment-unregistered_name-perspective'' = Some (Some 4)"
    unfolding snd by simp
  from u(4) dr(6)
  have c6: "shaderText (gl (snd (updateShaderIfNeeded ?cU))) 4
              = Some (injectShaderCode sampleTemplate ?gcode ?pcode)"
    unfolding snd by simp
  from u(5) dr(6)
  have c7: "programs (shaderManager (snd (updateShaderIfNeeded ?cU))) ''maleficarumViz''
              = Some (Some 5)"
    unfolding snd by simp
  from at nB prB gB pB fB rB obtain d' where
    v: "updateShaderIfNeeded ?cB = (Normal False, d')"
       "errorsDelivered d'
          = errorsDelivered ?cB @ (if onError ?cB then [Error ''Shader update failed''] else [])"
    by blast
  from v(1) have c8: "fst (updateShaderIfNeeded ?cB) = Normal False"
    and sndB: "snd (updateShaderIfNeeded ?cB) = d'"
    by simp_all
  from v(2) eB oB
  have c9: "errorsDelivered (snd (updateShaderIfNeeded ?cB)) = [Error ''Shader update failed'']"
    unfolding sndB by simp
  from g p k c1 c1' c2 c3 c4 c5 c6 c7 nl c8 c9 show ?thesis
    by (intro conjI)
qed

section \<open>Injection of the fragments\<close>







section \<open>Programs and compiled stages\<close>

text \<open>
  C9 fails as stated. The sample core holds program 3 for the pair it was constructed with.
  Selecting the grid with the linear projection and recompiling links program 5 under the
  same name and deletes program 3; selecting the first pair again links yet another
  program, 6, and deletes 5. What is reused on the way back is the compiled fragment stage
  (shader 2), not the program.
\<close>

theorem program_not_kept_per_pair:
  "(case updateShaderIfNeeded
           (snd (updateParameters
                   [(''geometryType'', JStr ''grid''), (''projectionMethod'', JStr ''linear'')]
                   sampleCore)) of
      (r1, c1) \<Rightarrow>
        (case updateShaderIfNeeded
                (snd (updateParameters
                        [(''geometryType'', JStr ''hypercube''),
                         (''projectionMethod'', JStr ''perspective'')] c1)) of
           (r2, c2) \<Rightarrow>
             (programs (shaderManager sampleCore) ''maleficarumViz'',
              r1, programs (shaderManager c1) ''maleficarumViz'', 3 \<in> deletedPrograms (gl c1),
              r2, programs (shaderManager c2) ''maleficarumViz'', 5 \<in> deletedPrograms (gl c2),
              compiledShaders (shaderManager c2) ''fragment-hypercube-perspective'',
              nextHandle (gl c2))))
   = (Some (Some 3),
      Normal True, Some (Some 5), True,
      Normal True, Some (Some 6), True,
      Some (Some 2),
      7)"
  by code_simp

lemma compileShader_context:
  assumes "compileShader sm ctx ident source t = (r, sm', ctx')"
  shows "nextHandle ctx \<le> nextHandle ctx'" and "deletedPrograms ctx' = deletedPrograms ctx"
    and "programs sm' = programs sm"
  using assms
  by (auto simp: compileShader_def gl_createObject_def gl_shaderSource_def gl_deleteShader_def
        Let_def split: option.splits if_splits)

lemma createProgram_replaces:
  assumes "createProgram sm ctx name vs fs = (Object new, sm', ctx')"
      and "programs sm name = Some (Some old)" and "old < nextHandle ctx"
  shows "old \<in> deletedPrograms ctx'" and "new \<noteq> old"
    and "programs sm' = (programs sm)(name \<mapsto> Some new)"
  using assms
  by (auto simp: createProgram_def dropOldProgram_def gl_createObject_def gl_deleteProgram_def
        split: if_splits)

text \<open>The identifier of an assembled fragment spells the two names it was asked for.\<close>

lemma assembleFragment_identifier:
  assumes "assembleFragment sm g p = Normal (Object (fsId, fsSource, fsType))"
  shows "\<exists>gn pn. templateText g = Some gn \<and> templateText p = Some pn
           \<and> fsId = ''fragment-'' @ gn @ ''-'' @ pn"
proof -
  obtain geom where g: "getGeometry (geometryManager sm) g = Normal geom"
    using assms by (cases "getGeometry (geometryManager sm) g") (simp_all add: assembleFragment_def)
  obtain proj where p: "getProjection (projectionManager sm) p = Normal proj"
    using assms g by (cases "getProjection (projectionManager sm) p") (simp_all add: assembleFragment_def)
  have d: "isDefined geom" "isDefined proj"
    using assms g p by (auto simp: assembleFragment_def split: if_splits)
  obtain geomGLSL where gc: "getShaderCodeOf geometry_getShaderCode geom = Normal geomGLSL"
    using assms g p d
    by (cases "getShaderCodeOf geometry_getShaderCode geom") (simp_all add: assembleFragment_def)
  obtain projGLSL where pc: "getShaderCodeOf projection_getShaderCode proj = Normal projGLSL"
    using assms g p d gc
    by (cases "getShaderCodeOf projection_getShaderCode proj") (simp_all add: assembleFragment_def)
  obtain checked where v: "validGLSL geomGLSL projGLSL = Normal checked"
    using assms g p d gc pc
    by (cases "validGLSL geomGLSL projGLSL") (simp_all add: assembleFragment_def)
  obtain gs ps where ch: "checked = Object (gs, ps)"
    using assms g p d gc pc v by (cases checked) (auto simp: assembleFragment_def)
  from assms g p d gc pc v ch show ?thesis
    by (auto simp: assembleFragment_def Let_def split: if_splits option.splits prod.splits)
qed

lemma createProgram_keeps_stages:
  "compiledShaders (fst (snd (createProgram sm ctx name vs fs))) = compiledShaders sm"
  by (simp add: createProgram_def dropOldProgram_def gl_createObject_def
      split: option.splits prod.splits)

lemma createDynamicProgram_Object:
  assumes "createDynamicProgram sm ctx name g p = (Normal (Object new), sm', ctx')"
  obtains vs fs sm2 ctx2 sm3 ctx3 fsId where
    "createProgram sm2 ctx2 name vs fs = (Object new, sm3, ctx3)"
    "programs sm2 = programs sm" "nextHandle ctx \<le> nextHandle ctx2"
    "programs sm' = programs sm3" "deletedPrograms ctx' = deletedPrograms ctx3"
    "compiledShaders sm2 fsId = Some (Some fs)" "compiledShaders sm' = compiledShaders sm3"
    "\<exists>gn pn. templateText g = Some gn \<and> templateText p = Some pn
             \<and> fsId = ''fragment-'' @ gn @ ''-'' @ pn"
proof (cases "shaderSources sm (baseVertexShaderName sm)")
  case None
  with assms show ?thesis by (simp add: createDynamicProgram_def)
next
  case (Some src)
  obtain vsSource vsType where src: "src = (vsSource, vsType)" by (cases src)
  obtain r1 sm1 ctx1 where s1:
    "compileShader sm ctx (baseVertexShaderName sm) vsSource vsType = (r1, sm1, ctx1)"
    by (cases "compileShader sm ctx (baseVertexShaderName sm) vsSource vsType") auto
  from assms Some src s1 obtain vs where r1: "r1 = Object vs"
    by (cases r1) (auto simp: createDynamicProgram_def)
  from assms Some src s1 r1 obtain fsId fsSource fsType where
    a: "assembleFragment sm1 g p = Normal (Object (fsId, fsSource, fsType))"
    by (cases "assembleFragment sm1 g p")
       (auto simp: createDynamicProgram_def split: nullable.splits)
  obtain r2 sm2 ctx2 where s2: "compileShader sm1 ctx1 fsId fsSource fsType = (r2, sm2, ctx2)"
    by (cases "compileShader sm1 ctx1 fsId fsSource fsType") auto
  from assms Some src s1 r1 a s2 obtain fs where r2: "r2 = Object fs"
    by (cases r2) (auto simp: createDynamicProgram_def)
  obtain r3 sm3 ctx3 where s3: "createProgram sm2 ctx2 name vs fs = (r3, sm3, ctx3)"
    by (cases "createProgram sm2 ctx2 name vs fs") auto
  from assms Some src s1 r1 a s2 r2 s3
  have r3: "r3 = Object new" and sm': "programs sm' = programs sm3"
    and ctx': "deletedPrograms ctx' = deletedPrograms ctx3"
    and cs': "compiledShaders sm' = compiledShaders sm3"
    by (auto simp: createDynamicProgram_def gl_useProgram_def
        split: if_splits nullable.splits)
  from compileShader_context[OF s1] compileShader_context[OF s2]
  have k: "programs sm2 = programs sm" "nextHandle ctx \<le> nextHandle ctx2" by auto
  have st: "compiledShaders sm2 fsId = Some (Some fs)"
    using s2[unfolded r2] by (rule compileShader_stored)
  have ident: "\<exists>gn pn. templateText g = Some gn \<and> templateText p = Some pn
             \<and> fsId = ''fragment-'' @ gn @ ''-'' @ pn"
    using a by (rule assembleFragment_identifier)
  from that[OF s3[unfolded r3] k sm' ctx' st cs' ident] show ?thesis .
qed

text \<open>
  C9, amended. Linked programs are stored under the program name the core passes, one per
  name. When a program is already stored under that name, a composition that returns a
  program deletes the stored one and stores the new one, a different object, in its place.
  What is cached per pair is the compiled fragment stage: a composition that returns a
  program for a pair of names leaves the fragment stage it linked in the cache of compiled
  stages under \<open>fragment-<geometry>-<projection>\<close>; a stage that is not cached is compiled
  from the source given and stored under its identifier; a cached stage is returned without
  compiling; and a composition that finds both stages cached creates one object only, the
  new program, and changes no shader.
\<close>

theorem program_replaced_stage_reused:
  "(programs sm name = Some (Some old) \<and> old < nextHandle ctx
      \<and> createDynamicProgram sm ctx name g p = (Normal (Object new), sm', ctx')
    \<longrightarrow> old \<in> deletedPrograms ctx' \<and> new \<noteq> old
        \<and> programs sm' = (programs sm)(name \<mapsto> Some new))
   \<and> (createDynamicProgram sm ctx name (JStr gn) (JStr pn) = (Normal (Object new), sm', ctx')
    \<longrightarrow> (\<exists>fs. compiledShaders sm' (''fragment-'' @ gn @ ''-'' @ pn) = Some (Some fs)))
   \<and> ((compiledShaders sm ident = None \<or> compiledShaders sm ident = Some None)
      \<and> \<not> contextLost ctx \<and> compileStatus ctx source
    \<longrightarrow> compileShader sm ctx ident source t =
          (Object (nextHandle ctx),
           sm\<lparr>compiledShaders := (compiledShaders sm)(ident \<mapsto> Some (nextHandle ctx))\<rparr>,
           ctx\<lparr>nextHandle := Suc (nextHandle ctx),
               shaderText := (shaderText ctx)(nextHandle ctx \<mapsto> source)\<rparr>))
   \<and> (compiledShaders sm ident = Some (Some stage)
    \<longrightarrow> compileShader sm ctx ident source t = (Object stage, sm, ctx))
   \<and> (shaderSources sm (baseVertexShaderName sm) = Some (vsSource, vsType)
      \<and> compiledShaders sm (baseVertexShaderName sm) = Some (Some vs)
      \<and> assembleFragment sm g p = Normal (Object (fsId, fsSource, fsType))
      \<and> compiledShaders sm fsId = Some (Some fs)
      \<and> \<not> contextLost ctx
      \<and> shaderText ctx vs = Some vsText \<and> shaderText ctx fs = Some fsText
      \<and> linkStatus ctx vsText fsText
    \<longrightarrow> (\<exists>sm'' ctx''.
           createDynamicProgram sm ctx name g p = (Normal (Object (nextHandle ctx)), sm'', ctx'')
           \<and> compiledShaders sm'' = compiledShaders sm
           \<and> shaderText ctx'' = shaderText ctx
           \<and> nextHandle ctx'' = Suc (nextHandle ctx)
           \<and> programs sm'' = (programs sm)(name \<mapsto> Some (nextHandle ctx))))"
proof -
  have replaced: "programs sm name = Some (Some old) \<and> old < nextHandle ctx
      \<and> createDynamicProgram sm ctx name g p = (Normal (Object new), sm', ctx')
    \<longrightarrow> old \<in> deletedPrograms ctx' \<and> new \<noteq> old
        \<and> programs sm' = (programs sm)(name \<mapsto> Some new)"
  proof (intro impI, elim conjE)
    assume h: "programs sm name = Some (Some old)" "old < nextHandle ctx"
          "createDynamicProgram sm ctx name g p = (Normal (Object new), sm', ctx')"
    from h(3) obtain vs fs sm2 ctx2 sm3 ctx3 where
      c: "createProgram sm2 ctx2 name vs fs = (Object new, sm3, ctx3)"
      and k: "programs sm2 = programs sm" "nextHandle ctx \<le> nextHandle ctx2"
             "programs sm' = programs sm3" "deletedPrograms ctx' = deletedPrograms ctx3"
      by (rule createDynamicProgram_Object)
    from h k have "programs sm2 name = Some (Some old)" "old < nextHandle ctx2" by auto
    from createProgram_replaces[OF c this] k
    show "old \<in> deletedPrograms ctx' \<and> new \<noteq> old
        \<and> programs sm' = (programs sm)(name \<mapsto> Some new)" by simp
  qed
  have keyed: "createDynamicProgram sm ctx name (JStr gn) (JStr pn) = (Normal (Object new), sm', ctx')
    \<longrightarrow> (\<exists>fs. compiledShaders sm' (''fragment-'' @ gn @ ''-'' @ pn) = Some (Some fs))"
  proof
    assume "createDynamicProgram sm ctx name (JStr gn) (JStr pn) = (Normal (Object new), sm', ctx')"
    then obtain vs fs sm2 ctx2 sm3 ctx3 fsId where
      c: "createProgram sm2 ctx2 name vs fs = (Object new, sm3, ctx3)"
      and k: "compiledShaders sm2 fsId = Some (Some fs)" "compiledShaders sm' = compiledShaders sm3"
        "\<exists>gn' pn'. templateText (JStr gn) = Some gn' \<and> templateText (JStr pn) = Some pn'
             \<and> fsId = ''fragment-'' @ gn' @ ''-'' @ pn'"
      by (rule createDynamicProgram_Object)
    have "compiledShaders sm3 = compiledShaders sm2"
      using createProgram_keeps_stages[of sm2 ctx2 name vs fs] c by simp
    with k show "\<exists>fs. compiledShaders sm' (''fragment-'' @ gn @ ''-'' @ pn) = Some (Some fs)"
      by auto
  qed
  have fresh: "(compiledShaders sm ident = None \<or> compiledShaders sm ident = Some None)
      \<and> \<not> contextLost ctx \<and> compileStatus ctx source
    \<longrightarrow> compileShader sm ctx ident source t =
          (Object (nextHandle ctx),
           sm\<lparr>compiledShaders := (compiledShaders sm)(ident \<mapsto> Some (nextHandle ctx))\<rparr>,
           ctx\<lparr>nextHandle := Suc (nextHandle ctx),
               shaderText := (shaderText ctx)(nextHandle ctx \<mapsto> source)\<rparr>)"
    using compileShader_fresh[of sm ident ctx source t] by blast
  have cached: "compiledShaders sm ident = Some (Some stage)
    \<longrightarrow> compileShader sm ctx ident source t = (Object stage, sm, ctx)"
    using compileShader_cached[of sm ident stage ctx source t] by blast
  have relinked: "shaderSources sm (baseVertexShaderName sm) = Some (vsSource, vsType)
      \<and> compiledShaders sm (baseVertexShaderName sm) = Some (Some vs)
      \<and> assembleFragment sm g p = Normal (Object (fsId, fsSource, fsType))
      \<and> compiledShaders sm fsId = Some (Some fs)
      \<and> \<not> contextLost ctx
      \<and> shaderText ctx vs = Some vsText \<and> shaderText ctx fs = Some fsText
      \<and> linkStatus ctx vsText fsText
    \<longrightarrow> (\<exists>sm'' ctx''.
           createDynamicProgram sm ctx name g p = (Normal (Object (nextHandle ctx)), sm'', ctx'')
           \<and> compiledShaders sm'' = compiledShaders sm
           \<and> shaderText ctx'' = shaderText ctx
           \<and> nextHandle ctx'' = Suc (nextHandle ctx)
           \<and> programs sm'' = (programs sm)(name \<mapsto> Some (nextHandle ctx)))"
  proof (intro impI, elim conjE)
    assume h: "shaderSources sm (baseVertexShaderName sm) = Some (vsSource, vsType)"
      "compiledShaders sm (baseVertexShaderName sm) = Some (Some vs)"
      "assembleFragment sm g p = Normal (Object (fsId, fsSource, fsType))"
      "compiledShaders sm fsId = Some (Some fs)"
      "\<not> contextLost ctx"
      "shaderText ctx vs = Some vsText" "shaderText ctx fs = Some fsText"
      "linkStatus ctx vsText fsText"
    from createDynamicProgram_relinks[OF h, of name]
    show "\<exists>sm'' ctx''.
           createDynamicProgram sm ctx name g p = (Normal (Object (nextHandle ctx)), sm'', ctx'')
           \<and> compiledShaders sm'' = compiledShaders sm
           \<and> shaderText ctx'' = shaderText ctx
           \<and> nextHandle ctx'' = Suc (nextHandle ctx)
           \<and> programs sm'' = (programs sm)(name \<mapsto> Some (nextHandle ctx))"
      by blast
  qed
  from replaced keyed fresh cached relinked show ?thesis by (intro conjI)
qed

text \<open>
  C9, amended, at the sample shader manager: composing the grid with the linear projection
  replaces program 3 by program 5 and leaves the fragment stage, shader 4, in the cache
  under \<open>fragment-grid-linear\<close>; compiling under that identifier stores the new stage
  there; the cached fragment stage of the first pair is returned as it is; and composing
  the first pair again links program 4 from the cached stages and compiles nothing.
\<close>

theorem program_replaced_stage_reused_witness:
  "programs sampleShaderManager ''maleficarumViz'' = Some (Some 3)
   \<and> 3 < nextHandle workingGL
   \<and> fst (createDynamicProgram sampleShaderManager workingGL ''maleficarumViz''
            (JStr ''grid'') (JStr ''linear'')) = Normal (Object 5)
   \<and> 3 \<in> deletedPrograms (snd (snd (createDynamicProgram sampleShaderManager workingGL
            ''maleficarumViz'' (JStr ''grid'') (JStr ''linear''))))
   \<and> compiledShaders (fst (snd (createDynamicProgram sampleShaderManager workingGL
            ''maleficarumViz'' (JStr ''grid'') (JStr ''linear'')))) ''fragment-grid-linear''
        = Some (Some 4)
   \<and> compiledShaders sampleShaderManager ''fragment-grid-linear'' = None
   \<and> fst (compileShader sampleShaderManager workingGL ''fragment-grid-linear''
            ''void main() { }'' FRAGMENT_SHADER) = Object 4
   \<and> compiledShaders (fst (snd (compileShader sampleShaderManager workingGL
            ''fragment-grid-linear'' ''void main() { }'' FRAGMENT_SHADER)))
         ''fragment-grid-linear'' = Some (Some 4)
   \<and> compiledShaders sampleShaderManager ''fragment-hypercube-perspective'' = Some (Some 2)
   \<and> compileShader sampleShaderManager workingGL ''fragment-hypercube-perspective''
        sampleTemplate FRAGMENT_SHADER = (Object 2, sampleShaderManager, workingGL)
   \<and> fst (createDynamicProgram sampleShaderManager workingGL ''maleficarumViz''
            (JStr ''hypercube'') (JStr ''perspective'')) = Normal (Object 4)
   \<and> nextHandle (snd (snd (createDynamicProgram sampleShaderManager workingGL
            ''maleficarumViz'' (JStr ''hypercube'') (JStr ''perspective'')))) = 5
   \<and> shaderText (snd (snd (createDynamicProgram sampleShaderManager workingGL
            ''maleficarumViz'' (JStr ''hypercube'') (JStr ''perspective'')))) 4 = None"
proof -
  let ?r = "createDynamicProgram sampleShaderManager workingGL ''maleficarumViz''
              (JStr ''grid'') (JStr ''linear'')"
  let ?q = "createDynamicProgram sampleShaderManager workingGL ''maleficarumViz''
              (JStr ''hypercube'') (JStr ''perspective'')"
  let ?lattice = "''float calculateLattice(vec3 p) { return u_gridDensity; }''"
  let ?linear = "''vec3 project4Dto3D(vec4 p) { return p.xyz; }''"
  have h1: "programs sampleShaderManager ''maleficarumViz'' = Some (Some 3)"
    by (simp add: sampleShaderManager_def)
  have h2: "3 < nextHandle workingGL" and nh: "nextHandle workingGL = 4"
    and live: "\<not> contextLost workingGL"
    and ok: "compileStatus workingGL ''void main() { }''"
    and t1: "shaderText workingGL 1 = Some baseVertexShaderSource"
    and t2: "shaderText workingGL 2
               = Some (injectShaderCode baseFragmentShaderSource hypercube_glsl
                         (perspective_glsl ''2.50''))"
    and t4: "shaderText workingGL 4 = None"
    and lk: "linkStatus workingGL baseVertexShaderSource
               (injectShaderCode baseFragmentShaderSource hypercube_glsl (perspective_glsl ''2.50''))"
    by (simp_all add: workingGL_def)
  have e: "(case ?r of (r, sm, ctx) \<Rightarrow> (r, compiledShaders sm ''fragment-grid-linear''))
             = (Normal (Object 5), Some (Some 4))"
    by code_simp
  then have f: "fst ?r = Normal (Object 5)"
    and c2: "compiledShaders (fst (snd ?r)) ''fragment-grid-linear'' = Some (Some 4)"
    by (simp_all add: case_prod_beta)
  from f have h3: "?r = (Normal (Object 5), fst (snd ?r), snd (snd ?r))"
    by (metis prod.collapse)
  have h4: "compiledShaders sampleShaderManager ''fragment-hypercube-perspective'' = Some (Some 2)"
    and h5: "compiledShaders sampleShaderManager ''fragment-grid-linear'' = None"
    and h5': "compiledShaders sampleShaderManager ''fragment-grid-linear'' = None
              \<or> compiledShaders sampleShaderManager ''fragment-grid-linear'' = Some None"
    and v1: "shaderSources sampleShaderManager (baseVertexShaderName sampleShaderManager)
               = Some (baseVertexShaderSource, VERTEX_SHADER)"
    and v2: "compiledShaders sampleShaderManager (baseVertexShaderName sampleShaderManager)
               = Some (Some 1)"
    by (simp_all add: sampleShaderManager_def)
  have a: "assembleFragment sampleShaderManager (JStr ''hypercube'') (JStr ''perspective'')
             = Normal (Object (''fragment-hypercube-perspective'',
                 injectShaderCode sampleTemplate ?lattice ?linear, FRAGMENT_SHADER))"
    by code_simp
  note at = program_replaced_stage_reused
      [where sm = sampleShaderManager and ctx = workingGL and name = "''maleficarumViz''"
         and old = 3 and new = 5 and sm' = "fst (snd ?r)" and ctx' = "snd (snd ?r)"]
  note at1 = at[where g = "JStr ''grid''" and p = "JStr ''linear''" and gn = "''grid''"
         and pn = "''linear''" and ident = "''fragment-grid-linear''"
         and source = "''void main() { }''" and t = FRAGMENT_SHADER]
  note at2 = at[where g = "JStr ''hypercube''" and p = "JStr ''perspective''"
         and ident = "''fragment-hypercube-perspective''" and stage = 2
         and source = sampleTemplate and t = FRAGMENT_SHADER
         and vsSource = baseVertexShaderSource and vsType = VERTEX_SHADER and vs = 1
         and fsId = "''fragment-hypercube-perspective''"
         and fsSource = "injectShaderCode sampleTemplate ?lattice ?linear"
         and fsType = FRAGMENT_SHADER and fs = 2 and vsText = baseVertexShaderSource
         and fsText = "injectShaderCode baseFragmentShaderSource hypercube_glsl
                         (perspective_glsl ''2.50'')"]
  from at1 h1 h2 h3 have c1: "3 \<in> deletedPrograms (snd (snd ?r))" by blast
  from at1 h5' live ok
  have fr: "compileShader sampleShaderManager workingGL ''fragment-grid-linear''
              ''void main() { }'' FRAGMENT_SHADER =
          (Object (nextHandle workingGL),
           sampleShaderManager\<lparr>compiledShaders :=
              (compiledShaders sampleShaderManager)
                (''fragment-grid-linear'' \<mapsto> Some (nextHandle workingGL))\<rparr>,
           workingGL\<lparr>nextHandle := Suc (nextHandle workingGL),
               shaderText := (shaderText workingGL)(nextHandle workingGL \<mapsto> ''void main() { }'')\<rparr>)"
    by blast
  from fr nh
  have c3: "fst (compileShader sampleShaderManager workingGL ''fragment-grid-linear''
            ''void main() { }'' FRAGMENT_SHADER) = Object 4"
    and c4: "compiledShaders (fst (snd (compileShader sampleShaderManager workingGL
            ''fragment-grid-linear'' ''void main() { }'' FRAGMENT_SHADER)))
         ''fragment-grid-linear'' = Some (Some 4)"
    by simp_all
  from at2 h4 have c5: "compileShader sampleShaderManager workingGL
        ''fragment-hypercube-perspective'' sampleTemplate FRAGMENT_SHADER
        = (Object 2, sampleShaderManager, workingGL)" by blast
  from at2 v1 v2 a h4 live t1 t2 lk obtain sm'' ctx'' where
    q: "?q = (Normal (Object (nextHandle workingGL)), sm'', ctx'')"
       "shaderText ctx'' = shaderText workingGL"
       "nextHandle ctx'' = Suc (nextHandle workingGL)"
    by blast
  from q nh t4
  have c6: "fst ?q = Normal (Object 4)" and c7: "nextHandle (snd (snd ?q)) = 5"
    and c8: "shaderText (snd (snd ?q)) 4 = None"
    by simp_all
  from h1 h2 f c1 c2 h5 c3 c4 h4 c5 c6 c7 c8 show ?thesis by (intro conjI)
qed

section \<open>The flush of the dirty uniforms\<close>

text \<open>
  C5 fails as stated. In the sample core two of the nineteen dirty uniforms have no
  location. The flush completes normally and leaves exactly these two in the dirty set, and
  the flush of the next frame finds them there and keeps them again.
\<close>

theorem unresolved_uniform_kept:
  "(case setUniforms sampleCore of
      (r1, c1) \<Rightarrow> (case setUniforms c1 of
        (r2, c2) \<Rightarrow> (r1, dirtyUniforms c1, r2, dirtyUniforms c2)))
   = (Normal (), [''u_shellWidth'', ''u_tetraThickness''],
      Normal (), [''u_shellWidth'', ''u_tetraThickness''])"
  by code_simp

lemma getUniformLocation_current:
  assumes "currentProgramObject sm = Some (pn, prog)" and "uniformLocations sm pn = Some cache"
  shows "fst (getUniformLocation sm ctx u) = Normal (resolveUniform sm ctx u)"
    and "currentProgramObject (snd (getUniformLocation sm ctx u)) = Some (pn, prog)"
    and "\<exists>cache'. uniformLocations (snd (getUniformLocation sm ctx u)) pn = Some cache'"
    and "resolveUniform (snd (getUniformLocation sm ctx u)) ctx v = resolveUniform sm ctx v"
proof -
  show "fst (getUniformLocation sm ctx u) = Normal (resolveUniform sm ctx u)"
    using assms
    by (auto simp: resolveUniform_def getUniformLocation_def Let_def split: option.splits)
  show "currentProgramObject (snd (getUniformLocation sm ctx u)) = Some (pn, prog)"
    using assms
    by (auto simp: getUniformLocation_def currentProgramObject_def Let_def split: option.splits)
  show "\<exists>cache'. uniformLocations (snd (getUniformLocation sm ctx u)) pn = Some cache'"
    using assms
    by (auto simp: getUniformLocation_def Let_def split: option.splits)
  show "resolveUniform (snd (getUniformLocation sm ctx u)) ctx v = resolveUniform sm ctx v"
    using assms
    by (auto simp: resolveUniform_def getUniformLocation_def currentProgramObject_def Let_def
        split: option.splits if_splits)
qed

lemma resolveUniform_context:
  assumes "contextLost ctx' = contextLost ctx" and "uniformLocationOf ctx' = uniformLocationOf ctx"
  shows "resolveUniform sm ctx' u = resolveUniform sm ctx u"
  using assms
  by (simp add: resolveUniform_def getUniformLocation_def gl_getUniformLocation_def Let_def
      split: option.splits)

lemma uploadUniform_keeps:
  "shaderManager (uploadUniform name loc c) = shaderManager c"
  "contextLost (gl (uploadUniform name loc c)) = contextLost (gl c)"
  "uniformLocationOf (gl (uploadUniform name loc c)) = uniformLocationOf (gl c)"
  "props (uploadUniform name loc c) = props c"
  "contextHeld (uploadUniform name loc c) = contextHeld c"
  by (simp_all add: uploadUniform_def gl_uniform_def split: option.splits)

text \<open>The upload of one uniform: one call, with the value the \<open>switch\<close> reads from the state.\<close>

lemma uploadUniform_calls:
  assumes "contextHeld c"
  shows "uniformCalls (gl (uploadUniform name loc c))
           = uniformCalls (gl c)
             @ (case uniformValue (props c) name of None \<Rightarrow> [] | Some v \<Rightarrow> [(loc, v)])"
  using assms by (simp add: uploadUniform_def gl_uniform_def split: option.splits)

lemma set_setAdd [simp]: "set (setAdd x xs) = insert x (set xs)"
  by (auto simp: setAdd_def)

lemma flushDirty_result:
  assumes "currentProgramObject (shaderManager c) = Some (pn, prog)"
      and "uniformLocations (shaderManager c) pn = Some cache"
      and "contextHeld c"
      and "R = resolveUniform (shaderManager c) (gl c)" and "V = uniformValue (props c)"
  shows "\<exists>retry' c'. flushDirty names retry c = (Normal retry', c')
           \<and> set retry' = set retry \<union> {u \<in> set names. u \<noteq> ''u_time'' \<and> R u = None}
           \<and> uniformCalls (gl c')
               = uniformCalls (gl c)
                 @ concat (map (\<lambda>u. case R u of
                                       None \<Rightarrow> []
                                     | Some loc \<Rightarrow>
                                         (case V u of None \<Rightarrow> [] | Some v \<Rightarrow> [(loc, v)]))
                             (filter (\<lambda>u. u \<noteq> ''u_time'') names))"
  using assms
proof (induction names arbitrary: retry c cache)
  case Nil
  then show ?case by simp
next
  case (Cons name names)
  let ?G = "\<lambda>u. case R u of
                   None \<Rightarrow> []
                 | Some loc \<Rightarrow> (case V u of None \<Rightarrow> [] | Some v \<Rightarrow> [(loc, v)])"
  let ?P = "\<lambda>u. u \<noteq> ''u_time''"
  show ?case
  proof (cases "name = ''u_time''")
    case True
    from Cons.IH[OF Cons.prems, of retry]
    obtain retry' c' where a: "flushDirty names retry c = (Normal retry', c')"
      and b: "set retry' = set retry \<union> {u \<in> set names. u \<noteq> ''u_time'' \<and> R u = None}"
      and d: "uniformCalls (gl c') = uniformCalls (gl c) @ concat (map ?G (filter ?P names))"
      by blast
    have 1: "flushDirty (name # names) retry c = (Normal retry', c')"
      using a True by simp
    have "{u \<in> set (name # names). u \<noteq> ''u_time'' \<and> R u = None}
                 = {u \<in> set names. u \<noteq> ''u_time'' \<and> R u = None}"
      using True by auto
    then have 2: "set retry' = set retry \<union> {u \<in> set (name # names). u \<noteq> ''u_time'' \<and> R u = None}"
      using b by simp
    have 3: "uniformCalls (gl c')
               = uniformCalls (gl c) @ concat (map ?G (filter ?P (name # names)))"
      using d True by simp
    from 1 2 3 show ?thesis by blast
  next
    case False
    let ?sm = "shaderManager c"
    let ?q = "getUniformLocation ?sm (gl c) name"
    let ?sm' = "snd ?q"
    note q = getUniformLocation_current[OF Cons.prems(1,2), of "gl c" name]
    have fstq: "fst ?q = Normal (R name)"
      unfolding Cons.prems(4) by (rule q(1))
    obtain cache' where cache': "uniformLocations ?sm' pn = Some cache'"
      using q(3) by blast
    have same: "resolveUniform ?sm' (gl c) v = R v" for v
      unfolding Cons.prems(4) by (rule q(4))
    show ?thesis
    proof (cases "R name")
      case None
      let ?c1 = "c\<lparr>shaderManager := ?sm'\<rparr>"
      have step: "flushDirty (name # names) retry c = flushDirty names (setAdd name retry) ?c1"
        using False fstq None by (cases ?q) simp
      have inv: "currentProgramObject (shaderManager ?c1) = Some (pn, prog)"
           "uniformLocations (shaderManager ?c1) pn = Some cache'" "contextHeld ?c1"
        using q(2) cache' Cons.prems(3) by simp_all
      have r: "R = resolveUniform (shaderManager ?c1) (gl ?c1)"
        by (rule ext) (simp add: same)
      have pr: "V = uniformValue (props ?c1)"
        using Cons.prems(5) by simp
      from Cons.IH[OF inv r pr, of "setAdd name retry"]
      obtain retry' c' where a: "flushDirty names (setAdd name retry) ?c1 = (Normal retry', c')"
        and b: "set retry' = set (setAdd name retry)
                  \<union> {u \<in> set names. u \<noteq> ''u_time'' \<and> R u = None}"
        and d: "uniformCalls (gl c') = uniformCalls (gl ?c1) @ concat (map ?G (filter ?P names))"
        by blast
      have 1: "flushDirty (name # names) retry c = (Normal retry', c')"
        using a step by simp
      have "{u \<in> set (name # names). u \<noteq> ''u_time'' \<and> R u = None}
                   = insert name {u \<in> set names. u \<noteq> ''u_time'' \<and> R u = None}"
        using None False by auto
      then have 2: "set retry' = set retry \<union> {u \<in> set (name # names). u \<noteq> ''u_time'' \<and> R u = None}"
        using b by simp
      have "?G name = []" using None by simp
      then have 3: "uniformCalls (gl c')
               = uniformCalls (gl c) @ concat (map ?G (filter ?P (name # names)))"
        using d False by simp
      from 1 2 3 show ?thesis by blast
    next
      case (Some loc)
      let ?c1 = "uploadUniform name loc (c\<lparr>shaderManager := ?sm'\<rparr>)"
      have step: "flushDirty (name # names) retry c = flushDirty names retry ?c1"
        using False fstq Some by (cases ?q) simp
      have inv: "currentProgramObject (shaderManager ?c1) = Some (pn, prog)"
           "uniformLocations (shaderManager ?c1) pn = Some cache'" "contextHeld ?c1"
        using q(2) cache' Cons.prems(3) by (simp_all add: uploadUniform_keeps)
      have "R v = resolveUniform (shaderManager ?c1) (gl ?c1) v" for v
      proof -
        have "resolveUniform (shaderManager ?c1) (gl ?c1) v = resolveUniform ?sm' (gl ?c1) v"
          by (simp add: uploadUniform_keeps)
        also have "\<dots> = resolveUniform ?sm' (gl c) v"
          by (rule resolveUniform_context) (simp_all add: uploadUniform_keeps)
        also have "\<dots> = R v" by (rule same)
        finally show ?thesis by simp
      qed
      then have r: "R = resolveUniform (shaderManager ?c1) (gl ?c1)"
        by (rule ext)
      have pr: "V = uniformValue (props ?c1)"
        using Cons.prems(5) by (simp add: uploadUniform_keeps)
      have calls: "uniformCalls (gl ?c1)
           = uniformCalls (gl c) @ (case V name of None \<Rightarrow> [] | Some v \<Rightarrow> [(loc, v)])"
        using uploadUniform_calls[of "c\<lparr>shaderManager := ?sm'\<rparr>" name loc] Cons.prems(3,5)
        by simp
      from Cons.IH[OF inv r pr, of retry]
      obtain retry' c' where a: "flushDirty names retry ?c1 = (Normal retry', c')"
        and b: "set retry' = set retry \<union> {u \<in> set names. u \<noteq> ''u_time'' \<and> R u = None}"
        and d: "uniformCalls (gl c') = uniformCalls (gl ?c1) @ concat (map ?G (filter ?P names))"
        by blast
      have 1: "flushDirty (name # names) retry c = (Normal retry', c')"
        using a step by simp
      have "R name \<noteq> None" using Some by simp
      then have "{u \<in> set (name # names). u \<noteq> ''u_time'' \<and> R u = None}
                   = {u \<in> set names. u \<noteq> ''u_time'' \<and> R u = None}"
        by auto
      then have 2: "set retry' = set retry \<union> {u \<in> set (name # names). u \<noteq> ''u_time'' \<and> R u = None}"
        using b by simp
      have "?G name = (case V name of None \<Rightarrow> [] | Some v \<Rightarrow> [(loc, v)])"
        using Some by simp
      then have 3: "uniformCalls (gl c')
               = uniformCalls (gl c) @ concat (map ?G (filter ?P (name # names)))"
        using d calls False by simp
      from 1 2 3 show ?thesis by blast
    qed
  qed
qed

lemma flushWith_current:
  assumes name: "name \<noteq> []"
      and prog: "programs (shaderManager c) name = Some (Some program)"
      and cache: "uniformLocations (shaderManager c) name = Some cache"
      and held: "contextHeld c"
  shows "fst (flushWith (Some name) c) = Normal ()
         \<and> set (dirtyUniforms (snd (flushWith (Some name) c)))
             = {u \<in> set (dirtyUniforms c). u \<noteq> ''u_time''
                  \<and> resolveUniform ((shaderManager c)\<lparr>currentProgramName := Some name\<rparr>) (gl c) u
                      = None}
         \<and> uniformCalls (gl (snd (flushWith (Some name) c)))
             = uniformCalls (gl c)
               @ (case resolveUniform ((shaderManager c)\<lparr>currentProgramName := Some name\<rparr>)
                         (gl c) ''u_time'' of
                    None \<Rightarrow> []
                  | Some loc \<Rightarrow> [(loc, props c ''time'')])
               @ concat (map (\<lambda>u. case resolveUniform
                                         ((shaderManager c)\<lparr>currentProgramName := Some name\<rparr>)
                                         (gl c) u of
                                     None \<Rightarrow> []
                                   | Some loc \<Rightarrow>
                                       (case uniformValue (props c) u of
                                          None \<Rightarrow> []
                                        | Some v \<Rightarrow> [(loc, v)]))
                           (filter (\<lambda>u. u \<noteq> ''u_time'') (dirtyUniforms c)))"
proof -
  let ?sm1 = "(shaderManager c)\<lparr>currentProgramName := Some name\<rparr>"
  obtain g1 where used: "useProgram (shaderManager c) (gl c) (Some name) = (True, ?sm1, g1)"
    and g1: "contextLost g1 = contextLost (gl c)" "uniformLocationOf g1 = uniformLocationOf (gl c)"
      "uniformCalls g1 = uniformCalls (gl c)"
    using prog by (auto simp: useProgram_def gl_useProgram_def)
  let ?c1 = "withShaderManager ?sm1 g1 c"
  have cur: "currentProgramObject ?sm1 = Some (name, program)"
    using name prog by (simp add: currentProgramObject_def)
  have cache1: "uniformLocations ?sm1 name = Some cache"
    using cache by simp
  let ?q = "getUniformLocation ?sm1 g1 ''u_time''"
  note q = getUniformLocation_current[OF cur cache1, of g1 "''u_time''"]
  obtain cache2 where cache2: "uniformLocations (snd ?q) name = Some cache2"
    using q(3) by blast
  have tl: "resolveUniform ?sm1 g1 ''u_time'' = resolveUniform ?sm1 (gl c) ''u_time''"
    by (rule resolveUniform_context) (simp_all add: g1)
  let ?c1' = "?c1\<lparr>shaderManager := snd ?q\<rparr>"
  obtain c2 where up: "uploadTime (resolveUniform ?sm1 g1 ''u_time'') ?c1' = (Normal (), c2)"
    and c2sm: "shaderManager c2 = snd ?q"
    and c2gl: "contextLost (gl c2) = contextLost g1" "uniformLocationOf (gl c2) = uniformLocationOf g1"
    and c2dirty: "filter (\<lambda>u. u \<noteq> ''u_time'') (dirtyUniforms c2)
                    = filter (\<lambda>u. u \<noteq> ''u_time'') (dirtyUniforms c)"
    and c2props: "props c2 = props c" and c2held: "contextHeld c2"
    and c2calls: "uniformCalls (gl c2)
                    = uniformCalls (gl c)
                      @ (case resolveUniform ?sm1 (gl c) ''u_time'' of
                           None \<Rightarrow> []
                         | Some loc \<Rightarrow> [(loc, props c ''time'')])"
    using held g1(3) unfolding tl
    by (cases "resolveUniform ?sm1 (gl c) ''u_time''")
       (auto simp: uploadTime_def withShaderManager_def gl_uniform_def setAdd_def)
  have inv: "currentProgramObject (shaderManager c2) = Some (name, program)"
            "uniformLocations (shaderManager c2) name = Some cache2"
    using q(2) cache2 c2sm by simp_all
  have res: "resolveUniform (shaderManager c2) (gl c2) u = resolveUniform ?sm1 (gl c) u" for u
  proof -
    have "resolveUniform (shaderManager c2) (gl c2) u = resolveUniform (snd ?q) g1 u"
      unfolding c2sm by (rule resolveUniform_context) (simp_all add: c2gl)
    also have "\<dots> = resolveUniform ?sm1 g1 u" by (rule q(4))
    also have "\<dots> = resolveUniform ?sm1 (gl c) u"
      by (rule resolveUniform_context) (simp_all add: g1)
    finally show ?thesis .
  qed
  then have resf: "resolveUniform (shaderManager c2) (gl c2) = resolveUniform ?sm1 (gl c)"
    by (rule ext)
  have resf': "resolveUniform ?sm1 (gl c) = resolveUniform (shaderManager c2) (gl c2)"
    using resf by simp
  have vf: "uniformValue (props c) = uniformValue (props c2)"
    using c2props by simp
  from flushDirty_result[OF inv c2held resf' vf, of "dirtyUniforms c2" "[]"]
  obtain retry' c3 where fl: "flushDirty (dirtyUniforms c2) [] c2 = (Normal retry', c3)"
    and retry': "set retry' = {u \<in> set (dirtyUniforms c2). u \<noteq> ''u_time''
                   \<and> resolveUniform ?sm1 (gl c) u = None}"
    and calls: "uniformCalls (gl c3)
               = uniformCalls (gl c2)
                 @ concat (map (\<lambda>u. case resolveUniform ?sm1 (gl c) u of
                                       None \<Rightarrow> []
                                     | Some loc \<Rightarrow>
                                         (case uniformValue (props c) u of
                                            None \<Rightarrow> []
                                          | Some v \<Rightarrow> [(loc, v)]))
                             (filter (\<lambda>u. u \<noteq> ''u_time'') (dirtyUniforms c)))"
    unfolding c2dirty by auto
  have run: "flushWith (Some name) c = (Normal (), c3\<lparr>dirtyUniforms := retry'\<rparr>)"
    using used q(1) up fl
    by (cases ?q) (simp add: flushWith_def Let_def)
  have "{u \<in> set (dirtyUniforms c2). u \<noteq> ''u_time'' \<and> resolveUniform ?sm1 (gl c) u = None}
        = {u \<in> set (filter (\<lambda>u. u \<noteq> ''u_time'') (dirtyUniforms c2)).
             resolveUniform ?sm1 (gl c) u = None}"
    by auto
  also have "\<dots> = {u \<in> set (dirtyUniforms c). u \<noteq> ''u_time''
                  \<and> resolveUniform ?sm1 (gl c) u = None}"
    unfolding c2dirty by auto
  finally have "set retry' = {u \<in> set (dirtyUniforms c). u \<noteq> ''u_time''
                  \<and> resolveUniform ?sm1 (gl c) u = None}"
    using retry' by simp
  with run calls c2calls show ?thesis by simp
qed

lemma flushWith_no_program:
  assumes "programs (shaderManager c) name = None \<or> programs (shaderManager c) name = Some None"
  shows "fst (flushWith (Some name) c) = Normal ()
         \<and> dirtyUniforms (snd (flushWith (Some name) c)) = dirtyUniforms c
         \<and> uniformCalls (gl (snd (flushWith (Some name) c))) = uniformCalls (gl c)"
  using assms
  by (auto simp: flushWith_def useProgram_def withShaderManager_def gl_useProgram_def Let_def)

text \<open>
  C5, amended. When the program of the core is linked and is made current, the flush
  completes normally and the dirty set it leaves consists of exactly those names of the old
  dirty set, other than \<open>u_time\<close>, for which no location is resolved: such a name is kept
  and tried again by the next flush. Every name with a location is uploaded and dropped:
  the uploads the flush makes are the time, when it has a location, followed by one upload
  for each dirty name with a location, in the order of the dirty set, of the value the
  state holds for it. The dirty set is therefore empty after a flush only if every dirty
  name other than \<open>u_time\<close> had a location. When the core has no program under its name,
  the flush returns at once: the dirty set stays as it is and nothing is uploaded.
\<close>

theorem flush_keeps_unresolved:
  "(props c ''shaderProgramName'' = Some (JStr name) \<and> name \<noteq> []
      \<and> programs (shaderManager c) name = Some (Some program)
      \<and> uniformLocations (shaderManager c) name = Some cache \<and> contextHeld c
    \<longrightarrow> fst (setUniforms c) = Normal ()
        \<and> set (dirtyUniforms (snd (setUniforms c)))
            = {u \<in> set (dirtyUniforms c). u \<noteq> ''u_time''
                 \<and> resolveUniform ((shaderManager c)\<lparr>currentProgramName := Some name\<rparr>) (gl c) u
                     = None}
        \<and> uniformCalls (gl (snd (setUniforms c)))
            = uniformCalls (gl c)
              @ (case resolveUniform ((shaderManager c)\<lparr>currentProgramName := Some name\<rparr>)
                        (gl c) ''u_time'' of
                   None \<Rightarrow> []
                 | Some loc \<Rightarrow> [(loc, props c ''time'')])
              @ concat (map (\<lambda>u. case resolveUniform
                                        ((shaderManager c)\<lparr>currentProgramName := Some name\<rparr>)
                                        (gl c) u of
                                    None \<Rightarrow> []
                                  | Some loc \<Rightarrow>
                                      (case uniformValue (props c) u of
                                         None \<Rightarrow> []
                                       | Some v \<Rightarrow> [(loc, v)]))
                          (filter (\<lambda>u. u \<noteq> ''u_time'') (dirtyUniforms c))))
   \<and> (props c ''shaderProgramName'' = Some (JStr name)
      \<and> (programs (shaderManager c) name = None \<or> programs (shaderManager c) name = Some None)
    \<longrightarrow> fst (setUniforms c) = Normal ()
        \<and> dirtyUniforms (snd (setUniforms c)) = dirtyUniforms c
        \<and> uniformCalls (gl (snd (setUniforms c))) = uniformCalls (gl c))"
  using flushWith_current[of name c program cache] flushWith_no_program[of c name]
  by (auto simp: setUniforms_def)

text \<open>
  C5, amended, at the sample core: \<open>u_shellWidth\<close> is dirty and has no location, so it is in
  the dirty set after the flush; the flush uploads the time and the sixteen dirty uniforms
  that have a location, each with the value of the state; with the program missing (a
  failed link) the dirty set is untouched and nothing is uploaded.
\<close>

theorem flush_keeps_unresolved_witness:
  "props sampleCore ''shaderProgramName'' = Some (JStr ''maleficarumViz'')
   \<and> programs (shaderManager sampleCore) ''maleficarumViz'' = Some (Some 3)
   \<and> uniformLocations (shaderManager sampleCore) ''maleficarumViz'' = Some Map.empty
   \<and> contextHeld sampleCore
   \<and> ''u_shellWidth'' \<in> set (dirtyUniforms sampleCore)
   \<and> resolveUniform ((shaderManager sampleCore)\<lparr>currentProgramName := Some ''maleficarumViz''\<rparr>)
        (gl sampleCore) ''u_shellWidth'' = None
   \<and> fst (setUniforms sampleCore) = Normal ()
   \<and> ''u_shellWidth'' \<in> set (dirtyUniforms (snd (setUniforms sampleCore)))
   \<and> uniformCalls (gl (snd (setUniforms sampleCore)))
       = [(6, Some (JNum 0)), (12, Some (JArr [JNum 0, JNum 0])),
          (11, Some (JNum 4)), (13, Some (JNum (1 / 2))),
          (15, Some (JNum (2 / 10))), (18, Some (JNum 1)), (18, Some (JNum 1)),
          (13, Some (JNum 8)), (15, Some (JNum (3 / 100))), (17, Some (JNum 0)),
          (12, Some (JNum 0)), (11, Some (JNum 0)), (10, Some (JNum 0)),
          (11, Some (JNum 0)),
          (14, Some (JArr [JNum 1, JNum (2 / 10), JNum (8 / 10)])),
          (16, Some (JArr [JNum (2 / 10), JNum 1, JNum 1])),
          (17, Some (JArr [JNum (5 / 100), JNum 0, JNum (2 / 10)]))]
   \<and> programs (shaderManager
        (sampleCore\<lparr>shaderManager := sampleShaderManager\<lparr>programs := [''maleficarumViz'' \<mapsto> None]\<rparr>\<rparr>))
        ''maleficarumViz'' = Some None
   \<and> dirtyUniforms (snd (setUniforms
        (sampleCore\<lparr>shaderManager := sampleShaderManager\<lparr>programs := [''maleficarumViz'' \<mapsto> None]\<rparr>\<rparr>)))
       = allUniforms
   \<and> uniformCalls (gl (snd (setUniforms
        (sampleCore\<lparr>shaderManager := sampleShaderManager\<lparr>programs := [''maleficarumViz'' \<mapsto> None]\<rparr>\<rparr>))))
       = []"
proof -
  let ?cN = "sampleCore\<lparr>shaderManager := sampleShaderManager\<lparr>programs := [''maleficarumViz'' \<mapsto> None]\<rparr>\<rparr>"
  let ?sm = "(shaderManager sampleCore)\<lparr>currentProgramName := Some ''maleficarumViz''\<rparr>"
  have h1: "props sampleCore ''shaderProgramName'' = Some (JStr ''maleficarumViz'')"
    by (simp add: sampleCore_def DEFAULT_STATE_def)
  have h2: "''maleficarumViz'' \<noteq> []" by simp
  have h3: "programs (shaderManager sampleCore) ''maleficarumViz'' = Some (Some 3)"
    by (simp add: sampleCore_def sampleShaderManager_def)
  have h4: "uniformLocations (shaderManager sampleCore) ''maleficarumViz'' = Some Map.empty"
    by (simp add: sampleCore_def sampleShaderManager_def)
  have h5: "contextHeld sampleCore" by (simp add: sampleCore_def)
  have d: "''u_shellWidth'' \<in> set (dirtyUniforms sampleCore)"
    by (simp add: sampleCore_def allUniforms_def)
  have r: "resolveUniform ?sm (gl sampleCore) ''u_shellWidth'' = None"
    by code_simp
  have u0: "uniformCalls (gl sampleCore) = []"
    by (simp add: sampleCore_def workingGL_def)
  have e: "(case resolveUniform ?sm (gl sampleCore) ''u_time'' of
              None \<Rightarrow> []
            | Some loc \<Rightarrow> [(loc, props sampleCore ''time'')])
           @ concat (map (\<lambda>u. case resolveUniform ?sm (gl sampleCore) u of
                                 None \<Rightarrow> []
                               | Some loc \<Rightarrow>
                                   (case uniformValue (props sampleCore) u of
                                      None \<Rightarrow> []
                                    | Some v \<Rightarrow> [(loc, v)]))
                       (filter (\<lambda>u. u \<noteq> ''u_time'') (dirtyUniforms sampleCore)))
       = [(6, Some (JNum 0)), (12, Some (JArr [JNum 0, JNum 0])),
          (11, Some (JNum 4)), (13, Some (JNum (1 / 2))),
          (15, Some (JNum (2 / 10))), (18, Some (JNum 1)), (18, Some (JNum 1)),
          (13, Some (JNum 8)), (15, Some (JNum (3 / 100))), (17, Some (JNum 0)),
          (12, Some (JNum 0)), (11, Some (JNum 0)), (10, Some (JNum 0)),
          (11, Some (JNum 0)),
          (14, Some (JArr [JNum 1, JNum (2 / 10), JNum (8 / 10)])),
          (16, Some (JArr [JNum (2 / 10), JNum 1, JNum 1])),
          (17, Some (JArr [JNum (5 / 100), JNum 0, JNum (2 / 10)]))]"
    by code_simp
  have n1: "props ?cN ''shaderProgramName'' = Some (JStr ''maleficarumViz'')"
    by (simp add: sampleCore_def DEFAULT_STATE_def)
  have n2: "programs (shaderManager ?cN) ''maleficarumViz'' = Some None"
    by simp
  have n3: "dirtyUniforms ?cN = allUniforms" by (simp add: sampleCore_def)
  have n4: "uniformCalls (gl ?cN) = []" by (simp add: sampleCore_def workingGL_def)
  note at = flush_keeps_unresolved
      [where c = sampleCore and name = "''maleficarumViz''" and program = 3 and cache = Map.empty]
  note atN = flush_keeps_unresolved[where c = ?cN and name = "''maleficarumViz''"]
  from at h1 h2 h3 h4 h5 have c1: "fst (setUniforms sampleCore) = Normal ()"
    and c2: "set (dirtyUniforms (snd (setUniforms sampleCore)))
            = {u \<in> set (dirtyUniforms sampleCore). u \<noteq> ''u_time''
                 \<and> resolveUniform ?sm (gl sampleCore) u = None}"
    and c5: "uniformCalls (gl (snd (setUniforms sampleCore)))
            = uniformCalls (gl sampleCore)
              @ (case resolveUniform ?sm (gl sampleCore) ''u_time'' of
                   None \<Rightarrow> []
                 | Some loc \<Rightarrow> [(loc, props sampleCore ''time'')])
              @ concat (map (\<lambda>u. case resolveUniform ?sm (gl sampleCore) u of
                                    None \<Rightarrow> []
                                  | Some loc \<Rightarrow>
                                      (case uniformValue (props sampleCore) u of
                                         None \<Rightarrow> []
                                       | Some v \<Rightarrow> [(loc, v)]))
                          (filter (\<lambda>u. u \<noteq> ''u_time'') (dirtyUniforms sampleCore)))"
    by blast+
  from c2 d r have c3: "''u_shellWidth'' \<in> set (dirtyUniforms (snd (setUniforms sampleCore)))"
    by simp
  have c6: "uniformCalls (gl (snd (setUniforms sampleCore)))
       = [(6, Some (JNum 0)), (12, Some (JArr [JNum 0, JNum 0])),
          (11, Some (JNum 4)), (13, Some (JNum (1 / 2))),
          (15, Some (JNum (2 / 10))), (18, Some (JNum 1)), (18, Some (JNum 1)),
          (13, Some (JNum 8)), (15, Some (JNum (3 / 100))), (17, Some (JNum 0)),
          (12, Some (JNum 0)), (11, Some (JNum 0)), (10, Some (JNum 0)),
          (11, Some (JNum 0)),
          (14, Some (JArr [JNum 1, JNum (2 / 10), JNum (8 / 10)])),
          (16, Some (JArr [JNum (2 / 10), JNum 1, JNum 1])),
          (17, Some (JArr [JNum (5 / 100), JNum 0, JNum (2 / 10)]))]"
    unfolding c5 u0 e[symmetric] by simp
  from atN n1 n2 have "dirtyUniforms (snd (setUniforms ?cN)) = dirtyUniforms ?cN"
    and "uniformCalls (gl (snd (setUniforms ?cN))) = uniformCalls (gl ?cN)"
    by blast+
  with n3 n4 have c4: "dirtyUniforms (snd (setUniforms ?cN)) = allUniforms"
    and c7: "uniformCalls (gl (snd (setUniforms ?cN))) = []" by simp_all
  from h1 h3 h4 h5 d r c1 c3 c6 n2 c4 c7 show ?thesis by (intro conjI)
qed

end
